(* ===== verification/FAQ_Prelude.thy ===== *)
theory FAQ_Prelude
  imports Main "HOL-Library.Multiset" "HOL-Library.Product_Lexorder" "HOL-Library.Sublist"
begin

text \<open>
  Shared vocabulary of the FAQ backend model: the Python exceptions the code can raise,
  Python's list slicing and comprehension-with-exceptions, and the string operations of
  \<open>str\<close> the services use (\<open>strip\<close>, \<open>join\<close>, \<open>lower\<close>, \<open>in\<close>). Strings are
  \<open>char list\<close>s; only the ASCII part of Python's whitespace and case tables is modelled.
\<close>

named_theorems py_simps "characteristic equations of the Python primitives"

section \<open>Exceptions\<close>

text \<open>
  The exceptions that reach the HTTP layer: \<open>ValueError\<close> (sklearn's empty vocabulary,
  \<open>int()\<close> of a non-number, Django's negative slice), \<open>IndexError\<close>
  (\<open>self.ids[i]\<close> out of range), \<open>NotFittedError\<close> (sklearn transform before fit).
\<close>

datatype py_error =
    ValueError string
  | IndexError
  | NotFittedError

type_synonym 'a py_result = "py_error + 'a"

section \<open>Lists\<close>

text \<open>\<open>xs[:k]\<close> for a Python \<open>int\<close> \<open>k\<close>: a negative bound counts from the end.\<close>

definition py_slice_to :: "int \<Rightarrow> 'a list \<Rightarrow> 'a list" where
  "py_slice_to k xs = (if 0 \<le> k then take (nat k) xs else take (nat (int (length xs) + k)) xs)"

text \<open>
  A list comprehension \<open>[f(x) for x in xs]\<close> whose body may raise: the first exception
  aborts the whole comprehension.
\<close>

fun py_map :: "('a \<Rightarrow> 'b py_result) \<Rightarrow> 'a list \<Rightarrow> 'b list py_result" where
  "py_map f [] = Inr []"
| "py_map f (x # xs) =
     (case f x of
        Inl e \<Rightarrow> Inl e
      | Inr y \<Rightarrow> (case py_map f xs of Inl e \<Rightarrow> Inl e | Inr ys \<Rightarrow> Inr (y # ys)))"

text \<open>\<open>str.isspace\<close> on ASCII: tab, line feed, vertical tab, form feed, carriage
  return, the four separators 0x1c--0x1f, and the space.\<close>

definition py_isspace :: "char \<Rightarrow> bool" where
  "py_isspace c = (let n = of_char c :: nat in (9 \<le> n \<and> n \<le> 13) \<or> (28 \<le> n \<and> n \<le> 32))"

definition py_strip :: "string \<Rightarrow> string" where
  "py_strip s = rev (dropWhile py_isspace (rev (dropWhile py_isspace s)))"

text \<open>\<open>sep.join(xs)\<close>.\<close>

fun py_join :: "string \<Rightarrow> string list \<Rightarrow> string" where
  "py_join sep [] = []"
| "py_join sep [x] = x"
| "py_join sep (x # y # zs) = x @ sep @ py_join sep (y # zs)"

text \<open>ASCII lower-casing, as \<open>str.lower\<close> and SQL \<open>LOWER\<close> do on ASCII letters.\<close>

definition py_lower_char :: "char \<Rightarrow> char" where
  "py_lower_char c = (let n = of_char c :: nat in if 65 \<le> n \<and> n \<le> 90 then char_of (n + 32) else c)"

definition py_lower :: "string \<Rightarrow> string" where
  "py_lower s = map py_lower_char s"

text \<open>\<open>str(n)\<close> for a natural number, as Python's \<open>str()\<close> and f-strings print it.\<close>

fun nat_str :: "nat \<Rightarrow> string" where
  "nat_str n = (if n < 10 then [char_of (48 + n)] else nat_str (n div 10) @ [char_of (48 + n mod 10)])"

declare nat_str.simps [simp del]

definition py_int_str :: "int \<Rightarrow> string" where
  "py_int_str i = (if i < 0 then ''-'' @ nat_str (nat (- i)) else nat_str (nat i))"

text \<open>\<open>needle in haystack\<close> for strings: contiguous substring.\<close>

definition py_contains :: "string \<Rightarrow> string \<Rightarrow> bool" where
  "py_contains hay needle = sublist needle hay"

lemma py_slice_to_nonneg [py_simps]:
  "0 \<le> k \<Longrightarrow> py_slice_to k xs = take (nat k) xs"
  by (simp add: py_slice_to_def)

lemma py_slice_to_neg [py_simps]:
  "k < 0 \<Longrightarrow> py_slice_to k xs = take (nat (int (length xs) + k)) xs"
  by (simp add: py_slice_to_def)

lemma py_slice_to_prefix: "prefix (py_slice_to k xs) xs"
  by (simp add: py_slice_to_def take_is_prefix)

lemma set_py_slice_to: "set (py_slice_to k xs) \<subseteq> set xs"
  by (simp add: py_slice_to_def set_take_subset)

lemma length_py_slice_to:
  "length (py_slice_to k xs) =
     (if 0 \<le> k then min (length xs) (nat k) else nat (int (length xs) + k))"
  by (simp add: py_slice_to_def)

lemma distinct_py_slice_to: "distinct xs \<Longrightarrow> distinct (py_slice_to k xs)"
  by (simp add: py_slice_to_def)

lemma sorted_wrt_py_slice_to: "sorted_wrt R xs \<Longrightarrow> sorted_wrt R (py_slice_to k xs)"
  by (simp add: py_slice_to_def sorted_wrt_take)

lemma py_map_Inr_iff:
  "py_map f xs = Inr ys \<longleftrightarrow> list_all2 (\<lambda>x y. f x = Inr y) xs ys"
proof (induction xs arbitrary: ys)
  case Nil
  then show ?case by auto
next
  case (Cons x xs)
  show ?case
  proof (cases "f x")
    case Inl
    then show ?thesis by (auto simp: list_all2_Cons1)
  next
    case Inr
    with Cons.IH show ?thesis
      by (cases "py_map f xs") (auto simp: list_all2_Cons1)
  qed
qed

lemma py_map_all_Inr:
  "(\<And>x. x \<in> set xs \<Longrightarrow> f x = Inr (g x)) \<Longrightarrow> py_map f xs = Inr (map g xs)"
  by (induction xs) auto

lemma py_map_length: "py_map f xs = Inr ys \<Longrightarrow> length ys = length xs"
  by (simp add: py_map_Inr_iff list_all2_lengthD)

text \<open>A comprehension whose body raises \<open>e\<close> exactly where a guard fails.\<close>

lemma py_map_guarded [py_simps]:
  "py_map (\<lambda>x. if P x then Inr (g x) else Inl e) xs =
     (if \<forall>x \<in> set xs. P x then Inr (map g xs) else Inl e)"
  by (induction xs) auto

lemma set_map_filter: "set (List.map_filter f xs) = {y. \<exists>x \<in> set xs. f x = Some y}"
  by (induction xs) (auto split: option.splits)

lemma py_slice_to_take: "\<exists>n. py_slice_to k xs = take n xs"
  by (auto simp: py_slice_to_def)

section \<open>Strings\<close>

lemma length_py_strip: "length (py_strip s) \<le> length s"
proof -
  have "length (dropWhile py_isspace (rev (dropWhile py_isspace s))) \<le> length (dropWhile py_isspace s)"
    using length_dropWhile_le [of py_isspace "rev (dropWhile py_isspace s)"] by simp
  also have "\<dots> \<le> length s" by (rule length_dropWhile_le)
  finally show ?thesis by (simp add: py_strip_def)
qed

lemma dropWhile_id: "xs = [] \<or> \<not> P (hd xs) \<Longrightarrow> dropWhile P xs = xs"
  by (cases xs) auto

lemma py_strip_idem: "py_strip (py_strip s) = py_strip s"
proof -
  define t where "t = dropWhile py_isspace s"
  define u where "u = dropWhile py_isspace (rev t)"
  have "suffix u (rev t)" unfolding u_def by (rule suffix_dropWhile)
  then obtain zs where tz: "t = rev u @ zs" by (auto simp: suffix_to_prefix prefix_def)
  have "rev u = [] \<or> \<not> py_isspace (hd (rev u))"
  proof (cases "rev u = []")
    case False
    then have "t \<noteq> []" "hd t = hd (rev u)" by (simp_all add: tz)
    with hd_dropWhile [of py_isspace s] show ?thesis by (simp add: t_def)
  qed simp
  then have a: "dropWhile py_isspace (rev u) = rev u" by (rule dropWhile_id)
  have "u = [] \<or> \<not> py_isspace (hd u)" using hd_dropWhile [of py_isspace "rev t"] by (auto simp: u_def)
  then have b: "dropWhile py_isspace u = u" by (rule dropWhile_id)
  have "py_strip s = rev u" by (simp add: py_strip_def t_def u_def)
  then show ?thesis by (simp add: py_strip_def a b)
qed

lemma py_join_Nil_iff: "py_join sep xs = [] \<longleftrightarrow> (\<forall>x \<in> set xs. x = []) \<and> (length xs \<le> 1 \<or> sep = [])"
  by (induction sep xs rule: py_join.induct) auto

lemma py_join_singleton [py_simps]: "py_join sep [x] = x"
  by simp

lemma py_join_sublist: "s \<in> set xs \<Longrightarrow> sublist s (py_join sep xs)"
proof (induction sep xs rule: py_join.induct)
  case (3 sep x y zs)
  show ?case
  proof (cases "s = x")
    case True
    then show ?thesis by (simp add: sublist_appendI)
  next
    case False
    with "3.prems" have "sublist s (py_join sep (y # zs))" by (intro "3.IH") simp
    moreover have "sublist (py_join sep (y # zs)) ((x @ sep) @ py_join sep (y # zs))"
      by (rule sublist_append_leftI)
    ultimately show ?thesis by (simp add: sublist_order.order.trans)
  qed
qed auto


lemma find_append_last: "\<forall>x \<in> set xs. \<not> P x \<Longrightarrow> P e \<Longrightarrow> find P (xs @ [e]) = Some e"
  by (induction xs) auto

end
