(* ===== verification/KB_Models.thy ===== *)
theory KB_Models
  imports FAQ_Prelude
begin

text \<open>
  The persistence layer of \<open>src/faq_backend/api/models.py\<close>: the two tables
  \<open>KnowledgeBaseEntry\<close> and \<open>QueryLog\<close> (both with the timestamps of
  \<open>TimeStampedModel\<close>) and the ORM operations the services and views perform on them:
  the default ordering \<open>-updated_at\<close>, \<open>filter(is_active=True)\<close>,
  \<open>filter(id__in=...)\<close>, \<open>objects.create\<close>, \<open>save\<close> and \<open>delete\<close>. A table is a
  list of rows in insertion order with a sequence for the next primary key; timestamps
  are integers supplied by the caller (the clock of \<open>auto_now\<close>). JSON fields are
  modelled at the shape the code uses: \<open>tags\<close> a list of strings, \<open>metadata\<close> a list
  of string pairs.
\<close>

record kb_entry =
  entry_id :: int
  created_at :: int
  updated_at :: int
  title :: string
  question :: string
  answer :: string
  tags :: "string list"
  source :: string
  metadata :: "(string \<times> string) list"
  is_active :: bool

datatype log_status = Ok | Error

record query_log =
  log_id :: int
  log_created_at :: int
  log_updated_at :: int
  log_user :: "int option"
  log_question :: string
  retrieved_context_ids :: "int list"
  log_answer :: string
  latency_ms :: int
  status :: log_status
  error :: string

record kb_db =
  kb_entries :: "kb_entry list"
  next_entry_id :: int
  query_logs :: "query_log list"
  next_log_id :: int

definition empty_db :: kb_db where
  "empty_db = \<lparr>kb_entries = [], next_entry_id = 1, query_logs = [], next_log_id = 1\<rparr>"

subsection \<open>Queries\<close>

text \<open>
  \<open>Meta.ordering = ['-updated_at']\<close>: newest first. The database leaves the order of equal
  timestamps open; the model keeps insertion order among them (a stable sort).
\<close>

definition order_by_updated_desc :: "kb_entry list \<Rightarrow> kb_entry list" where
  "order_by_updated_desc es = sort_key (\<lambda>e. - updated_at e) es"

text \<open>\<open>KnowledgeBaseEntry.objects.filter(is_active=True)\<close>.\<close>

definition active_entries :: "kb_db \<Rightarrow> kb_entry list" where
  "active_entries db = order_by_updated_desc (filter is_active (kb_entries db))"

text \<open>\<open>{e.id: e for e in KnowledgeBaseEntry.objects.filter(id__in=id_order)}\<close>: every row
  whose key is listed, active or not.\<close>

definition entries_by_id :: "kb_db \<Rightarrow> int list \<Rightarrow> int \<Rightarrow> kb_entry option" where
  "entries_by_id db id_order =
     map_of (map (\<lambda>e. (entry_id e, e)) (filter (\<lambda>e. entry_id e \<in> set id_order) (kb_entries db)))"

subsection \<open>Writes\<close>

text \<open>\<open>objects.create(...)\<close>: the next key, both timestamps set to now.\<close>

definition create_entry ::
  "int \<Rightarrow> string \<Rightarrow> string \<Rightarrow> string \<Rightarrow> string list \<Rightarrow> string \<Rightarrow> (string \<times> string) list \<Rightarrow> bool
   \<Rightarrow> kb_db \<Rightarrow> int \<times> kb_db" where
  "create_entry now t q a tg src md act db =
     (let k = next_entry_id db;
          e = \<lparr>entry_id = k, created_at = now, updated_at = now, title = t, question = q, answer = a,
               tags = tg, source = src, metadata = md, is_active = act\<rparr>
      in (k, db\<lparr>kb_entries := kb_entries db @ [e], next_entry_id := k + 1\<rparr>))"

text \<open>\<open>instance.save()\<close> of a changed row: \<open>auto_now\<close> sets \<open>updated_at\<close>; a key
  that is not in the table changes nothing.\<close>

definition save_entry :: "int \<Rightarrow> kb_entry \<Rightarrow> kb_db \<Rightarrow> kb_db" where
  "save_entry now e db =
     db\<lparr>kb_entries := map (\<lambda>x. if entry_id x = entry_id e then e\<lparr>updated_at := now, created_at := created_at x\<rparr> else x)
                          (kb_entries db)\<rparr>"

definition delete_entry :: "int \<Rightarrow> kb_db \<Rightarrow> kb_db" where
  "delete_entry k db = db\<lparr>kb_entries := filter (\<lambda>x. entry_id x \<noteq> k) (kb_entries db)\<rparr>"

text \<open>\<open>QueryLog.objects.create(...)\<close>.\<close>

definition create_query_log ::
  "int \<Rightarrow> int option \<Rightarrow> string \<Rightarrow> int list \<Rightarrow> string \<Rightarrow> int \<Rightarrow> log_status \<Rightarrow> string
   \<Rightarrow> kb_db \<Rightarrow> int \<times> kb_db" where
  "create_query_log now u q ctx_ids a lat st err db =
     (let k = next_log_id db;
          l = \<lparr>log_id = k, log_created_at = now, log_updated_at = now, log_user = u, log_question = q,
               retrieved_context_ids = ctx_ids, log_answer = a, latency_ms = lat, status = st,
               error = err\<rparr>
      in (k, db\<lparr>query_logs := query_logs db @ [l], next_log_id := k + 1\<rparr>))"

text \<open>Deleting a user account: \<open>QueryLog.user\<close> is a foreign key with
  \<open>on_delete=SET_NULL\<close>, so the user's log rows stay and lose their user.\<close>

definition delete_user :: "int \<Rightarrow> kb_db \<Rightarrow> kb_db" where
  "delete_user pk db =
     db\<lparr>query_logs := map (\<lambda>l. if log_user l = Some pk then l\<lparr>log_user := None\<rparr> else l) (query_logs db)\<rparr>"

text \<open>
  The fixture of \<open>AskAndSearchTests.setUp\<close> (\<open>src/faq_backend/api/tests.py\<close>): two
  active entries created one after the other, at clock readings 1 and 2.
\<close>

definition test_setup_db :: kb_db where
  "test_setup_db =
     snd (create_entry 2 ''Two Factor'' ''How to enable 2FA?''
            ''Navigate to Security and enable Two-Factor Authentication.'' [''security''] [] [] True
          (snd (create_entry 1 ''Password Reset'' ''How can I reset my password?''
                  ''Go to account settings and click 'Reset Password'.'' [''account'', ''security''] [] [] True
                empty_db)))"

subsection \<open>Display\<close>

text \<open>\<open>KnowledgeBaseEntry.__str__\<close>: the title, or \<open>"KB Entry <id>"\<close> when the title is
  empty; \<open>QueryLog.__str__\<close>: \<open>"QueryLog(<id>)"\<close>. The admin site lists rows by them.\<close>

definition kb_entry_str :: "kb_entry \<Rightarrow> string" where
  "kb_entry_str e = (if title e \<noteq> [] then title e else ''KB Entry '' @ py_int_str (entry_id e))"

definition query_log_str :: "query_log \<Rightarrow> string" where
  "query_log_str l = ''QueryLog('' @ py_int_str (log_id l) @ '')''"

subsection \<open>Primary keys\<close>

text \<open>Keys are unique and below the sequence value, in both tables.\<close>

definition db_wf :: "kb_db \<Rightarrow> bool" where
  "db_wf db =
     (distinct (map entry_id (kb_entries db)) \<and> (\<forall>e \<in> set (kb_entries db). entry_id e < next_entry_id db)
      \<and> distinct (map log_id (query_logs db)) \<and> (\<forall>l \<in> set (query_logs db). log_id l < next_log_id db))"

lemma set_active_entries: "set (active_entries db) = {e \<in> set (kb_entries db). is_active e}"
  by (auto simp: active_entries_def order_by_updated_desc_def)

lemma entries_by_id_Some:
  "entries_by_id db id_order i = Some e \<Longrightarrow>
     e \<in> set (kb_entries db) \<and> entry_id e = i \<and> i \<in> set id_order"
  by (auto simp: entries_by_id_def dest!: map_of_SomeD)

lemma entries_by_id_entry:
  "distinct (map entry_id (kb_entries db)) \<Longrightarrow> e \<in> set (kb_entries db) \<Longrightarrow> entry_id e \<in> set id_order \<Longrightarrow>
   entries_by_id db id_order (entry_id e) = Some e"
  unfolding entries_by_id_def
  by (rule map_of_is_SomeI) (auto simp: comp_def distinct_map_filter)

lemma entries_by_id_None:
  "entries_by_id db id_order i = None \<longleftrightarrow> i \<notin> set id_order \<or> i \<notin> entry_id ` set (kb_entries db)"
  by (auto simp: entries_by_id_def map_of_eq_None_iff image_iff)

lemma create_query_log_eq:
  "create_query_log now u q ctx_ids a lat st err db =
     (next_log_id db,
      db\<lparr>query_logs := query_logs db @
           [\<lparr>log_id = next_log_id db, log_created_at = now, log_updated_at = now, log_user = u,
             log_question = q, retrieved_context_ids = ctx_ids, log_answer = a, latency_ms = lat,
             status = st, error = err\<rparr>],
         next_log_id := next_log_id db + 1\<rparr>)"
  by (simp add: create_query_log_def Let_def)

lemma create_query_log_wf: "db_wf db \<Longrightarrow> db_wf (snd (create_query_log now u q ctx_ids a lat st err db))"
  by (auto simp: create_query_log_eq db_wf_def)

lemma create_entry_eq:
  "create_entry now t q a tg src md act db =
     (next_entry_id db,
      db\<lparr>kb_entries := kb_entries db @
           [\<lparr>entry_id = next_entry_id db, created_at = now, updated_at = now, title = t, question = q,
             answer = a, tags = tg, source = src, metadata = md, is_active = act\<rparr>],
         next_entry_id := next_entry_id db + 1\<rparr>)"
  by (simp add: create_entry_def Let_def)

lemma create_entry_wf: "db_wf db \<Longrightarrow> db_wf (snd (create_entry now t q a tg src md act db))"
  unfolding db_wf_def create_entry_eq by fastforce

lemma save_entry_simps [simp]:
  "next_entry_id (save_entry now e db) = next_entry_id db"
  "query_logs (save_entry now e db) = query_logs db"
  "next_log_id (save_entry now e db) = next_log_id db"
  by (simp_all add: save_entry_def)

lemma map_entry_id_save_entry [simp]:
  "map entry_id (kb_entries (save_entry now e db)) = map entry_id (kb_entries db)"
  by (simp add: save_entry_def comp_def)

lemma save_entry_wf:
  assumes "db_wf db"
  shows "db_wf (save_entry now e db)"
proof -
  have ids: "entry_id ` set (kb_entries (save_entry now e db)) = entry_id ` set (kb_entries db)"
    using map_entry_id_save_entry [of now e db] by (metis list.set_map)
  have "\<forall>x \<in> set (kb_entries (save_entry now e db)). entry_id x < next_entry_id db"
  proof
    fix x
    assume "x \<in> set (kb_entries (save_entry now e db))"
    then have "entry_id x \<in> entry_id ` set (kb_entries db)" using ids by blast
    with assms show "entry_id x < next_entry_id db" by (auto simp: db_wf_def)
  qed
  with assms show ?thesis by (simp add: db_wf_def)
qed

lemma delete_entry_wf: "db_wf db \<Longrightarrow> db_wf (delete_entry k db)"
  by (auto simp: delete_entry_def db_wf_def distinct_map_filter)

lemma delete_user_keeps [simp]:
  "kb_entries (delete_user pk db) = kb_entries db" "next_entry_id (delete_user pk db) = next_entry_id db"
  "next_log_id (delete_user pk db) = next_log_id db"
  by (simp_all add: delete_user_def)

lemma map_log_id_delete_user [simp]:
  "map log_id (query_logs (delete_user pk db)) = map log_id (query_logs db)"
  by (simp add: delete_user_def comp_def if_distrib)

lemma delete_user_wf:
  assumes "db_wf db"
  shows "db_wf (delete_user pk db)"
proof -
  have ids: "log_id ` set (query_logs (delete_user pk db)) = log_id ` set (query_logs db)"
    by (metis list.set_map map_log_id_delete_user)
  have "\<forall>l \<in> set (query_logs (delete_user pk db)). log_id l < next_log_id db"
  proof
    fix l
    assume "l \<in> set (query_logs (delete_user pk db))"
    then have "log_id l \<in> log_id ` set (query_logs db)" using ids by blast
    with assms show "log_id l < next_log_id db" by (auto simp: db_wf_def)
  qed
  with assms show ?thesis by (simp add: db_wf_def)
qed

lemma sorted_order_by_updated_desc:
  "sorted_wrt (\<lambda>a b. updated_at b \<le> updated_at a) (order_by_updated_desc es)"
proof -
  have "sorted (map (\<lambda>e. - updated_at e) (order_by_updated_desc es))"
    by (simp add: order_by_updated_desc_def)
  then show ?thesis by (simp add: sorted_map)
qed

lemma set_order_by_updated_desc [simp]: "set (order_by_updated_desc es) = set es"
  by (simp add: order_by_updated_desc_def)

lemma length_order_by_updated_desc [simp]: "length (order_by_updated_desc es) = length es"
  by (simp add: order_by_updated_desc_def)

lemma kb_entry_str_nonempty: "kb_entry_str e \<noteq> []"
  by (simp add: kb_entry_str_def)

text \<open>The equations that evaluate the table operations on concrete tables.\<close>

lemmas kb_eval = test_setup_db_def create_entry_def empty_db_def active_entries_def
  order_by_updated_desc_def save_entry_def delete_entry_def create_query_log_def db_wf_def

end
