(* ===== verification/HTTP.thy ===== *)
theory HTTP
  imports KB_Models
begin

text \<open>
  The HTTP layer shared by the handlers of \<open>src/faq_backend/api/views.py\<close>: responses as
  a status and a JSON value, the requesting user, \<open>str(exc)\<close> of the pipeline's
  exceptions, the \<open>health\<close> view, and the parts of Django REST framework's serializers
  that several views use: \<open>CharField\<close> validation (\<open>drf_char_field\<close>), the 400
  response of a failed \<open>is_valid(raise_exception=True)\<close>, and the rendering of an entry by
  \<open>KnowledgeBaseEntrySerializer\<close>. An exception that no handler catches is a
  \<open>py_error\<close> value, turned into Django's 500 response by \<open>django_response\<close> of the
  dispatcher in \<open>Spec2Isabelle\<close>. Timestamps are rendered as integers.
\<close>

datatype json =
    JNull
  | JBool bool
  | JInt int
  | JStr string
  | JList "json list"
  | JObj "(string \<times> json) list"

record http_response =
  resp_status :: nat
  resp_body :: json

text \<open>The members of a JSON object (none for other values).\<close>

fun json_fields :: "json \<Rightarrow> (string \<times> json) list" where
  "json_fields (JObj fs) = fs"
| "json_fields _ = []"

text \<open>\<open>request.user\<close>: the primary key, and the two flags the code consults.\<close>

record request_user =
  user_pk :: int
  is_authenticated :: bool
  is_staff :: bool

definition request_user_id :: "request_user \<Rightarrow> int option" where
  "request_user_id u = (if is_authenticated u then Some (user_pk u) else None)"

text \<open>\<open>str(exc)\<close> for the exceptions the pipeline can raise.\<close>

fun py_error_str :: "py_error \<Rightarrow> string" where
  "py_error_str (ValueError msg) = msg"
| "py_error_str IndexError = ''list index out of range''"
| "py_error_str NotFittedError = ''The TF-IDF vectorizer is not fitted''"

text \<open>\<open>health\<close>: a constant answer.\<close>

definition health_view :: http_response where
  "health_view = \<lparr>resp_status = 200, resp_body = JObj [(''message'', JStr ''Server is up!'')]\<rparr>"

text \<open>An entry as \<open>KnowledgeBaseEntrySerializer\<close> renders it.\<close>

definition entry_to_json :: "kb_entry \<Rightarrow> json" where
  "entry_to_json e =
     JObj [(''id'', JInt (entry_id e)), (''title'', JStr (title e)), (''question'', JStr (question e)),
           (''answer'', JStr (answer e)), (''tags'', JList (map JStr (tags e))), (''source'', JStr (source e)),
           (''metadata'', JObj (map (\<lambda>(k, v). (k, JStr v)) (metadata e))), (''is_active'', JBool (is_active e)),
           (''created_at'', JInt (created_at e)), (''updated_at'', JInt (updated_at e))]"

subsection \<open>Serializer fields\<close>

text \<open>
  A \<open>CharField\<close> of \<open>KnowledgeBaseEntrySerializer\<close> (\<open>required\<close>, \<open>allow_blank\<close>,
  \<open>max_length\<close> from the model field): \<open>Inr None\<close> when the key is absent and not
  required (or the update is partial), the stripped value otherwise.
\<close>

definition drf_char_field ::
  "bool \<Rightarrow> bool \<Rightarrow> nat option \<Rightarrow> bool \<Rightarrow> string option \<Rightarrow> string list + string option" where
  "drf_char_field required allow_blank max_len partial data =
     (case data of
        None \<Rightarrow> if required \<and> \<not> partial then Inl [''This field is required.''] else Inr None
      | Some d \<Rightarrow>
          if py_strip d = [] then (if allow_blank then Inr (Some []) else Inl [''This field may not be blank.''])
          else (let v = py_strip d;
                    errs = (case max_len of
                              Some n \<Rightarrow> if n < length v
                                        then [''Ensure this field has no more than '' @ nat_str n @ '' characters.''] else []
                            | None \<Rightarrow> [])
                         @ (if CHR 0x00 \<in> set v then [''Null characters are not allowed.''] else [])
                in if errs = [] then Inr (Some v) else Inl errs))"

definition field_errors :: "string \<Rightarrow> string list + string option \<Rightarrow> (string \<times> string list) list" where
  "field_errors name r = (case r of Inl es \<Rightarrow> [(name, es)] | Inr _ \<Rightarrow> [])"

definition field_value :: "string list + string option \<Rightarrow> string option" where
  "field_value r = (case r of Inl _ \<Rightarrow> None | Inr v \<Rightarrow> v)"

text \<open>The response of \<open>is_valid(raise_exception=True)\<close> when a field fails.\<close>

definition invalid_response :: "(string \<times> string list) list \<Rightarrow> http_response" where
  "invalid_response errs = \<lparr>resp_status = 400, resp_body = JObj (map (\<lambda>(f, es). (f, JList (map JStr es))) errs)\<rparr>"

subsection \<open>Response types\<close>

text \<open>
  The field types a serializer declares, as the JSON values they render:
  \<open>CharField\<close> a string, \<open>IntegerField\<close> (and the integer timestamps of the model) an
  integer, \<open>BooleanField\<close> a boolean, \<open>ListField(child=...)\<close> a list, \<open>DictField()\<close>
  any object, \<open>JSONField\<close> any value, and a serializer an object with exactly its fields,
  in their declared order.
\<close>

datatype json_ty = TAny | TStr | TInt | TBool | TList json_ty | TDict | TObj "(string \<times> json_ty) list"

fun json_conforms :: "json_ty \<Rightarrow> json \<Rightarrow> bool" where
  "json_conforms TAny v = True"
| "json_conforms TStr v = (case v of JStr _ \<Rightarrow> True | _ \<Rightarrow> False)"
| "json_conforms TInt v = (case v of JInt _ \<Rightarrow> True | _ \<Rightarrow> False)"
| "json_conforms TBool v = (case v of JBool _ \<Rightarrow> True | _ \<Rightarrow> False)"
| "json_conforms (TList t) v = (case v of JList vs \<Rightarrow> (\<forall>x \<in> set vs. json_conforms t x) | _ \<Rightarrow> False)"
| "json_conforms TDict v = (case v of JObj _ \<Rightarrow> True | _ \<Rightarrow> False)"
| "json_conforms (TObj fs) v =
     (case v of JObj kvs \<Rightarrow> list_all2 (\<lambda>kt kv. fst kt = fst kv \<and> json_conforms (snd kt) (snd kv)) fs kvs
              | _ \<Rightarrow> False)"

text \<open>\<open>KnowledgeBaseEntrySerializer\<close>: \<open>Meta.fields\<close> with the types of the model fields.\<close>

definition entry_ty :: json_ty where
  "entry_ty = TObj [(''id'', TInt), (''title'', TStr), (''question'', TStr), (''answer'', TStr), (''tags'', TAny),
                    (''source'', TStr), (''metadata'', TAny), (''is_active'', TBool), (''created_at'', TInt),
                    (''updated_at'', TInt)]"

subsection \<open>Properties of CharField\<close>

lemma drf_char_field_required:
  "drf_char_field True False mx False d = Inr r \<Longrightarrow>
   \<exists>v. r = Some v \<and> v \<noteq> [] \<and> (\<forall>n. mx = Some n \<longrightarrow> length v \<le> n)"
  by (auto simp: drf_char_field_def Let_def split: option.splits if_splits)

lemma drf_char_field_absent: "drf_char_field req blank mx True None = Inr None"
  by (simp add: drf_char_field_def)

lemma entry_to_json_conforms [simp]: "json_conforms entry_ty (entry_to_json e)"
  by (simp add: entry_ty_def entry_to_json_def)

end
