(* ===== verification/Vector_Index.thy ===== *)
theory Vector_Index
  imports FAQ_Prelude
begin

text \<open>
  \<open>SimpleVectorIndex\<close> of \<open>src/faq_backend/api/services.py\<close> (lines 11--36): the
  fitted vectorizer, the document-term matrix (\<open>None\<close> before a non-empty build) and the
  row-to-entry-id list. The vectorizer is sklearn code, outside the repository; it is an
  interface of two functions: \<open>fit_transform\<close>, which returns the vectorizer's state
  after the call (it is mutated in place, also when it raises) and the matrix or the
  exception, and \<open>query_sims\<close>, which is \<open>cosine_similarity(transform([q]), M).flatten()\<close>.
  Scores have any linear order; the TF-IDF instance is real-valued.
\<close>

record ('v, 'x) simple_vector_index =
  vectorizer :: 'v
  matrix :: "'x option"
  ids :: "int list"

type_synonym ('v, 'x) fit_transform_fn = "'v \<Rightarrow> string list \<Rightarrow> 'v \<times> 'x py_result"
type_synonym ('v, 'x, 's) query_sims_fn = "'v \<Rightarrow> 'x \<Rightarrow> string \<Rightarrow> 's list py_result"

text \<open>\<open>__init__\<close>: an unfitted vectorizer, no matrix, no ids.\<close>

definition init_index :: "'v \<Rightarrow> ('v, 'x) simple_vector_index" where
  "init_index v0 = \<lparr>vectorizer = v0, matrix = None, ids = []\<rparr>"

text \<open>
  \<open>build(corpus, ids)\<close>: the exception of \<open>fit_transform\<close> (if any) and the state after
  the call. An exception leaves \<open>self.matrix\<close> and \<open>self.ids\<close> unassigned.
\<close>

definition build ::
  "('v, 'x) fit_transform_fn \<Rightarrow> ('v, 'x) simple_vector_index \<Rightarrow> string list \<Rightarrow> int list
   \<Rightarrow> py_error option \<times> ('v, 'x) simple_vector_index" where
  "build fit_transform idx corpus new_ids =
     (if corpus = [] then (None, idx\<lparr>matrix := None, ids := []\<rparr>)
      else (case fit_transform (vectorizer idx) corpus of
              (v', Inl e) \<Rightarrow> (Some e, idx\<lparr>vectorizer := v'\<rparr>)
            | (v', Inr m) \<Rightarrow> (None, idx\<lparr>vectorizer := v', matrix := Some m, ids := new_ids\<rparr>)))"

text \<open>
  \<open>np.argsort(sims)\<close>: the row indices in ascending order of score. numpy's default
  kind is an unstable introsort, so the program fixes no order among rows of equal score.
  The model breaks ties stably (by row); \<open>is_argsort\<close> is the contract every numpy
  argsort satisfies, and the tie-independence lemma below shows that the scores returned
  by \<open>search\<close>, and the rows themselves when scores are distinct, are the same for every
  sort that keeps it.
\<close>

definition argsort :: "'s::linorder list \<Rightarrow> nat list" where
  "argsort s = sort_key (\<lambda>i. s ! i) [0..<length s]"

text \<open>\<open>np.argsort(sims)[::-1][:top_k]\<close>.\<close>

definition is_argsort :: "'s::linorder list \<Rightarrow> nat list \<Rightarrow> bool" where
  "is_argsort s p = (mset p = mset [0..<length s] \<and> sorted (map (\<lambda>i. s ! i) p))"

text \<open>\<open>np.argsort(sims)[::-1][:top_k]\<close>.\<close>

definition ranked_rows :: "'s::linorder list \<Rightarrow> int \<Rightarrow> nat list" where
  "ranked_rows s top_k = py_slice_to top_k (rev (argsort s))"

definition search ::
  "('v, 'x, 's::linorder) query_sims_fn \<Rightarrow> ('v, 'x) simple_vector_index \<Rightarrow> string \<Rightarrow> int
   \<Rightarrow> (int \<times> 's) list py_result" where
  "search query_sims idx query top_k =
     (case matrix idx of
        None \<Rightarrow> Inr []
      | Some m \<Rightarrow>
          if ids idx = [] then Inr []
          else (case query_sims (vectorizer idx) m query of
                  Inl e \<Rightarrow> Inl e
                | Inr s \<Rightarrow>
                    py_map (\<lambda>i. if i < length (ids idx) then Inr (ids idx ! i, s ! i) else Inl IndexError)
                      (ranked_rows s top_k)))"

subsection \<open>Well-formedness and the vectorizer contract\<close>

text \<open>
  Row \<open>i\<close> of the matrix belongs to \<open>ids[i]\<close>: the number of rows equals the length of
  the id list, and there are no ids without a matrix.
\<close>

definition index_wf :: "('x \<Rightarrow> nat) \<Rightarrow> ('v, 'x) simple_vector_index \<Rightarrow> bool" where
  "index_wf rows idx =
     (case matrix idx of None \<Rightarrow> ids idx = [] | Some m \<Rightarrow> rows m = length (ids idx))"

text \<open>What the index relies on from the vectorizer: one row per document, one score per row.\<close>

definition fit_contract :: "('v, 'x) fit_transform_fn \<Rightarrow> ('x \<Rightarrow> nat) \<Rightarrow> bool" where
  "fit_contract fit_transform rows =
     (\<forall>v c v' m. fit_transform v c = (v', Inr m) \<longrightarrow> rows m = length c)"

definition sims_contract :: "('v, 'x, 's) query_sims_fn \<Rightarrow> ('x \<Rightarrow> nat) \<Rightarrow> bool" where
  "sims_contract query_sims rows =
     (\<forall>v m q s. query_sims v m q = Inr s \<longrightarrow> length s = rows m)"

subsection \<open>The ranking\<close>

lemma mset_argsort: "mset (argsort s) = mset [0..<length s]"
  by (simp add: argsort_def)

lemma set_argsort [simp]: "set (argsort s) = {..<length s}"
  by (simp add: argsort_def atLeast0LessThan)

lemma distinct_argsort [simp]: "distinct (argsort s)"
  by (simp add: argsort_def)

lemma length_argsort [simp]: "length (argsort s) = length s"
  by (simp add: argsort_def)

lemma sorted_argsort: "sorted (map (\<lambda>i. s ! i) (argsort s))"
  by (simp add: argsort_def)

lemma sorted_wrt_rev_argsort: "sorted_wrt (\<lambda>i j. s ! j \<le> s ! i) (rev (argsort s))"
proof -
  have "sorted_wrt (\<lambda>i j. s ! i \<le> s ! j) (argsort s)"
    using sorted_argsort [of s] by (simp add: sorted_map)
  then show ?thesis by (simp add: sorted_wrt_rev)
qed

lemma sorted_wrt_ranked_rows: "sorted_wrt (\<lambda>i j. s ! j \<le> s ! i) (ranked_rows s k)"
  unfolding ranked_rows_def by (rule sorted_wrt_py_slice_to [OF sorted_wrt_rev_argsort])

lemma set_ranked_rows: "set (ranked_rows s k) \<subseteq> {..<length s}"
  using set_py_slice_to [of k "rev (argsort s)"] by (simp add: ranked_rows_def)

lemma distinct_ranked_rows: "distinct (ranked_rows s k)"
  by (simp add: ranked_rows_def distinct_py_slice_to)

lemma length_ranked_rows:
  "length (ranked_rows s k) =
     (if 0 \<le> k then min (length s) (nat k) else nat (int (length s) + k))"
  by (simp add: ranked_rows_def length_py_slice_to)

lemmas ranked_rows_facts = sorted_wrt_ranked_rows set_ranked_rows distinct_ranked_rows
  length_ranked_rows

text \<open>Every returned row scores at least as high as every row left out.\<close>

lemma ranked_rows_top:
  assumes i: "i \<in> set (ranked_rows s k)" and j: "j < length s" and j': "j \<notin> set (ranked_rows s k)"
  shows "s ! j \<le> s ! i"
proof -
  let ?ys = "rev (argsort s)"
  obtain n where n: "ranked_rows s k = take n ?ys"
    using py_slice_to_take [of k ?ys] by (auto simp: ranked_rows_def)
  have "sorted_wrt (\<lambda>i j. s ! j \<le> s ! i) (take n ?ys @ drop n ?ys)"
    unfolding append_take_drop_id by (rule sorted_wrt_rev_argsort)
  then have all: "\<forall>a \<in> set (take n ?ys). \<forall>b \<in> set (drop n ?ys). s ! b \<le> s ! a"
    unfolding sorted_wrt_append by blast
  have "j \<in> set (take n ?ys) \<union> set (drop n ?ys)"
    using j by (simp flip: set_append)
  with j' n have "j \<in> set (drop n ?ys)" by auto
  with all i n show ?thesis by auto
qed

subsection \<open>Independence of the tie order\<close>

lemma map_py_slice_to: "map f (py_slice_to k xs) = py_slice_to k (map f xs)"
  by (simp add: py_slice_to_def take_map)

lemma is_argsort_argsort: "is_argsort s (argsort s)"
  by (simp add: is_argsort_def argsort_def)

lemma set_is_argsort:
  assumes "is_argsort s p"
  shows "set p = {..<length s}"
proof -
  have "set p = set [0..<length s]" using assms unfolding is_argsort_def by (metis mset_eq_setD)
  then show ?thesis by (simp add: atLeast0LessThan)
qed

text \<open>Any argsort lists the scores in the order \<open>sort\<close> does: a sorted list is determined by its multiset.\<close>

lemma is_argsort_scores:
  assumes "is_argsort s p"
  shows "map (\<lambda>i. s ! i) p = sort s"
proof -
  from assms have m: "mset p = mset [0..<length s]" and so: "sorted (map (\<lambda>i. s ! i) p)"
    by (simp_all add: is_argsort_def)
  have "mset (map (\<lambda>i. s ! i) p) = mset (map (\<lambda>i. s ! i) [0..<length s])"
    by (simp only: mset_map m)
  also have "\<dots> = mset s" by (simp add: map_nth)
  finally show ?thesis using so by (metis properties_for_sort)
qed

subsection \<open>Search and build\<close>

lemma search_Some:
  "matrix idx = Some m \<Longrightarrow> ids idx \<noteq> [] \<Longrightarrow>
   search query_sims idx q k =
     (case query_sims (vectorizer idx) m q of
        Inl e \<Rightarrow> Inl e
      | Inr s \<Rightarrow> if \<forall>i \<in> set (ranked_rows s k). i < length (ids idx)
                then Inr (map (\<lambda>i. (ids idx ! i, s ! i)) (ranked_rows s k)) else Inl IndexError)"
  by (simp add: search_def py_map_guarded split: sum.split)

lemma search_Inr_cases:
  "search query_sims idx q k = Inr r \<Longrightarrow>
   r = [] \<or> (\<exists>m s. matrix idx = Some m \<and> query_sims (vectorizer idx) m q = Inr s \<and>
              (\<forall>i \<in> set (ranked_rows s k). i < length (ids idx)) \<and>
              r = map (\<lambda>i. (ids idx ! i, s ! i)) (ranked_rows s k))"
  by (auto simp: search_def py_map_guarded split: option.splits if_splits sum.splits)

lemma ranked_rows_Nil [simp]: "ranked_rows [] k = []"
  by (simp add: ranked_rows_def argsort_def py_slice_to_def)

lemma build_cases:
  "build fit_transform idx corpus new_ids = (err, idx') \<Longrightarrow>
     (corpus = [] \<and> err = None \<and> idx' = idx\<lparr>matrix := None, ids := []\<rparr>)
   \<or> (\<exists>e v'. corpus \<noteq> [] \<and> err = Some e \<and> fit_transform (vectorizer idx) corpus = (v', Inl e)
        \<and> idx' = idx\<lparr>vectorizer := v'\<rparr>)
   \<or> (\<exists>m v'. corpus \<noteq> [] \<and> err = None \<and> fit_transform (vectorizer idx) corpus = (v', Inr m)
        \<and> idx' = idx\<lparr>vectorizer := v', matrix := Some m, ids := new_ids\<rparr>)"
  by (auto simp: build_def split: if_splits prod.splits sum.splits)

lemma search_ids_subset:
  "search query_sims idx q k = Inr r \<Longrightarrow> fst ` set r \<subseteq> set (ids idx)"
  by (drule search_Inr_cases) auto

lemma search_wf_Inr:
  assumes wf: "index_wf rows idx" and sc: "sims_contract query_sims rows"
    and m: "matrix idx = Some m" and s: "query_sims (vectorizer idx) m q = Inr s"
  shows "search query_sims idx q k = Inr (map (\<lambda>i. (ids idx ! i, s ! i)) (ranked_rows s k))"
proof -
  from wf m sc s have len: "length s = length (ids idx)" by (simp add: index_wf_def sims_contract_def)
  show ?thesis
  proof (cases "ids idx = []")
    case True
    with len m show ?thesis by (simp add: search_def)
  next
    case False
    have "\<forall>i \<in> set (ranked_rows s k). i < length (ids idx)" using set_ranked_rows [of s k] len by auto
    with m s False show ?thesis by (simp add: search_Some)
  qed
qed

lemma set_ranked_rows_all: "0 \<le> k \<Longrightarrow> length s \<le> nat k \<Longrightarrow> set (ranked_rows s k) = {..<length s}"
  by (simp add: ranked_rows_def py_slice_to_def)

lemma search_total:
  assumes "index_wf rows idx" and "sims_contract query_sims rows"
    and "\<forall>m. matrix idx = Some m \<longrightarrow> (\<exists>s. query_sims (vectorizer idx) m q = Inr s)"
  shows "\<exists>r. search query_sims idx q k = Inr r"
  using assms search_wf_Inr [OF assms(1,2)] by (cases "matrix idx") (auto simp: search_def)

text \<open>The equations that evaluate \<open>search\<close> and \<open>build\<close> on concrete inputs.\<close>

lemmas index_eval = search_def ranked_rows_def argsort_def py_slice_to_def build_def init_index_def

subsection \<open>Properties of the index\<close>

text \<open>
  C1. \<open>search\<close> returns its (id, score) pairs in descending order of score, whenever it
  returns.
\<close>

theorem search_sorted_desc:
  assumes "search query_sims idx q k = Inr r"
  shows "sorted_wrt (\<lambda>a b. snd b \<le> snd a) r"
  using search_Inr_cases [OF assms] by (auto simp: sorted_wrt_map sorted_wrt_ranked_rows)

theorem search_sorted_desc_witness:
  "search (\<lambda>v m q. Inr [1, 3, 2 :: int]) \<lparr>vectorizer = (), matrix = Some (), ids = [10, 20, 30]\<rparr> ''q'' 5
     = Inr [(20, 3), (30, 2), (10, 1)]
   \<and> sorted_wrt (\<lambda>a b. snd b \<le> snd a) [(20::int, 3::int), (30, 2), (10, 1)]"
proof -
  have r: "search (\<lambda>v m q. Inr [1, 3, 2 :: int]) \<lparr>vectorizer = (), matrix = Some (), ids = [10, 20, 30]\<rparr> ''q'' 5
     = Inr [(20, 3), (30, 2), (10, 1)]"
    by (simp add: search_def ranked_rows_def argsort_def py_slice_to_def)
  show ?thesis using r search_sorted_desc [OF r] by simp
qed

text \<open>
  C2. The outcome of \<open>np.argsort(sims)[::-1][:top_k]\<close> does not depend on how the sort
  orders rows of equal score: for every permutation \<open>p\<close> that sorts the rows by score, the
  scores of \<open>p[::-1][:top_k]\<close> are those of the ranked rows, and when no two rows have the
  same score the rows themselves are the same.
\<close>

theorem ranked_rows_tie_independent:
  assumes p: "is_argsort s p"
  shows "map (\<lambda>i. s ! i) (py_slice_to k (rev p)) = map (\<lambda>i. s ! i) (ranked_rows s k) \<and>
         (distinct s \<longrightarrow> py_slice_to k (rev p) = ranked_rows s k)"
proof -
  have sc: "map (\<lambda>i. s ! i) p = map (\<lambda>i. s ! i) (argsort s)"
    using is_argsort_scores [OF p] is_argsort_scores [OF is_argsort_argsort [of s]] by simp
  have "map (\<lambda>i. s ! i) (py_slice_to k (rev p)) = map (\<lambda>i. s ! i) (ranked_rows s k)"
    by (simp add: ranked_rows_def map_py_slice_to rev_map [symmetric] sc)
  moreover have "p = argsort s" if d: "distinct s"
  proof -
    have "inj_on (\<lambda>i. s ! i) (set p \<union> set (argsort s))"
      using set_is_argsort [OF p] inj_on_nth [OF d, of "{..<length s}"] by simp
    with sc show ?thesis by (simp add: inj_on_map_eq_map)
  qed
  ultimately show ?thesis by (simp add: ranked_rows_def)
qed

theorem ranked_rows_tie_independent_witness:
  "map (\<lambda>i. [4, 9, 1 :: int] ! i) (py_slice_to 2 (rev [2, 0, 1])) = [9, 4] \<and>
   py_slice_to 2 (rev [2, 0, 1]) = ranked_rows [4, 9, 1 :: int] 2"
proof -
  have p: "is_argsort [4, 9, 1 :: int] [2, 0, 1]" by (simp add: is_argsort_def)
  have d: "distinct [4, 9, 1 :: int]" by simp
  show ?thesis using ranked_rows_tie_independent [OF p, of 2] d by (simp add: ranked_rows_def argsort_def py_slice_to_def)
qed

text \<open>
  C3. On a well-formed index whose vectorizer keeps its contract, \<open>search\<close> never raises
  \<open>IndexError\<close>: it returns the empty list without a matrix, propagates the exception of
  the similarity computation, and otherwise maps the ranked rows to their ids and scores.
\<close>

theorem search_functional:
  assumes wf: "index_wf rows idx" and sc: "sims_contract query_sims rows"
  shows "search query_sims idx q k =
     (case matrix idx of
        None \<Rightarrow> Inr []
      | Some m \<Rightarrow> (case query_sims (vectorizer idx) m q of
                    Inl e \<Rightarrow> if ids idx = [] then Inr [] else Inl e
                  | Inr s \<Rightarrow> Inr (map (\<lambda>i. (ids idx ! i, s ! i)) (ranked_rows s k))))"
proof (cases "matrix idx")
  case None
  then show ?thesis by (simp add: search_def)
next
  case (Some m)
  with wf have rows: "rows m = length (ids idx)" by (simp add: index_wf_def)
  show ?thesis
  proof (cases "query_sims (vectorizer idx) m q")
    case (Inl e)
    with Some show ?thesis by (simp add: search_def)
  next
    case (Inr s)
    with sc rows have len: "length s = length (ids idx)" by (simp add: sims_contract_def)
    then have "\<forall>i \<in> set (ranked_rows s k). i < length (ids idx)"
      using set_ranked_rows [of s k] by auto
    with Some Inr len show ?thesis
      by (cases "ids idx = []") (simp_all add: search_Some, simp add: search_def)
  qed
qed

theorem search_functional_witness:
  "search (\<lambda>v m q. Inr [5, 7 :: int]) \<lparr>vectorizer = (), matrix = Some (2::nat), ids = [1, 2]\<rparr> ''q'' 1
     = Inr [(2, 7)]"
proof -
  have sc: "sims_contract (\<lambda>(v::unit) (m::nat) (q::string). Inr [5, 7 :: int]) (\<lambda>m::nat. 2)"
    by (simp add: sims_contract_def)
  have wf2: "index_wf (\<lambda>m::nat. 2) \<lparr>vectorizer = (), matrix = Some (2::nat), ids = [1, 2]\<rparr>"
    by (simp add: index_wf_def)
  show ?thesis
    using search_functional [OF wf2 sc, of "''q''" 1]
    by (simp add: ranked_rows_def argsort_def py_slice_to_def)
qed

text \<open>
  With a non-negative \<open>top_k\<close>, \<open>search\<close> returns at most \<open>top_k\<close> results.
\<close>

theorem search_length_le_top_k:
  assumes "search query_sims idx q k = Inr r" and "0 \<le> k"
  shows "length r \<le> nat k"
  using search_Inr_cases [OF assms(1)] assms(2) by (auto simp: length_ranked_rows)

theorem search_length_le_top_k_witness:
  "search (\<lambda>v m q. Inr [1, 3, 2 :: int]) \<lparr>vectorizer = (), matrix = Some (), ids = [10, 20, 30]\<rparr> ''q'' 2
     = Inr [(20, 3), (30, 2)]
   \<and> length [(20::int, 3::int), (30, 2)] \<le> nat 2"
proof -
  have r: "search (\<lambda>v m q. Inr [1, 3, 2 :: int]) \<lparr>vectorizer = (), matrix = Some (), ids = [10, 20, 30]\<rparr> ''q'' 2
     = Inr [(20, 3), (30, 2)]"
    by (simp add: search_def ranked_rows_def argsort_def py_slice_to_def)
  show ?thesis using r search_length_le_top_k [OF r] by simp
qed

text \<open>
  C5. The ranked rows are the best ones: every row returned scores at least as high as
  every row of the matrix that is not returned.
\<close>

theorem ranked_rows_top_k:
  assumes "i \<in> set (ranked_rows s k)" and "j < length s" and "j \<notin> set (ranked_rows s k)"
  shows "s ! j \<le> s ! i"
  using assms by (rule ranked_rows_top)

theorem ranked_rows_top_k_witness:
  "ranked_rows [4, 9, 1 :: int] 2 = [1, 0] \<and> [4, 9, 1 :: int] ! 2 \<le> [4, 9, 1 :: int] ! 0"
proof -
  have r: "ranked_rows [4, 9, 1 :: int] 2 = [1, 0]"
    by (simp add: ranked_rows_def argsort_def py_slice_to_def)
  have "[4, 9, 1 :: int] ! 2 \<le> [4, 9, 1 :: int] ! 0"
    by (rule ranked_rows_top_k [of 0 "[4, 9, 1 :: int]" 2 2]) (simp_all add: r)
  with r show ?thesis by simp
qed

text \<open>
  C6. A negative \<open>top_k\<close> is a Python slice bound counted from the end: on a well-formed
  index, \<open>search(q, top_k)\<close> with \<open>top_k < 0\<close> returns all but the last
  \<open>|top_k|\<close> ranked entries, not the empty list.
\<close>

theorem search_negative_top_k:
  assumes wf: "index_wf rows idx" and sc: "sims_contract query_sims rows"
    and m: "matrix idx = Some m" and s: "query_sims (vectorizer idx) m q = Inr s" and k: "k < 0"
  shows "\<exists>all. search query_sims idx q (int (length (ids idx))) = Inr all \<and>
           search query_sims idx q k = Inr (take (length all - nat (- k)) all)"
proof -
  let ?all = "map (\<lambda>i. (ids idx ! i, s ! i)) (rev (argsort s))"
  from wf m have "rows m = length (ids idx)" by (simp add: index_wf_def)
  with sc s have len: "length s = length (ids idx)" by (simp add: sims_contract_def)
  have "ranked_rows s (int (length (ids idx))) = rev (argsort s)"
    using len by (simp add: ranked_rows_def py_slice_to_def)
  moreover have "ranked_rows s k = take (length s - nat (- k)) (rev (argsort s))"
  proof -
    have "nat (int (length s) + k) = length s - nat (- k)" using k by linarith
    with k show ?thesis by (simp add: ranked_rows_def py_slice_to_def)
  qed
  ultimately show ?thesis
    using search_wf_Inr [OF wf sc m s, of "int (length (ids idx))"] search_wf_Inr [OF wf sc m s, of k] len
    by (simp add: take_map)
qed

theorem search_negative_top_k_witness:
  "search (\<lambda>v m q. Inr [1, 1, 0 :: int]) \<lparr>vectorizer = (), matrix = Some (3::nat), ids = [10, 20, 30]\<rparr> ''q'' (-1)
     = Inr [(20, 1), (10, 1)]"
proof -
  have sc: "sims_contract (\<lambda>(v::unit) (m::nat) (q::string). Inr [1, 1, 0 :: int]) (\<lambda>m::nat. 3)"
    by (simp add: sims_contract_def)
  have wf3: "index_wf (\<lambda>m::nat. 3) \<lparr>vectorizer = (), matrix = Some (3::nat), ids = [10, 20, 30]\<rparr>"
    by (simp add: index_wf_def)
  have all: "search (\<lambda>v m q. Inr [1, 1, 0 :: int]) \<lparr>vectorizer = (), matrix = Some (3::nat), ids = [10, 20, 30]\<rparr> ''q'' 3
     = Inr [(20, 1), (10, 1), (30, 0)]"
    by (simp add: search_def ranked_rows_def argsort_def py_slice_to_def)
  show ?thesis
    using search_negative_top_k [OF wf3 sc, where m = 3 and q = "''q''" and s = "[1, 1, 0]" and k = "-1"] all
    by simp
qed

text \<open>
  C7. \<open>build\<close> keeps the row/id correspondence: from a well-formed index, a build with
  as many ids as documents, under a vectorizer with one row per document, yields a
  well-formed index, whether it succeeds, raises, or receives an empty corpus.
\<close>

theorem build_preserves_wf:
  assumes fc: "fit_contract fit_transform rows" and wf: "index_wf rows idx"
    and len: "length corpus = length new_ids"
  shows "index_wf rows (snd (build fit_transform idx corpus new_ids))"
proof -
  obtain err idx' where b: "build fit_transform idx corpus new_ids = (err, idx')"
    by fastforce
  from build_cases [OF b] fc wf len have "index_wf rows idx'"
    by (auto simp: index_wf_def fit_contract_def split: option.splits)
  with b show ?thesis by simp
qed

theorem build_preserves_wf_witness:
  "index_wf (\<lambda>m::nat. m)
     (snd (build (\<lambda>v c. (v, Inr (length c))) (init_index ()) [''a b'', ''c d''] [7, 8]))"
proof -
  have fc: "fit_contract (\<lambda>(v::unit) c. (v, Inr (length c))) (\<lambda>m::nat. m)"
    by (simp add: fit_contract_def)
  have wf: "index_wf (\<lambda>m::nat. m) (init_index ())"
    by (simp add: index_wf_def init_index_def)
  show ?thesis
    using build_preserves_wf [OF fc wf, of "[''a b'', ''c d'']" "[7, 8]"] by simp
qed

text \<open>
  C8. A build whose \<open>fit_transform\<close> raises leaves the served snapshot (matrix and id
  list) as it was; only the vectorizer object, mutated in place by sklearn, may change.
\<close>

theorem build_error_keeps_snapshot:
  assumes "fst (build fit_transform idx corpus new_ids) = Some e"
  shows "matrix (snd (build fit_transform idx corpus new_ids)) = matrix idx
    \<and> ids (snd (build fit_transform idx corpus new_ids)) = ids idx"
proof -
  obtain err idx' where b: "build fit_transform idx corpus new_ids = (err, idx')"
    by fastforce
  with assms have "err = Some e" by simp
  with build_cases [OF b] have "matrix idx' = matrix idx \<and> ids idx' = ids idx"
    by auto
  with b show ?thesis by simp
qed

theorem build_error_keeps_snapshot_witness:
  "fst (build (\<lambda>v c. (v, Inl (ValueError ''empty vocabulary'')))
          \<lparr>vectorizer = (), matrix = Some (1::nat), ids = [5]\<rparr> [''the and''] [6])
     = Some (ValueError ''empty vocabulary'')
   \<and> matrix (snd (build (\<lambda>v c. (v, Inl (ValueError ''empty vocabulary'')))
          \<lparr>vectorizer = (), matrix = Some (1::nat), ids = [5]\<rparr> [''the and''] [6])) = Some 1
   \<and> ids (snd (build (\<lambda>v c. (v, Inl (ValueError ''empty vocabulary'')))
          \<lparr>vectorizer = (), matrix = Some (1::nat), ids = [5]\<rparr> [''the and''] [6])) = [5]"
proof -
  have e: "fst (build (\<lambda>v c. (v, Inl (ValueError ''empty vocabulary'')))
          \<lparr>vectorizer = (), matrix = Some (1::nat), ids = [5]\<rparr> [''the and''] [6])
     = Some (ValueError ''empty vocabulary'')"
    by (simp add: build_def)
  show ?thesis using e build_error_keeps_snapshot [OF e] by simp
qed

text \<open>
  An empty snapshot (no matrix, or no ids) answers every query and every
  \<open>top_k\<close> with the empty list, without consulting the vectorizer.
\<close>

theorem search_empty_snapshot:
  assumes "matrix idx = None \<or> ids idx = []"
  shows "search query_sims idx q k = Inr []"
  using assms by (auto simp: search_def split: option.split)

theorem search_empty_snapshot_witness:
  "search (\<lambda>v m q. Inl NotFittedError) (snd (build (\<lambda>v c. (v, Inr ())) (init_index ()) [] []))
     ''how do I reset my password'' 5 = (Inr [] :: (int \<times> int) list py_result)"
proof -
  have "matrix (snd (build (\<lambda>v c. (v, Inr ())) (init_index ()) [] [])) = None
        \<or> ids (snd (build (\<lambda>v c. (v, Inr ())) (init_index ()) [] [])) = []"
    by (simp add: build_def)
  then show ?thesis by (rule search_empty_snapshot)
qed

end
