(* ===== verification/RAG_Service.thy ===== *)
theory RAG_Service
  imports Complex_Main Vector_Index KB_Models
begin

text \<open>
  \<open>RAGService\<close> of \<open>src/faq_backend/api/services.py\<close> (lines 39--102): the pipeline
  that owns one \<open>SimpleVectorIndex\<close> and reads the knowledge-base table through the ORM.
  \<open>_load_index\<close>/\<open>refresh_index\<close> rebuild the index from the active entries;
  \<open>retrieve\<close> ranks ids with \<open>search\<close> and resolves them against the table in rank
  order; \<open>generate\<close> composes the answer text from the first three contexts; \<open>ask\<close>
  chains them and measures the latency from two readings of \<open>time.time()\<close>, which are
  parameters (seconds, as reals).
\<close>

record ('v, 'x) rag_service =
  index :: "('v, 'x) simple_vector_index"

text \<open>\<open>f"{e.title}\n{e.question}\n{e.answer}"\<close>.\<close>

definition kb_text :: "kb_entry \<Rightarrow> string" where
  "kb_text e = title e @ [CHR 0x0A] @ question e @ [CHR 0x0A] @ answer e"

definition load_index ::
  "('v, 'x) fit_transform_fn \<Rightarrow> ('v, 'x) rag_service \<Rightarrow> kb_db \<Rightarrow> py_error option \<times> ('v, 'x) rag_service" where
  "load_index fit_transform svc db =
     (let entries = active_entries db;
          corpus = map kb_text entries;
          new_ids = map entry_id entries
      in (case build fit_transform (index svc) corpus new_ids of
            (err, idx') \<Rightarrow> (err, svc\<lparr>index := idx'\<rparr>)))"

text \<open>\<open>__init__\<close>: a fresh index, loaded at once (an exception here aborts the import of
  the module).\<close>

definition rag_init ::
  "('v, 'x) fit_transform_fn \<Rightarrow> 'v \<Rightarrow> kb_db \<Rightarrow> py_error option \<times> ('v, 'x) rag_service" where
  "rag_init fit_transform v0 db = load_index fit_transform \<lparr>index = init_index v0\<rparr> db"

definition refresh_index ::
  "('v, 'x) fit_transform_fn \<Rightarrow> ('v, 'x) rag_service \<Rightarrow> kb_db \<Rightarrow> py_error option \<times> ('v, 'x) rag_service" where
  "refresh_index fit_transform svc db = load_index fit_transform svc db"

text \<open>\<open>retrieve(question, k)\<close>: \<open>[entries[i] for i in id_order if i in entries]\<close>.\<close>

definition retrieve ::
  "('v, 'x, 's::linorder) query_sims_fn \<Rightarrow> ('v, 'x) rag_service \<Rightarrow> kb_db \<Rightarrow> string \<Rightarrow> int
   \<Rightarrow> kb_entry list py_result" where
  "retrieve query_sims svc db q k =
     (case search query_sims (index svc) q k of
        Inl e \<Rightarrow> Inl e
      | Inr results \<Rightarrow>
          (let id_order = map fst results;
               entries = entries_by_id db id_order
           in Inr (List.map_filter entries id_order)))"

text \<open>One snippet of \<open>generate\<close>: the stripped answer, cut at 400 characters with
  \<open>"..."\<close> appended when longer.\<close>

definition truncate_snippet :: "string \<Rightarrow> string" where
  "truncate_snippet a = (let s = py_strip a in if 400 < length s then take 400 s @ ''...'' else s)"

definition no_answer_text :: string where
  "no_answer_text = ''I don't have an exact answer in the knowledge base. Please provide more details.''"

definition answer_header :: string where
  "answer_header = ''Here is what I found related to your question:'' @ [CHR 0x0A]"

definition answer_footer :: string where
  "answer_footer = [CHR 0x0A, CHR 0x0A] @ ''If this doesn't fully answer your question, please rephrase or ask a follow-up.''"

definition generate :: "string \<Rightarrow> kb_entry list \<Rightarrow> string" where
  "generate q contexts =
     (let snippets = map (\<lambda>e. ''- '' @ truncate_snippet (answer e)) (take 3 contexts)
      in if snippets = [] then no_answer_text
         else answer_header @ py_join [CHR 0x0A] snippets @ answer_footer)"

text \<open>The dictionary \<open>ask\<close> exposes for each context.\<close>

record context_json =
  ctx_id :: int
  ctx_title :: string
  ctx_question :: string
  ctx_answer :: string
  ctx_tags :: "string list"
  ctx_source :: string

definition to_context_json :: "kb_entry \<Rightarrow> context_json" where
  "to_context_json e =
     \<lparr>ctx_id = entry_id e, ctx_title = title e, ctx_question = question e, ctx_answer = answer e,
      ctx_tags = tags e, ctx_source = source e\<rparr>"

text \<open>Python's \<open>int()\<close> of a float: truncation towards zero.\<close>

definition py_int :: "real \<Rightarrow> int" where
  "py_int x = (if 0 \<le> x then \<lfloor>x\<rfloor> else \<lceil>x\<rceil>)"

definition ask ::
  "('v, 'x, 's::linorder) query_sims_fn \<Rightarrow> ('v, 'x) rag_service \<Rightarrow> kb_db \<Rightarrow> string \<Rightarrow> real \<Rightarrow> real
   \<Rightarrow> (string \<times> context_json list \<times> int) py_result" where
  "ask query_sims svc db q t0 t1 =
     (case retrieve query_sims svc db q 5 of
        Inl e \<Rightarrow> Inl e
      | Inr contexts \<Rightarrow>
          (let ans = generate q contexts;
               latency = py_int ((t1 - t0) * 1000)
           in Inr (ans, map to_context_json contexts, latency)))"

subsection \<open>Resolution of ranked ids\<close>

lemma retrieve_search_Inr:
  "search query_sims (index svc) q k = Inr rs \<Longrightarrow>
   retrieve query_sims svc db q k = Inr (List.map_filter (entries_by_id db (map fst rs)) (map fst rs))"
  by (simp add: retrieve_def Let_def)

lemma resolve_ids:
  "set xs \<subseteq> set id_order \<Longrightarrow>
   map entry_id (List.map_filter (entries_by_id db id_order) xs)
     = filter (\<lambda>i. i \<in> entry_id ` set (kb_entries db)) xs"
proof (induction xs)
  case Nil
  then show ?case by simp
next
  case (Cons x xs)
  then have x: "x \<in> set id_order" and IH: "map entry_id (List.map_filter (entries_by_id db id_order) xs)
     = filter (\<lambda>i. i \<in> entry_id ` set (kb_entries db)) xs" by auto
  show ?case
  proof (cases "entries_by_id db id_order x")
    case None
    with x have "x \<notin> entry_id ` set (kb_entries db)" by (simp add: entries_by_id_None)
    with None IH show ?thesis by simp
  next
    case (Some e)
    then have "e \<in> set (kb_entries db)" and "entry_id e = x" by (auto dest: entries_by_id_Some)
    with Some IH show ?thesis by auto
  qed
qed

lemma py_int_nonneg_iff: "0 \<le> py_int x \<longleftrightarrow> -1 < x"
  by (simp add: py_int_def)

lemma ask_Inr:
  "ask query_sims svc db q t0 t1 = Inr (ans, cs, l) \<Longrightarrow>
   \<exists>ctx. retrieve query_sims svc db q 5 = Inr ctx \<and> ans = generate q ctx
     \<and> cs = map to_context_json ctx \<and> l = py_int ((t1 - t0) * 1000)"
  by (auto simp: ask_def Let_def split: sum.splits)

lemma load_index_cases:
  assumes "fst (load_index fit_transform svc db) = None"
  shows "(active_entries db = [] \<and> matrix (index (snd (load_index fit_transform svc db))) = None
           \<and> ids (index (snd (load_index fit_transform svc db))) = [])
       \<or> (\<exists>v' m. fit_transform (vectorizer (index svc)) (map kb_text (active_entries db)) = (v', Inr m)
           \<and> matrix (index (snd (load_index fit_transform svc db))) = Some m
           \<and> ids (index (snd (load_index fit_transform svc db))) = map entry_id (active_entries db))"
proof -
  obtain v' r where f: "fit_transform (vectorizer (index svc)) (map kb_text (active_entries db)) = (v', r)"
    by fastforce
  with assms show ?thesis
    by (cases r) (auto simp: load_index_def build_def Let_def split: if_splits)
qed

lemma retrieve_ids_subset:
  "retrieve query_sims svc db q k = Inr cs \<Longrightarrow> entry_id ` set cs \<subseteq> set (ids (index svc))"
proof -
  assume r: "retrieve query_sims svc db q k = Inr cs"
  then obtain rs where s: "search query_sims (index svc) q k = Inr rs"
    by (auto simp: retrieve_def split: sum.splits)
  with r have cs: "cs = List.map_filter (entries_by_id db (map fst rs)) (map fst rs)"
    by (simp add: retrieve_search_Inr)
  have "entry_id ` set cs \<subseteq> fst ` set rs"
    by (auto simp: cs set_map_filter dest!: entries_by_id_Some)
  with search_ids_subset [OF s] show ?thesis by blast
qed

lemma ask_ids_subset:
  "ask query_sims svc db q t0 t1 = Inr (a, cs, l) \<Longrightarrow> ctx_id ` set cs \<subseteq> set (ids (index svc))"
proof -
  assume a: "ask query_sims svc db q t0 t1 = Inr (a, cs, l)"
  from ask_Inr [OF a] obtain ctx where r: "retrieve query_sims svc db q 5 = Inr ctx"
    and cs: "cs = map to_context_json ctx" by blast
  from retrieve_ids_subset [OF r] show ?thesis
    by (auto simp: cs to_context_json_def image_subset_iff)
qed

text \<open>A load keeps the snapshot well-formed and its ids among the keys issued so far.\<close>

lemma load_index_inv:
  assumes fc: "fit_contract fit_transform rows" and wf: "index_wf rows (index svc)" and db: "db_wf db"
    and old: "\<forall>i \<in> set (ids (index svc)). i < next_entry_id db"
  shows "index_wf rows (index (snd (load_index fit_transform svc db)))
       \<and> (\<forall>i \<in> set (ids (index (snd (load_index fit_transform svc db)))). i < next_entry_id db)"
proof -
  let ?es = "active_entries db"
  obtain err idx' where b: "build fit_transform (index svc) (map kb_text ?es) (map entry_id ?es) = (err, idx')"
    by fastforce
  then have l: "index (snd (load_index fit_transform svc db)) = idx'"
    by (simp add: load_index_def Let_def)
  have act: "\<forall>i \<in> set (map entry_id ?es). i < next_entry_id db"
    using db by (auto simp: db_wf_def set_active_entries)
  from build_cases [OF b] fc wf old act have "index_wf rows idx' \<and> (\<forall>i \<in> set (ids idx'). i < next_entry_id db)"
    by (auto simp: index_wf_def fit_contract_def split: option.splits)
  with l show ?thesis by simp
qed

lemma ask_total:
  assumes "index_wf rows (index svc)" and "sims_contract query_sims rows"
    and "\<forall>m. matrix (index svc) = Some m \<longrightarrow> (\<exists>s. query_sims (vectorizer (index svc)) m q = Inr s)"
  shows "\<exists>a cs l. ask query_sims svc db q t0 t1 = Inr (a, cs, l)"
  using search_total [OF assms, where k = 5]
  by (auto simp: ask_def retrieve_def Let_def)

lemma retrieve_after_load:
  assumes fc: "fit_contract fit_transform rows" and sc: "sims_contract query_sims rows"
    and ok: "fst (load_index fit_transform svc db) = None"
    and k: "0 \<le> k" "length (active_entries db) \<le> nat k"
    and tot: "\<forall>m. matrix (index (snd (load_index fit_transform svc db))) = Some m
                \<longrightarrow> (\<exists>s. query_sims (vectorizer (index (snd (load_index fit_transform svc db)))) m q = Inr s)"
  shows "\<exists>cs. retrieve query_sims (snd (load_index fit_transform svc db)) db q k = Inr cs
             \<and> entry_id ` set cs = entry_id ` set (active_entries db)"
proof -
  let ?svc' = "snd (load_index fit_transform svc db)"
  consider (empty) "active_entries db = []" "matrix (index ?svc') = None"
    | (built) v' m where "fit_transform (vectorizer (index svc)) (map kb_text (active_entries db)) = (v', Inr m)"
        "matrix (index ?svc') = Some m" "ids (index ?svc') = map entry_id (active_entries db)"
    using load_index_cases [OF ok] by fastforce
  then show ?thesis
  proof cases
    case empty
    then show ?thesis by (simp add: retrieve_def search_def)
  next
    case built
    with fc have wf: "index_wf rows (index ?svc')"
      by (simp add: index_wf_def fit_contract_def)
    from tot built obtain s where s: "query_sims (vectorizer (index ?svc')) m q = Inr s" by blast
    with wf sc built have len: "length s = length (active_entries db)"
      by (simp add: index_wf_def sims_contract_def)
    let ?rs = "map (\<lambda>i. (ids (index ?svc') ! i, s ! i)) (ranked_rows s k)"
    have srch: "search query_sims (index ?svc') q k = Inr ?rs"
      by (rule search_wf_Inr [OF wf sc built(2) s])
    have rr: "set (ranked_rows s k) = {..<length (ids (index ?svc'))}"
      using set_ranked_rows_all [OF k(1), of s] k(2) len built(3) by simp
    have "set (map fst ?rs) = (\<lambda>i. ids (index ?svc') ! i) ` {..<length (ids (index ?svc'))}"
      by (simp add: rr [symmetric] image_comp comp_def)
    also have "\<dots> = set (ids (index ?svc'))" by (auto simp: set_conv_nth)
    finally have "set (map fst ?rs) = set (ids (index ?svc'))" .
    then have ids: "set (map fst ?rs) = entry_id ` set (active_entries db)" using built(3) by simp
    have "set (map fst ?rs) \<subseteq> entry_id ` set (kb_entries db)"
      unfolding ids by (auto simp: set_active_entries)
    then have "entry_id ` set (List.map_filter (entries_by_id db (map fst ?rs)) (map fst ?rs))
                 = entry_id ` set (active_entries db)"
      using resolve_ids [of "map fst ?rs" "map fst ?rs" db] ids
      by (metis (no_types, lifting) filter_True subset_iff list.set_map order_refl)
    with retrieve_search_Inr [OF srch] show ?thesis by blast
  qed
qed

lemma ask_ctx_in_table:
  "ask query_sims svc db q t0 t1 = Inr (a, cs, l) \<Longrightarrow> ctx_id ` set cs \<subseteq> entry_id ` set (kb_entries db)"
proof -
  assume a: "ask query_sims svc db q t0 t1 = Inr (a, cs, l)"
  from ask_Inr [OF a] obtain ctx where r: "retrieve query_sims svc db q 5 = Inr ctx"
    and cs: "cs = map to_context_json ctx" by blast
  from r obtain rs where "search query_sims (index svc) q 5 = Inr rs"
    by (auto simp: retrieve_def split: sum.splits)
  with r have "ctx = List.map_filter (entries_by_id db (map fst rs)) (map fst rs)"
    by (simp add: retrieve_search_Inr)
  then show ?thesis
    by (auto simp: cs to_context_json_def set_map_filter dest!: entries_by_id_Some)
qed

text \<open>
  C10. \<open>retrieve\<close> resolves the ranked ids in rank order: the ids of the returned entries
  are exactly the ranked ids that still have a row in the table, in the order
  \<open>search\<close> gave them; ids with no row are dropped, nothing is reordered or padded.
\<close>

theorem retrieve_rank_order:
  assumes "search query_sims (index svc) q k = Inr rs"
  shows "\<exists>cs. retrieve query_sims svc db q k = Inr cs \<and> set cs \<subseteq> set (kb_entries db)
           \<and> map entry_id cs = filter (\<lambda>i. i \<in> entry_id ` set (kb_entries db)) (map fst rs)"
proof -
  have "set (List.map_filter (entries_by_id db (map fst rs)) (map fst rs)) \<subseteq> set (kb_entries db)"
    by (auto simp: set_map_filter dest: entries_by_id_Some)
  with retrieve_search_Inr [OF assms] resolve_ids [of "map fst rs" "map fst rs" db] show ?thesis
    by auto
qed

text \<open>
  C11. \<open>retrieve\<close> resolves ranked ids with \<open>filter(id__in=...)\<close>, which does not look
  at \<open>is_active\<close>: every entry still in the table whose id the index ranks is returned,
  including one deactivated since the last build.
\<close>

theorem retrieve_keeps_ranked_entry:
  assumes wf: "db_wf db" and s: "search query_sims (index svc) q k = Inr rs"
    and e: "e \<in> set (kb_entries db)" and r: "entry_id e \<in> fst ` set rs"
  shows "\<exists>cs. retrieve query_sims svc db q k = Inr cs \<and> e \<in> set cs"
proof -
  from wf e r have "entries_by_id db (map fst rs) (entry_id e) = Some e"
    by (intro entries_by_id_entry) (auto simp: db_wf_def)
  with r have "e \<in> set (List.map_filter (entries_by_id db (map fst rs)) (map fst rs))"
    by (force simp: set_map_filter)
  with retrieve_search_Inr [OF s] show ?thesis by auto
qed

text \<open>
  \<open>generate\<close> answers with the fixed fallback text exactly when no context was
  resolved.
\<close>

theorem generate_fallback_iff: "generate q cs = no_answer_text \<longleftrightarrow> cs = []"
  by (cases cs) (simp_all add: generate_def no_answer_text_def answer_header_def)

text \<open>
  Each of the first three contexts whose stripped answer is longer than 400
  characters appears in the composed answer as a bullet \<open>"- "\<close>, its first 400
  characters, and \<open>"..."\<close>.
\<close>

theorem generate_truncated_snippet:
  assumes c: "c \<in> set (take 3 cs)" and long: "400 < length (py_strip (answer c))"
  shows "sublist (''- '' @ take 400 (py_strip (answer c)) @ ''...'') (generate q cs)"
proof -
  let ?snips = "map (\<lambda>e. ''- '' @ truncate_snippet (answer e)) (take 3 cs)"
  have in_snips: "''- '' @ take 400 (py_strip (answer c)) @ ''...'' \<in> set ?snips"
    using c long by (force simp: truncate_snippet_def)
  then have ne: "?snips \<noteq> []" by auto
  have "sublist (''- '' @ take 400 (py_strip (answer c)) @ ''...'') (py_join [CHR 0x0A] ?snips)"
    using in_snips by (rule py_join_sublist)
  moreover have "sublist (py_join [CHR 0x0A] ?snips) (answer_header @ py_join [CHR 0x0A] ?snips @ answer_footer)"
    by (rule sublist_appendI)
  ultimately show ?thesis
    using ne by (simp add: generate_def Let_def sublist_order.order.trans)
qed

theorem generate_truncated_snippet_witness:
  "sublist (''- '' @ take 400 (replicate 401 (CHR ''a'')) @ ''...'')
     (generate ''q'' [\<lparr>entry_id = 1, created_at = 0, updated_at = 0, title = ''T'', question = ''Q'',
        answer = replicate 401 (CHR ''a''), tags = [], source = [], metadata = [], is_active = True\<rparr>])"
proof -
  have strip: "py_strip (replicate 401 (CHR ''a'')) = replicate 401 (CHR ''a'')"
    by (simp add: py_strip_def py_isspace_def)
  show ?thesis
    using generate_truncated_snippet [of "\<lparr>entry_id = 1, created_at = 0, updated_at = 0, title = ''T'',
        question = ''Q'', answer = replicate 401 (CHR ''a''), tags = [], source = [], metadata = [],
        is_active = True\<rparr>" "[\<lparr>entry_id = 1, created_at = 0, updated_at = 0, title = ''T'', question = ''Q'',
        answer = replicate 401 (CHR ''a''), tags = [], source = [], metadata = [], is_active = True\<rparr>]" "''q''"]
    by (simp add: strip)
qed

theorem retrieve_keeps_ranked_entry_witness:
  "\<not> is_active (kb_entries (save_entry 3 ((kb_entries test_setup_db ! 0)\<lparr>is_active := False\<rparr>) test_setup_db) ! 0)
   \<and> (\<exists>cs. retrieve (\<lambda>v m q. Inr [0, 1 :: int])
           (snd (load_index (\<lambda>(v::unit) c. ((), Inr (length c))) \<lparr>index = init_index ()\<rparr> test_setup_db))
           (save_entry 3 ((kb_entries test_setup_db ! 0)\<lparr>is_active := False\<rparr>) test_setup_db)
           ''reset password'' 5 = Inr cs
         \<and> kb_entries (save_entry 3 ((kb_entries test_setup_db ! 0)\<lparr>is_active := False\<rparr>) test_setup_db) ! 0 \<in> set cs)"
proof -
  define db1 where "db1 = save_entry 3 ((kb_entries test_setup_db ! 0)\<lparr>is_active := False\<rparr>) test_setup_db"
  define svc where "svc = snd (load_index (\<lambda>(v::unit) c. ((), Inr (length c))) \<lparr>index = init_index ()\<rparr> test_setup_db)"
  have wf: "db_wf db1" by (simp add: db1_def kb_eval)
  have s: "search (\<lambda>v m q. Inr [0, 1 :: int]) (index svc) ''reset password'' 5 = Inr [(1, 1), (2, 0)]"
    by (simp add: svc_def load_index_def kb_eval index_eval)
  have e: "kb_entries db1 ! 0 \<in> set (kb_entries db1)" by (simp add: db1_def kb_eval)
  have r: "entry_id (kb_entries db1 ! 0) \<in> fst ` set [(1::int, 1::int), (2, 0)]"
    by (simp add: db1_def kb_eval)
  have "\<not> is_active (kb_entries db1 ! 0)" by (simp add: db1_def kb_eval)
  with retrieve_keeps_ranked_entry [OF wf s e r] show ?thesis
    by (simp add: db1_def svc_def)
qed

theorem retrieve_rank_order_witness:
  "\<exists>cs. retrieve (\<lambda>v m q. Inr [0, 1 :: int])
          (snd (load_index (\<lambda>(v::unit) c. ((), Inr (length c))) \<lparr>index = init_index ()\<rparr> test_setup_db))
          (delete_entry 2 test_setup_db) ''reset password'' 5 = Inr cs
        \<and> map entry_id cs = [1]"
proof -
  define svc where "svc = snd (load_index (\<lambda>(v::unit) c. ((), Inr (length c))) \<lparr>index = init_index ()\<rparr> test_setup_db)"
  have s: "search (\<lambda>v m q. Inr [0, 1 :: int]) (index svc) ''reset password'' 5 = Inr [(1, 1), (2, 0)]"
    by (simp add: svc_def load_index_def kb_eval index_eval)
  have filt: "filter (\<lambda>i. i \<in> entry_id ` set (kb_entries (delete_entry 2 test_setup_db))) (map fst [(1::int, 1::int), (2, 0)]) = [1]"
    by (simp add: kb_eval)
  from retrieve_rank_order [OF s, of "delete_entry 2 test_setup_db"] filt
  show ?thesis unfolding svc_def by auto
qed

text \<open>
  A snippet is at most 403 characters (400 and the ellipsis), and a stripped answer of
  at most 400 characters is kept whole.
\<close>

theorem truncate_snippet_bounds:
  "length (truncate_snippet a) \<le> 403 \<and> (length (py_strip a) \<le> 400 \<longrightarrow> truncate_snippet a = py_strip a)"
  by (simp add: truncate_snippet_def Let_def)

theorem truncate_snippet_bounds_witness:
  "truncate_snippet ''  Reset it.  '' = ''Reset it.'' \<and> length (truncate_snippet ''  Reset it.  '') \<le> 403"
proof -
  have s: "py_strip ''  Reset it.  '' = ''Reset it.''" by (simp add: py_strip_def py_isspace_def)
  show ?thesis using truncate_snippet_bounds [of "''  Reset it.  ''"] by (simp add: s)
qed

text \<open>
  C15. The latency \<open>int((time.time() - t0) * 1000)\<close> is non-negative exactly when the
  second clock reading is less than a millisecond before the first: \<open>time.time()\<close> is a
  wall clock, and nothing clamps a negative difference to zero.
\<close>

theorem ask_latency_sign:
  assumes "ask query_sims svc db q t0 t1 = Inr (ans, cs, l)"
  shows "0 \<le> l \<longleftrightarrow> -1 < (t1 - t0) * 1000"
  using ask_Inr [OF assms] by (auto simp: py_int_nonneg_iff)

theorem ask_latency_sign_witness:
  "ask (\<lambda>v m q. Inr ([] :: int list)) \<lparr>index = init_index () :: (unit, unit) simple_vector_index\<rparr> empty_db ''q'' 10 9
     = Inr (no_answer_text, [], -1000)
   \<and> \<not> (0 \<le> (-1000 :: int))"
proof -
  have a: "ask (\<lambda>v m q. Inr ([] :: int list)) \<lparr>index = init_index () :: (unit, unit) simple_vector_index\<rparr> empty_db ''q'' 10 9
     = Inr (no_answer_text, [], -1000)"
    by (simp add: ask_def retrieve_def generate_def py_int_def index_eval)
  show ?thesis using a ask_latency_sign [OF a] by simp
qed

text \<open>
  \<open>ask\<close> swallows no error: it raises exactly the exception that \<open>search\<close> raises
  for the question with \<open>k = 5\<close>.
\<close>

theorem ask_error_propagates:
  "ask query_sims svc db q t0 t1 = Inl e \<longleftrightarrow> search query_sims (index svc) q 5 = Inl e"
  by (simp add: ask_def retrieve_def Let_def split: sum.split)

text \<open>
  C17. A load (initial or refresh) that does not raise produces a well-formed snapshot
  whose rows are exactly the active entries, newest first.
\<close>

theorem load_index_snapshot:
  assumes fc: "fit_contract fit_transform rows" and ok: "fst (load_index fit_transform svc db) = None"
  shows "index_wf rows (index (snd (load_index fit_transform svc db)))
       \<and> ids (index (snd (load_index fit_transform svc db))) = map entry_id (active_entries db)"
  using load_index_cases [OF ok] fc by (auto simp: index_wf_def fit_contract_def)

theorem load_index_snapshot_witness:
  "index_wf (\<lambda>m::nat. m) (index (snd (load_index (\<lambda>(v::unit) c. ((), Inr (length c))) \<lparr>index = init_index ()\<rparr> test_setup_db)))
   \<and> ids (index (snd (load_index (\<lambda>(v::unit) c. ((), Inr (length c))) \<lparr>index = init_index ()\<rparr> test_setup_db))) = [2, 1]"
proof -
  have fc: "fit_contract (\<lambda>(v::unit) c. ((), Inr (length c))) (\<lambda>m::nat. m)"
    by (simp add: fit_contract_def)
  have ok: "fst (load_index (\<lambda>(v::unit) c. ((), Inr (length c))) \<lparr>index = init_index ()\<rparr> test_setup_db) = None"
    by (simp add: load_index_def kb_eval index_eval)
  have "map entry_id (active_entries test_setup_db) = [2, 1]" by (simp add: kb_eval)
  with load_index_snapshot [OF fc ok] show ?thesis by simp
qed

text \<open>
  With a vectorizer whose fit does not depend on its previous state (sklearn refits
  from scratch), refreshing twice over an unchanged table gives the same service state as
  refreshing once.
\<close>

theorem refresh_idempotent:
  assumes "\<forall>v v' c. fit_transform v c = fit_transform v' c"
  shows "snd (refresh_index fit_transform (snd (refresh_index fit_transform svc db)) db)
       = snd (refresh_index fit_transform svc db)"
proof -
  let ?es = "active_entries db"
  obtain v' r where f: "fit_transform (vectorizer (index svc)) (map kb_text ?es) = (v', r)"
    by fastforce
  from assms f have f': "fit_transform v' (map kb_text ?es) = (v', r)" by metis
  show ?thesis
    using f f' by (cases r) (simp_all add: refresh_index_def load_index_def build_def Let_def)
qed

theorem refresh_idempotent_witness:
  "snd (refresh_index (\<lambda>(v::unit) c. ((), Inr (length c))) (snd (refresh_index (\<lambda>(v::unit) c. ((), Inr (length c))) \<lparr>index = init_index ()\<rparr> test_setup_db)) test_setup_db)
   = snd (refresh_index (\<lambda>(v::unit) c. ((), Inr (length c))) \<lparr>index = init_index ()\<rparr> test_setup_db)"
proof -
  have "\<forall>(v::unit) v' c. ((), Inr (length c) :: nat py_result) = ((), Inr (length c))" by simp
  then show ?thesis by (rule refresh_idempotent)
qed

end
