(* ===== verification/Ask_View.thy ===== *)
theory Ask_View
  imports HTTP RAG_Service
begin

text \<open>
  \<open>AskView.post\<close> of \<open>views.py\<close> with \<open>AskRequestSerializer\<close>: validation, the call of
  \<open>rag_service.ask\<close>, the \<open>QueryLog\<close> row written on success and on failure, and the
  responses, with their properties (C19--C23, C36).
\<close>

subsection \<open>AskRequestSerializer\<close>

text \<open>
  \<open>serializers.CharField(max_length=5000)\<close> on the \<open>question\<close> key of the request
  body (a JSON string, or absent): absence and a blank value (empty after
  \<open>strip()\<close>) fail at once; otherwise the stripped value goes through the validators
  \<open>MaxLengthValidator(5000)\<close> and \<open>ProhibitNullCharactersValidator\<close>, whose messages are
  collected.
\<close>

definition validate_question :: "string option \<Rightarrow> string list + string" where
  "validate_question data =
     (case data of
        None \<Rightarrow> Inl [''This field is required.'']
      | Some d \<Rightarrow>
          if py_strip d = [] then Inl [''This field may not be blank.'']
          else (let v = py_strip d;
                    errs = (if 5000 < length v then [''Ensure this field has no more than 5000 characters.''] else [])
                         @ (if CHR 0x00 \<in> set v then [''Null characters are not allowed.''] else [])
                in if errs = [] then Inr v else Inl errs))"

subsection \<open>AskView.post\<close>

text \<open>A context dict of \<open>ask\<close>, as \<open>AskResponseSerializer\<close> renders it.\<close>

definition context_to_json :: "context_json \<Rightarrow> json" where
  "context_to_json c =
     JObj [(''id'', JInt (ctx_id c)), (''title'', JStr (ctx_title c)), (''question'', JStr (ctx_question c)),
           (''answer'', JStr (ctx_answer c)), (''tags'', JList (map JStr (ctx_tags c))),
           (''source'', JStr (ctx_source c))]"

text \<open>
  Validation errors answer 400 and write nothing. Otherwise \<open>rag_service.ask\<close> runs;
  its result is logged with status \<open>ok\<close> and returned with the log's id, and any
  exception is logged with status \<open>error\<close>, no contexts, an empty answer and latency 0,
  and answered with 500. \<open>t0\<close>, \<open>t1\<close> are the clock readings inside \<open>ask\<close>, \<open>now\<close>
  the time of the log row.
\<close>

definition ask_view ::
  "('v, 'x, 's::linorder) query_sims_fn \<Rightarrow> ('v, 'x) rag_service \<Rightarrow> kb_db \<Rightarrow> request_user
   \<Rightarrow> string option \<Rightarrow> real \<Rightarrow> real \<Rightarrow> int \<Rightarrow> http_response \<times> kb_db" where
  "ask_view query_sims svc db u data t0 t1 now =
     (case validate_question data of
        Inl errs \<Rightarrow> (\<lparr>resp_status = 400, resp_body = JObj [(''question'', JList (map JStr errs))]\<rparr>, db)
      | Inr q \<Rightarrow>
          (case ask query_sims svc db q t0 t1 of
             Inr (ans, contexts, latency) \<Rightarrow>
               (case create_query_log now (request_user_id u) q (map ctx_id contexts) ans latency Ok [] db of
                  (qid, db') \<Rightarrow>
                    (\<lparr>resp_status = 200,
                      resp_body = JObj [(''answer'', JStr ans), (''contexts'', JList (map context_to_json contexts)),
                                        (''latency_ms'', JInt latency), (''query_id'', JInt qid)]\<rparr>, db'))
           | Inl exc \<Rightarrow>
               (case create_query_log now (request_user_id u) q [] [] 0 Error (py_error_str exc) db of
                  (qid, db') \<Rightarrow>
                    (\<lparr>resp_status = 500,
                      resp_body = JObj [(''detail'', JStr ''Failed to generate answer''), (''query_id'', JInt qid)]\<rparr>, db'))))"

text \<open>\<open>AskResponseSerializer\<close>: the body of a 200 answer.\<close>

definition ask_response_ty :: json_ty where
  "ask_response_ty = TObj [(''answer'', TStr), (''contexts'', TList TDict), (''latency_ms'', TInt), (''query_id'', TInt)]"

subsection \<open>Properties of AskView\<close>

lemma ask_view_valid:
  "validate_question data = Inr q \<Longrightarrow>
   ask_view query_sims svc db u data t0 t1 now =
     (case ask query_sims svc db q t0 t1 of
        Inr (ans, contexts, latency) \<Rightarrow>
          (\<lparr>resp_status = 200,
            resp_body = JObj [(''answer'', JStr ans), (''contexts'', JList (map context_to_json contexts)),
                              (''latency_ms'', JInt latency), (''query_id'', JInt (next_log_id db))]\<rparr>,
           snd (create_query_log now (request_user_id u) q (map ctx_id contexts) ans latency Ok [] db))
      | Inl exc \<Rightarrow>
          (\<lparr>resp_status = 500,
            resp_body = JObj [(''detail'', JStr ''Failed to generate answer''), (''query_id'', JInt (next_log_id db))]\<rparr>,
           snd (create_query_log now (request_user_id u) q [] [] 0 Error (py_error_str exc) db)))"
  by (simp add: ask_view_def create_query_log_eq split: sum.split prod.split)

lemma ask_view_tables:
  "kb_entries (snd (ask_view query_sims svc db u data t0 t1 now)) = kb_entries db
   \<and> next_entry_id (snd (ask_view query_sims svc db u data t0 t1 now)) = next_entry_id db"
  by (auto simp: ask_view_def create_query_log_eq split: sum.split prod.split)

lemma ask_view_conforms:
  "resp_status (fst (ask_view query_sims svc db u data t0 t1 now)) \<in> {200, 201} \<Longrightarrow>
   json_conforms ask_response_ty (resp_body (fst (ask_view query_sims svc db u data t0 t1 now)))"
  by (auto simp: ask_view_def ask_response_ty_def context_to_json_def create_query_log_eq
      split: sum.splits prod.splits)

text \<open>
  The question serializer accepts a value exactly when its stripped form is
  non-empty, at most 5000 characters long and free of NUL characters, and it hands on
  the stripped form.
\<close>

theorem validate_question_iff:
  "validate_question (Some d) = Inr v \<longleftrightarrow>
     v = py_strip d \<and> v \<noteq> [] \<and> length v \<le> 5000 \<and> CHR 0x00 \<notin> set v"
  by (auto simp: validate_question_def Let_def)

text \<open>
  C20. A request is answered 400 exactly when the serializer rejects it, and exactly then
  nothing is written: a rejected question reaches neither the pipeline nor the log, and
  every accepted one leaves a log row.
\<close>

theorem ask_view_400_iff_unlogged:
  "(resp_status (fst (ask_view query_sims svc db u data t0 t1 now)) = 400 \<longleftrightarrow> isl (validate_question data))
   \<and> (snd (ask_view query_sims svc db u data t0 t1 now) = db \<longleftrightarrow> isl (validate_question data))"
proof (cases "validate_question data")
  case (Inl errs)
  then show ?thesis by (simp add: ask_view_def)
next
  case (Inr q)
  have "snd (create_query_log now u' q' c a lat st err db) \<noteq> db" for u' q' c a lat st err
  proof
    assume "snd (create_query_log now u' q' c a lat st err db) = db"
    then have "length (query_logs (snd (create_query_log now u' q' c a lat st err db))) = length (query_logs db)"
      by simp
    then show False by (simp add: create_query_log_eq)
  qed
  with Inr show ?thesis
    by (auto simp: ask_view_valid split: sum.split)
qed

text \<open>
  A valid request appends exactly one \<open>QueryLog\<close> row, whatever the pipeline does:
  the row takes the next key and the validated question, and the response carries that
  key as \<open>query_id\<close>.
\<close>

theorem ask_view_logs_once:
  assumes "validate_question data = Inr q"
  shows "\<exists>l. snd (ask_view query_sims svc db u data t0 t1 now)
              = db\<lparr>query_logs := query_logs db @ [l], next_log_id := next_log_id db + 1\<rparr>
           \<and> log_id l = next_log_id db \<and> log_question l = q \<and> log_user l = request_user_id u
           \<and> (''query_id'', JInt (log_id l)) \<in> set (json_fields (resp_body (fst (ask_view query_sims svc db u data t0 t1 now))))"
  using assms by (auto simp: ask_view_valid create_query_log_eq split: sum.split)

theorem ask_view_logs_once_witness:
  "query_logs (snd (ask_view (\<lambda>v m q. Inl NotFittedError :: int list py_result)
      \<lparr>index = init_index () :: (unit, unit) simple_vector_index\<rparr> empty_db
      \<lparr>user_pk = 1, is_authenticated = False, is_staff = False\<rparr> (Some '' reset password '') 0 0 7))
   = [\<lparr>log_id = 1, log_created_at = 7, log_updated_at = 7, log_user = None, log_question = ''reset password'',
       retrieved_context_ids = [], log_answer = no_answer_text, latency_ms = 0, status = Ok, error = []\<rparr>]"
proof -
  have v: "validate_question (Some '' reset password '') = Inr ''reset password''"
    by (simp add: validate_question_def py_strip_def py_isspace_def)
  obtain l where l: "snd (ask_view (\<lambda>v m q. Inl NotFittedError :: int list py_result)
      \<lparr>index = init_index () :: (unit, unit) simple_vector_index\<rparr> empty_db
      \<lparr>user_pk = 1, is_authenticated = False, is_staff = False\<rparr> (Some '' reset password '') 0 0 7)
      = empty_db\<lparr>query_logs := query_logs empty_db @ [l], next_log_id := next_log_id empty_db + 1\<rparr>"
    using ask_view_logs_once [OF v] by blast
  have "snd (ask_view (\<lambda>v m q. Inl NotFittedError :: int list py_result)
      \<lparr>index = init_index () :: (unit, unit) simple_vector_index\<rparr> empty_db
      \<lparr>user_pk = 1, is_authenticated = False, is_staff = False\<rparr> (Some '' reset password '') 0 0 7)
      = empty_db\<lparr>query_logs := [\<lparr>log_id = 1, log_created_at = 7, log_updated_at = 7, log_user = None,
           log_question = ''reset password'', retrieved_context_ids = [], log_answer = no_answer_text,
           latency_ms = 0, status = Ok, error = []\<rparr>], next_log_id := 2\<rparr>"
    by (simp add: ask_view_valid [OF v] ask_def retrieve_def generate_def py_int_def index_eval
        create_query_log_eq empty_db_def request_user_id_def)
  with l show ?thesis by (simp add: empty_db_def)
qed

text \<open>
  C22. When the pipeline raises, the request is logged with status \<open>error\<close>, no
  contexts, an empty answer, latency 0 and \<open>str(exc)\<close>, and answered 500.
\<close>

theorem ask_view_error_path:
  assumes "validate_question data = Inr q" and "ask query_sims svc db q t0 t1 = Inl exc"
  shows "resp_status (fst (ask_view query_sims svc db u data t0 t1 now)) = 500
       \<and> last (query_logs (snd (ask_view query_sims svc db u data t0 t1 now)))
           = \<lparr>log_id = next_log_id db, log_created_at = now, log_updated_at = now, log_user = request_user_id u,
              log_question = q, retrieved_context_ids = [], log_answer = [], latency_ms = 0, status = Error,
              error = py_error_str exc\<rparr>"
  using assms by (simp add: ask_view_valid create_query_log_eq)

theorem ask_view_error_path_witness:
  "resp_status (fst (ask_view (\<lambda>v m q. Inl NotFittedError :: int list py_result)
      \<lparr>index = \<lparr>vectorizer = (), matrix = Some (), ids = [1]\<rparr>\<rparr> empty_db
      \<lparr>user_pk = 4, is_authenticated = True, is_staff = False\<rparr> (Some ''reset'') 0 0 7)) = 500
   \<and> status (last (query_logs (snd (ask_view (\<lambda>v m q. Inl NotFittedError :: int list py_result)
      \<lparr>index = \<lparr>vectorizer = (), matrix = Some (), ids = [1]\<rparr>\<rparr> empty_db
      \<lparr>user_pk = 4, is_authenticated = True, is_staff = False\<rparr> (Some ''reset'') 0 0 7)))) = Error"
proof -
  have v: "validate_question (Some ''reset'') = Inr ''reset''"
    by (simp add: validate_question_def py_strip_def py_isspace_def)
  have a: "ask (\<lambda>v m q. Inl NotFittedError :: int list py_result)
      \<lparr>index = \<lparr>vectorizer = (), matrix = Some (), ids = [1]\<rparr>\<rparr> empty_db ''reset'' 0 0 = Inl NotFittedError"
    by (simp add: ask_def retrieve_def search_def)
  show ?thesis using ask_view_error_path [OF v a] by simp
qed

text \<open>
  C23. When the pipeline answers, the request is logged with status \<open>ok\<close>, the answer,
  the latency, and the ids of the returned contexts in their rank order; the response
  lists the same contexts in the same order.
\<close>

theorem ask_view_ok_path:
  assumes "validate_question data = Inr q" and "ask query_sims svc db q t0 t1 = Inr (ans, cs, lat)"
  shows "resp_status (fst (ask_view query_sims svc db u data t0 t1 now)) = 200
       \<and> (''contexts'', JList (map context_to_json cs)) \<in> set (json_fields (resp_body (fst (ask_view query_sims svc db u data t0 t1 now))))
       \<and> last (query_logs (snd (ask_view query_sims svc db u data t0 t1 now)))
           = \<lparr>log_id = next_log_id db, log_created_at = now, log_updated_at = now, log_user = request_user_id u,
              log_question = q, retrieved_context_ids = map ctx_id cs, log_answer = ans, latency_ms = lat,
              status = Ok, error = []\<rparr>"
  using assms by (simp add: ask_view_valid create_query_log_eq)

theorem ask_view_ok_path_witness:
  "resp_status (fst (ask_view (\<lambda>v m q. Inr ([] :: int list)) \<lparr>index = init_index () :: (unit, unit) simple_vector_index\<rparr>
      empty_db \<lparr>user_pk = 4, is_authenticated = True, is_staff = False\<rparr> (Some ''reset'') 0 0 7)) = 200
   \<and> retrieved_context_ids (last (query_logs (snd (ask_view (\<lambda>v m q. Inr ([] :: int list))
      \<lparr>index = init_index () :: (unit, unit) simple_vector_index\<rparr> empty_db
      \<lparr>user_pk = 4, is_authenticated = True, is_staff = False\<rparr> (Some ''reset'') 0 0 7)))) = []"
proof -
  have v: "validate_question (Some ''reset'') = Inr ''reset''"
    by (simp add: validate_question_def py_strip_def py_isspace_def)
  have a: "ask (\<lambda>v m q. Inr ([] :: int list)) \<lparr>index = init_index () :: (unit, unit) simple_vector_index\<rparr>
      empty_db ''reset'' 0 0 = Inr (no_answer_text, [], 0)"
    by (simp add: ask_def retrieve_def generate_def py_int_def index_eval)
  show ?thesis using ask_view_ok_path [OF v a] by simp
qed

lemma ask_view_wf:
  assumes "db_wf db"
  shows "db_wf (snd (ask_view query_sims svc db u data t0 t1 now))"
proof (cases "validate_question data")
  case Inl
  with assms show ?thesis by (simp add: ask_view_def)
next
  case Inr
  with assms show ?thesis by (simp add: ask_view_valid create_query_log_wf split: sum.split)
qed

text \<open>
  \<open>AskView\<close> answers 200 to every valid question when the index is well-formed and
  the similarity computation does not raise: the pipeline itself never fails (no
  \<open>IndexError\<close>, no lookup error), so the 500 path is taken only for an exception of
  the vectorizer. This is the scenario of \<open>AskAndSearchTests.test_ask\<close>.
\<close>

theorem ask_view_ok_when_sims_total:
  assumes "index_wf rows (index svc)" and "sims_contract query_sims rows"
    and "validate_question data = Inr q"
    and "\<forall>m. matrix (index svc) = Some m \<longrightarrow> (\<exists>s. query_sims (vectorizer (index svc)) m q = Inr s)"
  shows "resp_status (fst (ask_view query_sims svc db u data t0 t1 now)) = 200"
proof -
  obtain a cs l where "ask query_sims svc db q t0 t1 = Inr (a, cs, l)"
    using ask_total [OF assms(1,2,4)] by blast
  with assms(3) show ?thesis by (simp add: ask_view_def case_prod_unfold)
qed

theorem ask_view_ok_when_sims_total_witness:
  "resp_status (fst (ask_view (\<lambda>(v::unit) m q. Inr (replicate m (0::nat))) (snd (rag_init (\<lambda>v c. (v, Inr (length c))) () test_setup_db))
      test_setup_db \<lparr>user_pk = 0, is_authenticated = False, is_staff = False\<rparr> (Some ''How do I reset my password?'') 0 1 3)) = 200"
proof -
  have wf: "index_wf (\<lambda>n::nat. n) (index (snd (rag_init (\<lambda>v c. (v, Inr (length c))) () test_setup_db)))" by code_simp
  have sc: "sims_contract (\<lambda>(v::unit) m q. Inr (replicate m (0::nat))) (\<lambda>n::nat. n)" by (simp add: sims_contract_def)
  have v: "validate_question (Some ''How do I reset my password?'') = Inr ''How do I reset my password?''"
    by code_simp
  have t: "\<forall>m. matrix (index (snd (rag_init (\<lambda>v c. (v, Inr (length c))) () test_setup_db))) = Some m
      \<longrightarrow> (\<exists>s. (\<lambda>(v::unit) m q. Inr (replicate m (0::nat))) (vectorizer (index (snd (rag_init (\<lambda>v c. (v, Inr (length c))) () test_setup_db)))) m ''How do I reset my password?'' = Inr s)" by simp
  show ?thesis by (rule ask_view_ok_when_sims_total [OF wf sc v t])
qed

end
