(* ===== verification/Search_View.thy ===== *)
theory Search_View
  imports HTTP
begin

text \<open>
  \<open>SearchView.get\<close> of \<open>views.py\<close>: the query parameters, Python's \<open>int()\<close> on
  \<open>limit\<close>, the \<open>icontains\<close> filter over active entries, the ordering and the slice,
  with their properties (C25, C27, C28).
\<close>

subsection \<open>SearchView.get\<close>

text \<open>\<open>request.query_params.get(key, default)\<close>: a \<open>QueryDict\<close> returns the last value
  given for the key.\<close>

definition query_param_get :: "(string \<times> string) list \<Rightarrow> string \<Rightarrow> string \<Rightarrow> string" where
  "query_param_get params key dflt =
     (case filter (\<lambda>(k, v). k = key) params of [] \<Rightarrow> dflt | kvs \<Rightarrow> snd (last kvs))"

definition py_isdigit :: "char \<Rightarrow> bool" where
  "py_isdigit c = (let n = of_char c :: nat in 48 \<le> n \<and> n \<le> 57)"

text \<open>
  \<open>int(s)\<close> on a string, base 10: surrounding whitespace, an optional sign, then ASCII
  digits in which single underscores may separate digits; anything else raises
  \<open>ValueError\<close> (\<open>None\<close> here).
\<close>

definition py_digits_ok :: "string \<Rightarrow> bool" where
  "py_digits_ok ds =
     (ds \<noteq> [] \<and> py_isdigit (hd ds) \<and> py_isdigit (last ds)
      \<and> (\<forall>c \<in> set ds. py_isdigit c \<or> c = CHR ''_'') \<and> \<not> sublist ''__'' ds)"

definition py_digits_value :: "string \<Rightarrow> int" where
  "py_digits_value ds = foldl (\<lambda>acc c. 10 * acc + int (of_char c - 48)) 0 (filter py_isdigit ds)"

definition py_parse_int :: "string \<Rightarrow> int option" where
  "py_parse_int s =
     (let t = py_strip s;
          (sg, ds) = (case t of
                        c # r \<Rightarrow> if c = CHR ''-'' then (-1, r) else if c = CHR ''+'' then (1, r) else (1, t)
                      | [] \<Rightarrow> (1, []))
      in if py_digits_ok ds then Some (sg * py_digits_value ds) else None)"

text \<open>\<open>field__icontains=query\<close>: a case-insensitive (ASCII) substring test.\<close>

definition icontains :: "string \<Rightarrow> string \<Rightarrow> bool" where
  "icontains field q = py_contains (py_lower field) (py_lower q)"

text \<open>The queryset of lines 135--139: active entries matching in title, question or answer,
  newest first, the first \<open>limit\<close> of them.\<close>

definition search_matches :: "kb_db \<Rightarrow> string \<Rightarrow> int \<Rightarrow> kb_entry list" where
  "search_matches db q limit =
     take (nat limit)
       (order_by_updated_desc
         (filter (\<lambda>e. icontains (title e) q \<or> icontains (question e) q \<or> icontains (answer e) q)
           (filter is_active (kb_entries db))))"

text \<open>
  \<open>limit\<close> is parsed before the empty-query test, so a bad limit raises even for an
  empty query; Django refuses a negative slice bound with \<open>ValueError\<close>. Both
  exceptions are uncaught.
\<close>

definition search_view :: "kb_db \<Rightarrow> (string \<times> string) list \<Rightarrow> http_response py_result" where
  "search_view db params =
     (let q = py_strip (query_param_get params ''query'' []);
          limit_s = query_param_get params ''limit'' ''10''
      in case py_parse_int limit_s of
           None \<Rightarrow> Inl (ValueError ''invalid literal for int() with base 10'')
         | Some limit \<Rightarrow>
             if q = [] then Inr \<lparr>resp_status = 200, resp_body = JObj [(''results'', JList [])]\<rparr>
             else if limit < 0 then Inl (ValueError ''Negative indexing is not supported.'')
             else Inr \<lparr>resp_status = 200,
                        resp_body = JObj [(''results'', JList (map entry_to_json (search_matches db q limit)))]\<rparr>)"

text \<open>\<open>SearchResponseSerializer\<close>: \<open>results\<close>, a list of entries.\<close>

definition search_response_ty :: json_ty where
  "search_response_ty = TObj [(''results'', TList entry_ty)]"

subsection \<open>Properties of SearchView\<close>

lemma search_view_conforms:
  "search_view db params = Inr r \<Longrightarrow> json_conforms search_response_ty (resp_body r)"
  by (auto simp: search_view_def search_response_ty_def Let_def split: option.splits if_splits)

text \<open>
  C25. The search results are active entries of the table that match the query in title,
  question or answer (case-insensitively), newest first, and at most \<open>limit\<close> of them.
\<close>

theorem search_matches_sound:
  "set (search_matches db q limit)
     \<subseteq> {e \<in> set (kb_entries db). is_active e \<and> (icontains (title e) q \<or> icontains (question e) q \<or> icontains (answer e) q)}
   \<and> sorted_wrt (\<lambda>a b. updated_at b \<le> updated_at a) (search_matches db q limit)
   \<and> length (search_matches db q limit) \<le> nat limit"
  unfolding search_matches_def
  by (auto dest: in_set_takeD intro: sorted_wrt_take sorted_order_by_updated_desc)

text \<open>
  C27. \<open>limit\<close> is parsed before the empty-query test: a limit that \<open>int()\<close> rejects
  makes the view raise (a 500), even when the query is empty.
\<close>

theorem search_view_bad_limit:
  assumes "py_parse_int (query_param_get params ''limit'' ''10'') = None"
  shows "search_view db params = Inl (ValueError ''invalid literal for int() with base 10'')"
  using assms by (simp add: search_view_def Let_def)

theorem search_view_bad_limit_witness:
  "search_view test_setup_db [(''query'', ''''), (''limit'', ''ten'')]
     = Inl (ValueError ''invalid literal for int() with base 10'')"
proof -
  have "py_parse_int (query_param_get [(''query'', ''''), (''limit'', ''ten'')] ''limit'' ''10'') = None"
    by code_simp
  then show ?thesis by (rule search_view_bad_limit)
qed

text \<open>
  C28. A non-empty query with a negative limit raises Django's \<open>ValueError\<close> for
  negative slicing (a 500), instead of returning results.
\<close>

theorem search_view_negative_limit:
  assumes "py_parse_int (query_param_get params ''limit'' ''10'') = Some limit" and "limit < 0"
    and "py_strip (query_param_get params ''query'' []) \<noteq> []"
  shows "search_view db params = Inl (ValueError ''Negative indexing is not supported.'')"
  using assms by (simp add: search_view_def Let_def)

theorem search_view_negative_limit_witness:
  "search_view test_setup_db [(''query'', ''password''), (''limit'', ''-1'')]
     = Inl (ValueError ''Negative indexing is not supported.'')"
proof -
  have l: "py_parse_int (query_param_get [(''query'', ''password''), (''limit'', ''-1'')] ''limit'' ''10'') = Some (-1)"
    by code_simp
  have q: "py_strip (query_param_get [(''query'', ''password''), (''limit'', ''-1'')] ''query'' []) \<noteq> []"
    by code_simp
  show ?thesis using search_view_negative_limit [OF l _ q] by simp
qed

end
