(* ===== verification/KB_ViewSet.thy ===== *)
theory KB_ViewSet
  imports HTTP RAG_Service
begin

text \<open>
  \<open>KnowledgeBaseViewSet\<close> of \<open>views.py\<close> with \<open>KnowledgeBaseEntrySerializer\<close>: the
  permissions of \<open>get_permissions\<close>, list, retrieve, create, update, partial update,
  destroy, and the \<open>refresh-index\<close> action, with their properties (C29, C31, C35, C39,
  C40).
\<close>

text \<open>The writable fields of a request body; \<open>None\<close> is an absent key.\<close>

record kb_input =
  in_title :: "string option"
  in_question :: "string option"
  in_answer :: "string option"
  in_tags :: "string list option"
  in_source :: "string option"
  in_metadata :: "(string \<times> string) list option"
  in_is_active :: "bool option"

text \<open>\<open>serializer.is_valid()\<close>: title (required, not blank, at most 255), question (blank
  allowed), answer (required, not blank), source (blank allowed, at most 255); the JSON and
  boolean fields take any value of their type.\<close>

definition validate_kb_input :: "bool \<Rightarrow> kb_input \<Rightarrow> (string \<times> string list) list + kb_input" where
  "validate_kb_input partial inp =
     (let rt = drf_char_field True False (Some 255) partial (in_title inp);
          rq = drf_char_field False True None partial (in_question inp);
          ra = drf_char_field True False None partial (in_answer inp);
          rs = drf_char_field False True (Some 255) partial (in_source inp);
          errs = field_errors ''title'' rt @ field_errors ''question'' rq @ field_errors ''answer'' ra
                 @ field_errors ''source'' rs
      in if errs = [] then Inr (inp\<lparr>in_title := field_value rt, in_question := field_value rq,
                                    in_answer := field_value ra, in_source := field_value rs\<rparr>)
         else Inl errs)"

definition opt_or :: "'a \<Rightarrow> 'a option \<Rightarrow> 'a" where
  "opt_or d x = (case x of None \<Rightarrow> d | Some y \<Rightarrow> y)"

text \<open>An existing row with the validated fields written over it.\<close>

definition apply_input :: "kb_input \<Rightarrow> kb_entry \<Rightarrow> kb_entry" where
  "apply_input v e =
     e\<lparr>title := opt_or (title e) (in_title v), question := opt_or (question e) (in_question v),
       answer := opt_or (answer e) (in_answer v), tags := opt_or (tags e) (in_tags v),
       source := opt_or (source e) (in_source v), metadata := opt_or (metadata e) (in_metadata v),
       is_active := opt_or (is_active e) (in_is_active v)\<rparr>"

text \<open>\<open>get_object()\<close> over \<open>KnowledgeBaseEntry.objects.all()\<close>.\<close>

definition find_entry :: "kb_db \<Rightarrow> int \<Rightarrow> kb_entry option" where
  "find_entry db k = find (\<lambda>e. entry_id e = k) (kb_entries db)"

datatype kb_request =
    KbList
  | KbRetrieve int
  | KbCreate kb_input
  | KbUpdate int kb_input
  | KbPartialUpdate int kb_input
  | KbDestroy int
  | KbRefreshIndex

text \<open>\<open>get_permissions\<close>: \<open>AllowAny\<close> for \<open>list\<close> and \<open>retrieve\<close>, \<open>IsAdminUser\<close>
  (\<open>request.user.is_staff\<close>) for every other action, \<open>refresh-index\<close> included.\<close>

fun kb_read_only :: "kb_request \<Rightarrow> bool" where
  "kb_read_only KbList = True"
| "kb_read_only (KbRetrieve _) = True"
| "kb_read_only _ = False"

definition kb_has_permission :: "kb_request \<Rightarrow> request_user \<Rightarrow> bool" where
  "kb_has_permission req u = (kb_read_only req \<or> is_staff u)"

text \<open>DRF's \<open>permission_denied\<close>: 401 without credentials, 403 with them.\<close>

definition permission_denied :: "request_user \<Rightarrow> http_response" where
  "permission_denied u =
     (if is_authenticated u
      then \<lparr>resp_status = 403, resp_body = JObj [(''detail'', JStr ''You do not have permission to perform this action.'')]\<rparr>
      else \<lparr>resp_status = 401, resp_body = JObj [(''detail'', JStr ''Authentication credentials were not provided.'')]\<rparr>)"

definition not_found :: http_response where
  "not_found = \<lparr>resp_status = 404, resp_body = JObj [(''detail'', JStr ''Not found.'')]\<rparr>"


text \<open>\<open>update\<close> and \<open>partial_update\<close>: find the row, validate, save.\<close>

definition kb_update :: "int \<Rightarrow> bool \<Rightarrow> int \<Rightarrow> kb_input \<Rightarrow> kb_db \<Rightarrow> http_response \<times> kb_db" where
  "kb_update now partial k inp db =
     (case find_entry db k of
        None \<Rightarrow> (not_found, db)
      | Some e \<Rightarrow>
          (case validate_kb_input partial inp of
             Inl errs \<Rightarrow> (invalid_response errs, db)
           | Inr v \<Rightarrow>
               (let e' = (apply_input v e)\<lparr>updated_at := now\<rparr>
                in (\<lparr>resp_status = 200, resp_body = entry_to_json e'\<rparr>, save_entry now (apply_input v e) db))))"

text \<open>
  One request to the viewset: the permission check first, then the action. The service
  is returned also when \<open>refresh_index\<close> raises, since the vectorizer is mutated in
  place; the exception itself is uncaught.
\<close>

definition kb_viewset ::
  "('v, 'x) fit_transform_fn \<Rightarrow> ('v, 'x) rag_service \<Rightarrow> kb_db \<Rightarrow> request_user \<Rightarrow> kb_request \<Rightarrow> int
   \<Rightarrow> http_response py_result \<times> ('v, 'x) rag_service \<times> kb_db" where
  "kb_viewset fit_transform svc db u req now =
     (if \<not> kb_has_permission req u then (Inr (permission_denied u), svc, db)
      else case req of
        KbList \<Rightarrow>
          (Inr \<lparr>resp_status = 200, resp_body = JList (map entry_to_json (order_by_updated_desc (kb_entries db)))\<rparr>, svc, db)
      | KbRetrieve k \<Rightarrow>
          (Inr (case find_entry db k of None \<Rightarrow> not_found | Some e \<Rightarrow> \<lparr>resp_status = 200, resp_body = entry_to_json e\<rparr>), svc, db)
      | KbCreate inp \<Rightarrow>
          (case validate_kb_input False inp of
             Inl errs \<Rightarrow> (Inr (invalid_response errs), svc, db)
           | Inr v \<Rightarrow>
               (case create_entry now (opt_or [] (in_title v)) (opt_or [] (in_question v)) (opt_or [] (in_answer v))
                       (opt_or [] (in_tags v)) (opt_or [] (in_source v)) (opt_or [] (in_metadata v))
                       (opt_or True (in_is_active v)) db of
                  (k, db') \<Rightarrow> (Inr \<lparr>resp_status = 201, resp_body = entry_to_json (last (kb_entries db'))\<rparr>, svc, db')))
      | KbUpdate k inp \<Rightarrow> (case kb_update now False k inp db of (r, db') \<Rightarrow> (Inr r, svc, db'))
      | KbPartialUpdate k inp \<Rightarrow> (case kb_update now True k inp db of (r, db') \<Rightarrow> (Inr r, svc, db'))
      | KbDestroy k \<Rightarrow>
          (case find_entry db k of
             None \<Rightarrow> (Inr not_found, svc, db)
           | Some e \<Rightarrow> (Inr \<lparr>resp_status = 204, resp_body = JNull\<rparr>, svc, delete_entry k db))
      | KbRefreshIndex \<Rightarrow>
          (case refresh_index fit_transform svc db of
             (Some exc, svc') \<Rightarrow> (Inl exc, svc', db)
           | (None, svc') \<Rightarrow> (Inr \<lparr>resp_status = 200, resp_body = JObj [(''status'', JStr ''ok'')]\<rparr>, svc', db)))"

text \<open>
  The body of a successful answer: a list of entries for \<open>list\<close>, one entry for
  \<open>retrieve\<close>, \<open>create\<close>, \<open>update\<close> and \<open>partial_update\<close> (the \<open>ModelViewSet\<close>
  actions render \<open>serializer.data\<close>); \<open>destroy\<close> answers 204 without a body and
  \<open>refresh-index\<close> declares no schema.
\<close>

fun kb_response_ty :: "kb_request \<Rightarrow> json_ty" where
  "kb_response_ty KbList = TList entry_ty"
| "kb_response_ty (KbRetrieve _) = entry_ty"
| "kb_response_ty (KbCreate _) = entry_ty"
| "kb_response_ty (KbUpdate _ _) = entry_ty"
| "kb_response_ty (KbPartialUpdate _ _) = entry_ty"
| "kb_response_ty (KbDestroy _) = TAny"
| "kb_response_ty KbRefreshIndex = TAny"

subsection \<open>Properties of KnowledgeBaseViewSet\<close>

lemma validate_kb_input_Inr:
  assumes "validate_kb_input False inp = Inr v"
  shows "\<exists>t a. in_title v = Some t \<and> t \<noteq> [] \<and> length t \<le> 255 \<and> in_answer v = Some a \<and> a \<noteq> []
           \<and> in_is_active v = in_is_active inp \<and> in_tags v = in_tags inp \<and> in_metadata v = in_metadata inp"
proof -
  let ?rt = "drf_char_field True False (Some 255) False (in_title inp)"
  let ?ra = "drf_char_field True False None False (in_answer inp)"
  from assms have rt: "\<exists>r. ?rt = Inr r" and ra: "\<exists>r. ?ra = Inr r"
    and v: "v = inp\<lparr>in_title := field_value ?rt,
                in_question := field_value (drf_char_field False True None False (in_question inp)),
                in_answer := field_value ?ra,
                in_source := field_value (drf_char_field False True (Some 255) False (in_source inp))\<rparr>"
    by (auto simp: validate_kb_input_def Let_def field_errors_def split: if_splits sum.splits)
  from rt obtain r1 where r1: "?rt = Inr r1" by blast
  from ra obtain r2 where r2: "?ra = Inr r2" by blast
  from drf_char_field_required [OF r1] drf_char_field_required [OF r2] r1 r2 v show ?thesis
    by (auto simp: field_value_def)
qed

lemma kb_update_wf: "db_wf db \<Longrightarrow> db_wf (snd (kb_update now partial k inp db))"
  by (auto simp: kb_update_def Let_def save_entry_wf split: option.split sum.split)

lemma kb_viewset_svc:
  "fst (snd (kb_viewset fit_transform svc db u req now))
     = (if req = KbRefreshIndex \<and> kb_has_permission req u then snd (refresh_index fit_transform svc db) else svc)"
  by (cases req) (auto simp: kb_viewset_def kb_update_def Let_def split: option.split sum.split prod.split)

lemma kb_update_next_id:
  "kb_update now partial k inp db = (r, db') \<Longrightarrow> next_entry_id db' = next_entry_id db"
  by (auto simp: kb_update_def Let_def split: option.splits sum.splits)

lemma kb_viewset_next_id:
  "next_entry_id db \<le> next_entry_id (snd (snd (kb_viewset fit_transform svc db u req now)))"
  by (cases req)
     (auto simp: kb_viewset_def create_entry_eq delete_entry_def dest: kb_update_next_id
       split: option.split sum.split prod.split)

lemma validate_kb_input_partial:
  assumes "validate_kb_input True inp = Inr v"
  shows "(in_title inp = None \<longrightarrow> in_title v = None) \<and> (in_question inp = None \<longrightarrow> in_question v = None)
       \<and> (in_answer inp = None \<longrightarrow> in_answer v = None) \<and> (in_source inp = None \<longrightarrow> in_source v = None)
       \<and> in_tags v = in_tags inp \<and> in_metadata v = in_metadata inp \<and> in_is_active v = in_is_active inp"
  using assms
  by (auto simp: validate_kb_input_def Let_def field_value_def drf_char_field_absent split: if_splits)

lemma find_entry_Some:
  "find_entry db k = Some e \<Longrightarrow> e \<in> set (kb_entries db) \<and> entry_id e = k"
  by (auto simp: find_entry_def find_Some_iff)

lemma find_entry_None:
  "find_entry db k = None \<longleftrightarrow> k \<notin> entry_id ` set (kb_entries db)"
  by (auto simp: find_entry_def find_None_iff)

lemma find_entry_append_new:
  assumes "\<forall>x \<in> set (kb_entries db). entry_id x < k" and "entry_id e = k"
  shows "find (\<lambda>x. entry_id x = k) (kb_entries db @ [e]) = Some e"
proof -
  from assms(1) have "\<forall>x \<in> set (kb_entries db). entry_id x \<noteq> k" by fastforce
  with assms(2) show ?thesis by (simp add: find_append_last)
qed

lemma unique_entry:
  "distinct (map entry_id (kb_entries db)) \<Longrightarrow> e \<in> set (kb_entries db) \<Longrightarrow> x \<in> set (kb_entries db)
   \<Longrightarrow> entry_id x = entry_id e \<Longrightarrow> x = e"
  by (metis (mono_tags, lifting) distinct_map inj_on_contraD)

lemma kb_destroy_removes:
  "is_staff u \<Longrightarrow> k \<notin> entry_id ` set (kb_entries (snd (snd (kb_viewset fit_transform svc db u (KbDestroy k) now))))"
  by (auto simp: kb_viewset_def kb_has_permission_def delete_entry_def find_entry_None split: option.split)

text \<open>
  C29. Every action other than \<open>list\<close> and \<open>retrieve\<close>, the index refresh included,
  is refused to a non-staff user (401 without credentials, 403 with them) before it
  touches the tables or the index.
\<close>

theorem kb_write_requires_staff:
  assumes "\<not> is_staff u" and "\<not> kb_read_only req"
  shows "kb_viewset fit_transform svc db u req now = (Inr (permission_denied u), svc, db)
       \<and> resp_status (permission_denied u) \<in> {401, 403}"
  using assms by (simp add: kb_viewset_def kb_has_permission_def permission_denied_def)

theorem kb_write_requires_staff_witness:
  "kb_viewset (\<lambda>v c. (v, Inr (length c))) \<lparr>index = init_index () :: (unit, nat) simple_vector_index\<rparr> test_setup_db
     \<lparr>user_pk = 9, is_authenticated = True, is_staff = False\<rparr> KbRefreshIndex 5
   = (Inr \<lparr>resp_status = 403, resp_body = JObj [(''detail'', JStr ''You do not have permission to perform this action.'')]\<rparr>,
      \<lparr>index = init_index ()\<rparr>, test_setup_db)"
  using kb_write_requires_staff [of "\<lparr>user_pk = 9, is_authenticated = True, is_staff = False\<rparr>" KbRefreshIndex
      "\<lambda>v c. (v, Inr (length c))" "\<lparr>index = init_index () :: (unit, nat) simple_vector_index\<rparr>" test_setup_db 5]
  by (simp add: permission_denied_def)

lemma kb_viewset_wf:
  assumes "db_wf db"
  shows "db_wf (snd (snd (kb_viewset fit_transform svc db u req now)))"
proof (cases req)
  case (KbCreate inp)
  with assms show ?thesis
    by (auto simp: kb_viewset_def split: sum.split prod.split) (metis create_entry_wf snd_conv)
next
  case KbRefreshIndex
  with assms show ?thesis
    by (auto simp: kb_viewset_def split: prod.split option.split)
next
  case (KbUpdate k inp)
  with assms show ?thesis
    by (auto simp: kb_viewset_def split: prod.split) (metis kb_update_wf snd_conv)
next
  case (KbPartialUpdate k inp)
  with assms show ?thesis
    by (auto simp: kb_viewset_def split: prod.split) (metis kb_update_wf snd_conv)
qed (use assms in \<open>auto simp: kb_viewset_def delete_entry_wf split: option.split\<close>)

text \<open>
  C31. A staff member's valid create appends exactly one row: it takes the next key, both
  timestamps are the request time, title and answer are non-blank (the title at most 255
  characters), and \<open>is_active\<close> defaults to true; the response is 201 with that row. The
  index is left as it was.
\<close>

theorem kb_create_entry:
  assumes "is_staff u" and "validate_kb_input False inp = Inr v"
  shows "\<exists>e. kb_viewset fit_transform svc db u (KbCreate inp) now
             = (Inr \<lparr>resp_status = 201, resp_body = entry_to_json e\<rparr>, svc,
                db\<lparr>kb_entries := kb_entries db @ [e], next_entry_id := next_entry_id db + 1\<rparr>)
           \<and> entry_id e = next_entry_id db \<and> created_at e = now \<and> updated_at e = now
           \<and> title e \<noteq> [] \<and> length (title e) \<le> 255 \<and> answer e \<noteq> [] \<and> is_active e = opt_or True (in_is_active inp)"
  using assms validate_kb_input_Inr [OF assms(2)]
  by (auto simp: kb_viewset_def kb_has_permission_def create_entry_eq opt_or_def)

theorem kb_create_entry_witness:
  "snd (snd (kb_viewset (\<lambda>v c. (v, Inr (length c))) \<lparr>index = init_index () :: (unit, nat) simple_vector_index\<rparr>
      empty_db \<lparr>user_pk = 1, is_authenticated = True, is_staff = True\<rparr>
      (KbCreate \<lparr>in_title = Some '' Billing '', in_question = None, in_answer = Some ''Use the billing page.'',
                 in_tags = None, in_source = None, in_metadata = None, in_is_active = None\<rparr>) 5))
   = empty_db\<lparr>kb_entries := [\<lparr>entry_id = 1, created_at = 5, updated_at = 5, title = ''Billing'', question = [],
        answer = ''Use the billing page.'', tags = [], source = [], metadata = [], is_active = True\<rparr>],
      next_entry_id := 2\<rparr>"
proof -
  have v: "validate_kb_input False \<lparr>in_title = Some '' Billing '', in_question = None, in_answer = Some ''Use the billing page.'',
                 in_tags = None, in_source = None, in_metadata = None, in_is_active = None\<rparr>
    = Inr \<lparr>in_title = Some ''Billing'', in_question = None, in_answer = Some ''Use the billing page.'',
                 in_tags = None, in_source = None, in_metadata = None, in_is_active = None\<rparr>"
    by code_simp
  obtain e where "kb_viewset (\<lambda>v c. (v, Inr (length c))) \<lparr>index = init_index () :: (unit, nat) simple_vector_index\<rparr>
      empty_db \<lparr>user_pk = 1, is_authenticated = True, is_staff = True\<rparr>
      (KbCreate \<lparr>in_title = Some '' Billing '', in_question = None, in_answer = Some ''Use the billing page.'',
                 in_tags = None, in_source = None, in_metadata = None, in_is_active = None\<rparr>) 5
      = (Inr \<lparr>resp_status = 201, resp_body = entry_to_json e\<rparr>, \<lparr>index = init_index ()\<rparr>,
         empty_db\<lparr>kb_entries := kb_entries empty_db @ [e], next_entry_id := next_entry_id empty_db + 1\<rparr>)"
    using kb_create_entry [OF _ v, where u = "\<lparr>user_pk = 1, is_authenticated = True, is_staff = True\<rparr>"
        and fit_transform = "\<lambda>v c. (v, Inr (length c))"
        and svc = "\<lparr>index = init_index () :: (unit, nat) simple_vector_index\<rparr>" and db = empty_db and now = 5]
    by auto
  moreover have "kb_viewset (\<lambda>v c. (v, Inr (length c))) \<lparr>index = init_index () :: (unit, nat) simple_vector_index\<rparr>
      empty_db \<lparr>user_pk = 1, is_authenticated = True, is_staff = True\<rparr>
      (KbCreate \<lparr>in_title = Some '' Billing '', in_question = None, in_answer = Some ''Use the billing page.'',
                 in_tags = None, in_source = None, in_metadata = None, in_is_active = None\<rparr>) 5
      = (Inr \<lparr>resp_status = 201, resp_body = entry_to_json \<lparr>entry_id = 1, created_at = 5, updated_at = 5,
           title = ''Billing'', question = [], answer = ''Use the billing page.'', tags = [], source = [],
           metadata = [], is_active = True\<rparr>\<rparr>, \<lparr>index = init_index ()\<rparr>,
         empty_db\<lparr>kb_entries := [\<lparr>entry_id = 1, created_at = 5, updated_at = 5, title = ''Billing'', question = [],
           answer = ''Use the billing page.'', tags = [], source = [], metadata = [], is_active = True\<rparr>],
         next_entry_id := 2\<rparr>)"
    by (simp add: kb_viewset_def kb_has_permission_def v create_entry_eq opt_or_def empty_db_def)
  ultimately show ?thesis by simp
qed

text \<open>
  C35. A staff member's valid \<open>PATCH /kb/<id>/\<close> rewrites exactly the row with that
  key, in place: key and \<open>created_at\<close> are kept, \<open>updated_at\<close> becomes the request
  time, every field the request leaves out keeps its value, tags, metadata and
  \<open>is_active\<close> take the value sent; all other rows and the index are unchanged, and the
  response is 200 with the new row.
\<close>

theorem kb_partial_update:
  assumes dist: "distinct (map entry_id (kb_entries db))" and staff: "is_staff u"
    and found: "find_entry db k = Some e" and valid: "validate_kb_input True inp = Inr v"
  shows "\<exists>e'. kb_viewset fit_transform svc db u (KbPartialUpdate k inp) now
               = (Inr \<lparr>resp_status = 200, resp_body = entry_to_json e'\<rparr>, svc,
                  db\<lparr>kb_entries := map (\<lambda>x. if entry_id x = k then e' else x) (kb_entries db)\<rparr>)
           \<and> entry_id e' = k \<and> created_at e' = created_at e \<and> updated_at e' = now
           \<and> (in_title inp = None \<longrightarrow> title e' = title e) \<and> (in_question inp = None \<longrightarrow> question e' = question e)
           \<and> (in_answer inp = None \<longrightarrow> answer e' = answer e) \<and> (in_source inp = None \<longrightarrow> source e' = source e)
           \<and> tags e' = opt_or (tags e) (in_tags inp) \<and> metadata e' = opt_or (metadata e) (in_metadata inp)
           \<and> is_active e' = opt_or (is_active e) (in_is_active inp)"
proof -
  let ?e' = "(apply_input v e)\<lparr>updated_at := now\<rparr>"
  from found have e: "e \<in> set (kb_entries db)" "entry_id e = k" by (auto dest: find_entry_Some)
  have "map (\<lambda>x. if entry_id x = entry_id (apply_input v e) then (apply_input v e)\<lparr>updated_at := now, created_at := created_at x\<rparr> else x)
            (kb_entries db)
        = map (\<lambda>x. if entry_id x = k then ?e' else x) (kb_entries db)"
    using unique_entry [OF dist e(1)] e(2) by (auto simp: apply_input_def)
  then have "kb_viewset fit_transform svc db u (KbPartialUpdate k inp) now
               = (Inr \<lparr>resp_status = 200, resp_body = entry_to_json ?e'\<rparr>, svc,
                  db\<lparr>kb_entries := map (\<lambda>x. if entry_id x = k then ?e' else x) (kb_entries db)\<rparr>)"
    using staff found valid
    by (simp add: kb_viewset_def kb_has_permission_def kb_update_def save_entry_def Let_def)
  moreover have "entry_id ?e' = k \<and> created_at ?e' = created_at e \<and> updated_at ?e' = now"
    using e(2) by (simp add: apply_input_def)
  ultimately show ?thesis
    using validate_kb_input_partial [OF valid] by (auto simp: apply_input_def opt_or_def)
qed

theorem kb_partial_update_witness:
  "map (\<lambda>x. (entry_id x, title x, is_active x, updated_at x))
     (kb_entries (snd (snd (kb_viewset (\<lambda>v c. (v, Inr (length c))) \<lparr>index = init_index () :: (unit, nat) simple_vector_index\<rparr>
        test_setup_db \<lparr>user_pk = 1, is_authenticated = True, is_staff = True\<rparr> (KbPartialUpdate 1 \<lparr>in_title = None, in_question = None, in_answer = None, in_tags = None, in_source = None, in_metadata = None, in_is_active = Some False\<rparr>) 5))))
   = [(1, ''Password Reset'', False, 5), (2, ''Two Factor'', True, 2)]"
proof -
  have d: "distinct (map entry_id (kb_entries test_setup_db))" by (simp add: kb_eval)
  have f: "find_entry test_setup_db 1 = Some (hd (kb_entries test_setup_db))" by code_simp
  have v: "validate_kb_input True \<lparr>in_title = None, in_question = None, in_answer = None, in_tags = None, in_source = None, in_metadata = None, in_is_active = Some False\<rparr> = Inr \<lparr>in_title = None, in_question = None, in_answer = None, in_tags = None, in_source = None, in_metadata = None, in_is_active = Some False\<rparr>" by code_simp
  obtain e' where "kb_viewset (\<lambda>v c. (v, Inr (length c))) \<lparr>index = init_index () :: (unit, nat) simple_vector_index\<rparr>
        test_setup_db \<lparr>user_pk = 1, is_authenticated = True, is_staff = True\<rparr> (KbPartialUpdate 1 \<lparr>in_title = None, in_question = None, in_answer = None, in_tags = None, in_source = None, in_metadata = None, in_is_active = Some False\<rparr>) 5
      = (Inr \<lparr>resp_status = 200, resp_body = entry_to_json e'\<rparr>, \<lparr>index = init_index ()\<rparr>,
         test_setup_db\<lparr>kb_entries := map (\<lambda>x. if entry_id x = 1 then e' else x) (kb_entries test_setup_db)\<rparr>)"
    and "entry_id e' = 1" "updated_at e' = 5" "title e' = title (hd (kb_entries test_setup_db))"
    and "is_active e' = False"
    using kb_partial_update [OF d _ f v, where u = "\<lparr>user_pk = 1, is_authenticated = True, is_staff = True\<rparr>" and now = 5 and fit_transform = "(\<lambda>v c. (v, Inr (length c)))"
        and svc = "\<lparr>index = init_index () :: (unit, nat) simple_vector_index\<rparr>"]
    by (auto simp: opt_or_def)
  then show ?thesis by (simp add: kb_eval)
qed

text \<open>
  C39. Create and retrieve round-trip: when a create answers 201 on a table satisfying
  the key invariant, retrieving the key the table's sequence stood at, by any user,
  answers 200 with exactly the body the create returned, and changes nothing.
\<close>

theorem kb_create_retrieve_roundtrip:
  assumes wf: "db_wf db"
    and c: "kb_viewset fit_transform svc db u (KbCreate inp) now = (Inr r, svc', db')"
    and created: "resp_status r = 201"
  shows "kb_viewset fit_transform svc' db' u' (KbRetrieve (next_entry_id db)) now'
           = (Inr \<lparr>resp_status = 200, resp_body = resp_body r\<rparr>, svc', db')"
proof (cases "validate_kb_input False inp")
  case (Inl errs)
  with c created show ?thesis
    by (auto simp: kb_viewset_def invalid_response_def permission_denied_def split: if_splits)
next
  case (Inr v)
  with c created obtain e where db': "db' = db\<lparr>kb_entries := kb_entries db @ [e], next_entry_id := next_entry_id db + 1\<rparr>"
    and r: "r = \<lparr>resp_status = 201, resp_body = entry_to_json e\<rparr>" and k: "entry_id e = next_entry_id db"
    and s: "svc' = svc"
    by (auto simp: kb_viewset_def create_entry_eq permission_denied_def split: if_splits)
  from wf have "\<forall>x \<in> set (kb_entries db). entry_id x < next_entry_id db" by (simp add: db_wf_def)
  from find_entry_append_new [OF this k] db' r s show ?thesis
    by (simp add: kb_viewset_def kb_has_permission_def find_entry_def)
qed

theorem kb_create_retrieve_roundtrip_witness:
  "case kb_viewset (\<lambda>v c. (v, Inr (length c))) \<lparr>index = init_index () :: (unit, nat) simple_vector_index\<rparr>
      test_setup_db \<lparr>user_pk = 1, is_authenticated = True, is_staff = True\<rparr>
      (KbCreate \<lparr>in_title = Some ''Billing'', in_question = None, in_answer = Some ''Open the billing page.'', in_tags = None, in_source = None, in_metadata = None, in_is_active = None\<rparr>) 5 of
     (res, svc', db') \<Rightarrow> kb_viewset (\<lambda>v c. (v, Inr (length c))) svc' db' \<lparr>user_pk = 0, is_authenticated = False, is_staff = False\<rparr> (KbRetrieve 3) 6
                         = (Inr \<lparr>resp_status = 200, resp_body = resp_body (projr res)\<rparr>, svc', db')"
proof -
  obtain res svc' db' where c: "kb_viewset (\<lambda>v c. (v, Inr (length c))) \<lparr>index = init_index () :: (unit, nat) simple_vector_index\<rparr>
      test_setup_db \<lparr>user_pk = 1, is_authenticated = True, is_staff = True\<rparr>
      (KbCreate \<lparr>in_title = Some ''Billing'', in_question = None, in_answer = Some ''Open the billing page.'', in_tags = None, in_source = None, in_metadata = None, in_is_active = None\<rparr>) 5 = (res, svc', db')"
    by (metis prod.exhaust)
  have "fst (kb_viewset (\<lambda>v c. (v, Inr (length c))) \<lparr>index = init_index () :: (unit, nat) simple_vector_index\<rparr>
      test_setup_db \<lparr>user_pk = 1, is_authenticated = True, is_staff = True\<rparr>
      (KbCreate \<lparr>in_title = Some ''Billing'', in_question = None, in_answer = Some ''Open the billing page.'', in_tags = None, in_source = None, in_metadata = None, in_is_active = None\<rparr>) 5)
      = Inr (projr (fst (kb_viewset (\<lambda>v c. (v, Inr (length c))) \<lparr>index = init_index () :: (unit, nat) simple_vector_index\<rparr>
      test_setup_db \<lparr>user_pk = 1, is_authenticated = True, is_staff = True\<rparr>
      (KbCreate \<lparr>in_title = Some ''Billing'', in_question = None, in_answer = Some ''Open the billing page.'', in_tags = None, in_source = None, in_metadata = None, in_is_active = None\<rparr>) 5)))"
    by code_simp
  with c obtain r where res: "res = Inr r" by simp
  have "resp_status (projr (fst (kb_viewset (\<lambda>v c. (v, Inr (length c))) \<lparr>index = init_index () :: (unit, nat) simple_vector_index\<rparr>
      test_setup_db \<lparr>user_pk = 1, is_authenticated = True, is_staff = True\<rparr>
      (KbCreate \<lparr>in_title = Some ''Billing'', in_question = None, in_answer = Some ''Open the billing page.'', in_tags = None, in_source = None, in_metadata = None, in_is_active = None\<rparr>) 5))) = 201"
    by code_simp
  with c res have st: "resp_status r = 201" by simp
  have wf: "db_wf test_setup_db" by (simp add: kb_eval)
  have n: "next_entry_id test_setup_db = 3" by (simp add: kb_eval)
  from c res have c': "kb_viewset (\<lambda>v c. (v, Inr (length c))) \<lparr>index = init_index () :: (unit, nat) simple_vector_index\<rparr>
      test_setup_db \<lparr>user_pk = 1, is_authenticated = True, is_staff = True\<rparr>
      (KbCreate \<lparr>in_title = Some ''Billing'', in_question = None, in_answer = Some ''Open the billing page.'', in_tags = None, in_source = None, in_metadata = None, in_is_active = None\<rparr>) 5
      = (Inr r, svc', db')"
    by simp
  from kb_create_retrieve_roundtrip [OF wf c' st, where u' = "\<lparr>user_pk = 0, is_authenticated = False, is_staff = False\<rparr>" and now' = 6] n c res
  show ?thesis by simp
qed

text \<open>
  C40. \<open>GET /kb/\<close> is open to every user and lists every row of the table, newest
  first, deactivated entries included: unlike the search endpoint, the viewset's queryset
  is \<open>KnowledgeBaseEntry.objects.all()\<close>.
\<close>

theorem kb_list_all_rows:
  "\<exists>es. kb_viewset fit_transform svc db u KbList now
          = (Inr \<lparr>resp_status = 200, resp_body = JList (map entry_to_json es)\<rparr>, svc, db)
        \<and> mset es = mset (kb_entries db) \<and> sorted_wrt (\<lambda>a b. updated_at b \<le> updated_at a) es"
  using sorted_order_by_updated_desc [of "kb_entries db"]
  by (intro exI [of _ "order_by_updated_desc (kb_entries db)"])
     (simp add: kb_viewset_def kb_has_permission_def order_by_updated_desc_def)

theorem kb_list_all_rows_witness:
  "\<exists>es. fst (kb_viewset (\<lambda>v c. (v, Inr (length c))) \<lparr>index = init_index () :: (unit, nat) simple_vector_index\<rparr> (save_entry 6 ((hd (kb_entries test_setup_db))\<lparr>is_active := False\<rparr>) test_setup_db) \<lparr>user_pk = 0, is_authenticated = False, is_staff = False\<rparr> KbList 7)
          = Inr \<lparr>resp_status = 200, resp_body = JList (map entry_to_json es)\<rparr>
        \<and> (\<exists>e \<in> set es. entry_id e = 1 \<and> \<not> is_active e)"
proof -
  obtain es where l: "kb_viewset (\<lambda>v c. (v, Inr (length c))) \<lparr>index = init_index () :: (unit, nat) simple_vector_index\<rparr> (save_entry 6 ((hd (kb_entries test_setup_db))\<lparr>is_active := False\<rparr>) test_setup_db) \<lparr>user_pk = 0, is_authenticated = False, is_staff = False\<rparr> KbList 7
      = (Inr \<lparr>resp_status = 200, resp_body = JList (map entry_to_json es)\<rparr>, \<lparr>index = init_index () :: (unit, nat) simple_vector_index\<rparr>, save_entry 6 ((hd (kb_entries test_setup_db))\<lparr>is_active := False\<rparr>) test_setup_db)"
    and m: "mset es = mset (kb_entries (save_entry 6 ((hd (kb_entries test_setup_db))\<lparr>is_active := False\<rparr>) test_setup_db))"
    using kb_list_all_rows by blast
  have "\<exists>e \<in> set (kb_entries (save_entry 6 ((hd (kb_entries test_setup_db))\<lparr>is_active := False\<rparr>) test_setup_db)). entry_id e = 1 \<and> \<not> is_active e" by code_simp
  then have "\<exists>e \<in> set es. entry_id e = 1 \<and> \<not> is_active e" using m by (metis set_mset_mset)
  with l show ?thesis by auto
qed

lemma kb_update_conforms:
  "resp_status (fst (kb_update now partial k inp db)) \<in> {200, 201} \<Longrightarrow>
   json_conforms entry_ty (resp_body (fst (kb_update now partial k inp db)))"
  by (auto simp: kb_update_def not_found_def invalid_response_def Let_def split: option.splits sum.splits)

lemma kb_viewset_conforms:
  "fst (kb_viewset fit_transform svc db u req now) = Inr r \<Longrightarrow> resp_status r \<in> {200, 201} \<Longrightarrow>
   json_conforms (kb_response_ty req) (resp_body r)"
  by (cases req)
     (auto simp: kb_viewset_def permission_denied_def not_found_def invalid_response_def case_prod_unfold
        kb_update_conforms split: if_splits option.splits sum.splits)

end
