(* ===== verification/Auth_View.thy ===== *)
theory Auth_View
  imports HTTP
begin

text \<open>
  \<open>AuthView.post\<close> of \<open>src/faq_backend/api/views.py\<close> with \<open>AuthRequestSerializer\<close> of
  \<open>serializers.py\<close>. The two calls into libraries are an interface: Django's
  \<open>authenticate(username=..., password=...)\<close> (the configured backends, which look the
  user up and check the password hash) and simplejwt's \<open>RefreshToken.for_user\<close>, of which
  the view renders the access and the refresh token as strings. Logging in changes no
  state: no session is opened and \<open>last_login\<close> is not written by \<open>for_user\<close> under
  simplejwt's defaults.
\<close>

record auth_backend =
  authenticate :: "string \<Rightarrow> string \<Rightarrow> request_user option"
  tokens_for :: "request_user \<Rightarrow> string \<times> string"

text \<open>
  \<open>AuthRequestSerializer\<close>: \<open>username\<close> and \<open>password\<close> are plain \<open>CharField()\<close>s, so
  both are required, may not be blank, are stripped (\<open>trim_whitespace=True\<close> is DRF's
  default) and may not contain NUL. Errors of both fields are collected, in field order.
\<close>

definition validate_auth :: "string option \<Rightarrow> string option \<Rightarrow> (string \<times> string list) list + string \<times> string" where
  "validate_auth du dp =
     (case (drf_char_field True False None False du, drf_char_field True False None False dp) of
        (Inr (Some u), Inr (Some p)) \<Rightarrow> Inr (u, p)
      | (ru, rp) \<Rightarrow> Inl (field_errors ''username'' ru @ field_errors ''password'' rp))"

text \<open>
  \<open>if not user\<close>: a \<open>User\<close> instance is always true, so this is the test for \<open>None\<close>.
  The success body is \<open>{"access": str(refresh.access_token), "refresh": str(refresh)}\<close>.
\<close>

definition auth_view :: "auth_backend \<Rightarrow> string option \<Rightarrow> string option \<Rightarrow> http_response" where
  "auth_view b du dp =
     (case validate_auth du dp of
        Inl errs \<Rightarrow> invalid_response errs
      | Inr (u, p) \<Rightarrow>
          (case authenticate b u p of
             None \<Rightarrow> \<lparr>resp_status = 401, resp_body = JObj [(''detail'', JStr ''Invalid credentials'')]\<rparr>
           | Some user \<Rightarrow>
               (case tokens_for b user of
                  (acc, ref) \<Rightarrow> \<lparr>resp_status = 200, resp_body = JObj [(''access'', JStr acc), (''refresh'', JStr ref)]\<rparr>)))"

text \<open>The 200 body declared in the \<open>swagger_auto_schema\<close> of \<open>AuthView.post\<close>.\<close>

definition auth_tokens_ty :: json_ty where
  "auth_tokens_ty = TObj [(''access'', TStr), (''refresh'', TStr)]"

subsection \<open>Properties of AuthView\<close>

lemma drf_char_field_plain:
  "drf_char_field True False None False d = Inr (Some v) \<longleftrightarrow>
   (\<exists>x. d = Some x \<and> py_strip x \<noteq> [] \<and> CHR 0x00 \<notin> set (py_strip x) \<and> v = py_strip x)"
  by (auto simp: drf_char_field_def Let_def split: option.splits)

lemma drf_char_field_strip:
  "drf_char_field req blank mx partial (Some (py_strip x)) = drf_char_field req blank mx partial (Some x)"
  by (simp add: drf_char_field_def py_strip_idem)

lemma validate_auth_Inr:
  "validate_auth du dp = Inr (u, p) \<longleftrightarrow>
   drf_char_field True False None False du = Inr (Some u) \<and> drf_char_field True False None False dp = Inr (Some p)"
  by (auto simp: validate_auth_def split: sum.split option.split)

lemma auth_view_validated:
  "validate_auth du dp = Inr (u, p) \<Longrightarrow>
   auth_view b du dp = (case authenticate b u p of
             None \<Rightarrow> \<lparr>resp_status = 401, resp_body = JObj [(''detail'', JStr ''Invalid credentials'')]\<rparr>
           | Some user \<Rightarrow> \<lparr>resp_status = 200, resp_body = JObj [(''access'', JStr (fst (tokens_for b user))),
                                                            (''refresh'', JStr (snd (tokens_for b user)))]\<rparr>)"
  by (simp add: auth_view_def case_prod_unfold split: option.split)

lemma auth_view_rejected:
  "(\<forall>u p. validate_auth du dp \<noteq> Inr (u, p)) \<Longrightarrow> resp_status (auth_view b du dp) = 400"
  by (auto simp: auth_view_def invalid_response_def split: sum.split)

lemma validate_auth_strip:
  "validate_auth du (Some (py_strip p)) = validate_auth du (Some p)"
  by (simp add: validate_auth_def drf_char_field_strip)

lemma auth_view_conforms:
  "resp_status (auth_view b du dp) \<in> {200, 201} \<Longrightarrow> json_conforms auth_tokens_ty (resp_body (auth_view b du dp))"
  by (auto simp: auth_view_def auth_tokens_ty_def invalid_response_def split: sum.splits option.splits prod.splits)

text \<open>
  C24. \<open>POST /auth/\<close> answers 200 exactly when both fields are present, non-blank after
  stripping and free of NUL, and \<open>authenticate\<close> accepts the stripped username
  and password; the body then holds the access and refresh token issued for the user
  \<open>authenticate\<close> returned. Otherwise the answer is 400 (validation) or 401.
\<close>

theorem auth_view_ok_iff:
  "resp_status (auth_view b du dp) = 200 \<longleftrightarrow>
   (\<exists>x y user. du = Some x \<and> dp = Some y \<and> py_strip x \<noteq> [] \<and> py_strip y \<noteq> []
      \<and> CHR 0x00 \<notin> set (py_strip x) \<and> CHR 0x00 \<notin> set (py_strip y)
      \<and> authenticate b (py_strip x) (py_strip y) = Some user
      \<and> resp_body (auth_view b du dp)
          = JObj [(''access'', JStr (fst (tokens_for b user))), (''refresh'', JStr (snd (tokens_for b user)))])"
proof (cases "\<exists>u p. validate_auth du dp = Inr (u, p)")
  case True
  then obtain u p where v: "validate_auth du dp = Inr (u, p)" by blast
  then show ?thesis
    by (auto simp: auth_view_validated validate_auth_Inr drf_char_field_plain split: option.split)
next
  case False
  then have "resp_status (auth_view b du dp) = 400" by (intro auth_view_rejected) blast
  moreover have "\<not> (\<exists>x y. du = Some x \<and> dp = Some y \<and> py_strip x \<noteq> [] \<and> py_strip y \<noteq> []
      \<and> CHR 0x00 \<notin> set (py_strip x) \<and> CHR 0x00 \<notin> set (py_strip y))"
    using False by (auto simp: validate_auth_Inr drf_char_field_plain)
  ultimately show ?thesis by auto
qed

text \<open>
  C26. The password is stripped before it is checked: two passwords that differ only in
  leading or trailing whitespace get the same answer. A user whose password ends in a
  space can therefore never log in through \<open>/auth/\<close>, and one whose password is
  \<open>"pw"\<close> is also accepted with \<open>" pw "\<close>.
\<close>

theorem auth_view_password_trimmed:
  assumes "py_strip p1 = py_strip p2"
  shows "auth_view b du (Some p1) = auth_view b du (Some p2)"
proof -
  have "validate_auth du (Some p1) = validate_auth du (Some p2)"
    by (metis assms validate_auth_strip)
  then show ?thesis by (simp add: auth_view_def)
qed

theorem auth_view_password_trimmed_witness:
  "resp_status (auth_view \<lparr>authenticate = (\<lambda>u p. if (u, p) = (''alice'', ''secret '') then Some \<lparr>user_pk = 7, is_authenticated = True, is_staff = False\<rparr> else None),
                          tokens_for = (\<lambda>usr. (''a'', ''r''))\<rparr>
      (Some ''alice'') (Some ''secret '')) = 401"
proof -
  have s: "py_strip ''secret '' = py_strip ''secret''" by code_simp
  have "resp_status (auth_view \<lparr>authenticate = (\<lambda>u p. if (u, p) = (''alice'', ''secret '') then Some \<lparr>user_pk = 7, is_authenticated = True, is_staff = False\<rparr> else None),
                          tokens_for = (\<lambda>usr. (''a'', ''r''))\<rparr>
      (Some ''alice'') (Some ''secret'')) = 401" by code_simp
  then show ?thesis using auth_view_password_trimmed [OF s] by metis
qed

end
