(* ===== verification/Tfidf.thy ===== *)
theory Tfidf
  imports RAG_Service "HOL-Library.While_Combinator" "HOL-Library.List_Lexorder"
    "HOL-Library.Char_ord"
begin

text \<open>
  The vectorizer behind \<open>SimpleVectorIndex\<close> of \<open>src/faq_backend/api/services.py\<close>:
  \<open>TfidfVectorizer(stop_words="english")\<close> with scikit-learn's defaults, and
  \<open>cosine_similarity\<close>. It instantiates the interface of \<open>Vector_Index\<close>: \<open>tfidf_fit\<close>
  is \<open>fit_transform\<close> (line 27) and \<open>tfidf_sims\<close> is \<open>transform\<close> followed by
  \<open>cosine_similarity(...).flatten()\<close> (lines 33--34). The analyzer lower-cases, takes the
  tokens of \<open>(?u)\b\w\w+\b\<close> (maximal runs of word characters of length at least two) and
  drops the stop words; the English stop list is a parameter. Weights are raw counts
  times the smoothed idf \<open>ln((1+n)/(1+df)) + 1\<close>, rows are l2-normalised, and the score
  is the cosine. Numbers are reals, not floats.
\<close>

subsection \<open>Analyzer\<close>

text \<open>\<open>\w\<close> on the ASCII range: digits, letters and the underscore.\<close>

definition py_isword :: "char \<Rightarrow> bool" where
  "py_isword c = (let n = of_char c :: nat in
     (48 \<le> n \<and> n \<le> 57) \<or> (65 \<le> n \<and> n \<le> 90) \<or> (97 \<le> n \<and> n \<le> 122) \<or> n = 95)"

definition scan_step :: "string \<times> string list \<Rightarrow> string \<times> string list" where
  "scan_step st =
     (case st of (s, acc) \<Rightarrow>
        (let s' = dropWhile (\<lambda>c. \<not> py_isword c) s;
             w = takeWhile py_isword s'
         in (dropWhile py_isword s', if 2 \<le> length w then w # acc else acc)))"

definition token_scan :: "string \<Rightarrow> (string \<times> string list) option" where
  "token_scan s = while_option (\<lambda>(s, acc). s \<noteq> []) scan_step (s, [])"

definition word_tokens :: "string \<Rightarrow> string list" where
  "word_tokens s = (case token_scan s of Some (_, acc) \<Rightarrow> rev acc | None \<Rightarrow> [])"

text \<open>
  The reference reading of the token pattern: the pieces of the string between the
  characters that match \<open>\W\<close>, as \<open>re.split(r"\W", s)\<close> returns them.
\<close>

primrec split_on :: "(char \<Rightarrow> bool) \<Rightarrow> string \<Rightarrow> string list" where
  "split_on sep [] = [[]]"
| "split_on sep (c # cs) =
     (if sep c then [] # split_on sep cs
      else (case split_on sep cs of [] \<Rightarrow> [[c]] | w # ws \<Rightarrow> (c # w) # ws))"

text \<open>\<open>build_analyzer()\<close>: lower-case, the tokens, then drop the stop words.\<close>

definition analyze :: "string list \<Rightarrow> string \<Rightarrow> string list" where
  "analyze stop doc = filter (\<lambda>t. t \<notin> set stop) (word_tokens (py_lower doc))"

subsection \<open>Model, fit and transform\<close>

text \<open>A fitted vectorizer: \<open>vocabulary_\<close> in column order (sorted) and \<open>idf_\<close>.\<close>

record tfidf_model =
  vocabulary :: "string list"
  idf_weights :: "real list"

definition doc_freq :: "string list list \<Rightarrow> string \<Rightarrow> nat" where
  "doc_freq docs t = length (filter (\<lambda>d. t \<in> set d) docs)"

definition smooth_idf :: "nat \<Rightarrow> nat \<Rightarrow> real" where
  "smooth_idf n df = ln ((1 + real n) / (1 + real df)) + 1"

definition tf_vector :: "tfidf_model \<Rightarrow> string list \<Rightarrow> real list" where
  "tf_vector m d = map (\<lambda>(t, w). real (count_list d t) * w) (zip (vocabulary m) (idf_weights m))"

definition l2_norm :: "real list \<Rightarrow> real" where
  "l2_norm v = sqrt (sum_list (map (\<lambda>x. x * x) v))"

definition l2_normalize :: "real list \<Rightarrow> real list" where
  "l2_normalize v = (if l2_norm v = 0 then v else map (\<lambda>x. x / l2_norm v) v)"

definition dot :: "real list \<Rightarrow> real list \<Rightarrow> real" where
  "dot u v = sum_list (map (\<lambda>(a, b). a * b) (zip u v))"

definition cosine_sim :: "real list \<Rightarrow> real list \<Rightarrow> real" where
  "cosine_sim u v = dot (l2_normalize u) (l2_normalize v)"

definition empty_vocabulary_msg :: string where
  "empty_vocabulary_msg = ''empty vocabulary; perhaps the documents only contain stop words''"

text \<open>
  \<open>fit_transform(corpus)\<close>: an empty vocabulary raises \<open>ValueError\<close>. scikit-learn
  (1.0 and later) assigns a fresh, unfitted \<open>_tfidf\<close> before it builds the vocabulary, so
  the vectorizer is left unfitted: \<open>None\<close>, on which \<open>transform\<close> raises \<open>NotFittedError\<close>. Otherwise the fitted model
  and one normalised row per document. \<open>min_df = 1\<close> and \<open>max_df = 1.0\<close> prune nothing.
\<close>

definition tfidf_fit :: "string list \<Rightarrow> (tfidf_model option, real list list) fit_transform_fn" where
  "tfidf_fit stop v docs =
     (let toks = map (analyze stop) docs;
          voc = sort (remdups (concat toks))
      in if voc = [] then (None, Inl (ValueError empty_vocabulary_msg))
         else (let m = \<lparr>vocabulary = voc, idf_weights = map (\<lambda>t. smooth_idf (length docs) (doc_freq toks t)) voc\<rparr>
               in (Some m, Inr (map (\<lambda>d. l2_normalize (tf_vector m d)) toks))))"

text \<open>\<open>transform([query])\<close> (terms outside the vocabulary are ignored) and the cosine with
  every row; an unfitted vectorizer raises \<open>NotFittedError\<close>.\<close>

definition tfidf_sims :: "string list \<Rightarrow> (tfidf_model option, real list list, real) query_sims_fn" where
  "tfidf_sims stop v mat q =
     (case v of
        None \<Rightarrow> Inl NotFittedError
      | Some m \<Rightarrow> Inr (map (cosine_sim (l2_normalize (tf_vector m (analyze stop q)))) mat))"

subsection \<open>Signs of the scores\<close>

lemma sum_list_pos_iff: "\<forall>x \<in> set xs. (0::real) \<le> x \<Longrightarrow> 0 < sum_list xs \<longleftrightarrow> (\<exists>x \<in> set xs. 0 < x)"
proof (induction xs)
  case Nil
  then show ?case by simp
next
  case (Cons x xs)
  then have "0 \<le> x" "0 \<le> sum_list xs" by (auto intro: sum_list_nonneg)
  with Cons show ?case by auto
qed

lemma l2_normalize_scale: "\<exists>k > 0. l2_normalize v = map (\<lambda>x. k * x) v"
proof (cases "l2_norm v = 0")
  case True
  then show ?thesis by (intro exI [of _ 1]) (simp add: l2_normalize_def)
next
  case False
  have "0 \<le> sum_list (map (\<lambda>x. x * x) v)" by (rule sum_list_nonneg) auto
  then have "0 \<le> l2_norm v" by (simp add: l2_norm_def)
  with False have "0 < 1 / l2_norm v" by simp
  with False show ?thesis
    by (intro exI [of _ "1 / l2_norm v"]) (simp add: l2_normalize_def divide_inverse mult.commute)
qed

lemma dot_scale: "dot (map (\<lambda>x. a * x) u) (map (\<lambda>x. b * x) v) = a * b * dot u v"
proof (induction u arbitrary: v)
  case Nil
  then show ?case by (simp add: dot_def)
next
  case (Cons x u)
  then show ?case by (cases v) (simp_all add: dot_def algebra_simps)
qed

lemma dot_map_same: "dot (map f P) (map g P) = sum_list (map (\<lambda>p. f p * g p) P)"
  by (induction P) (simp_all add: dot_def)

lemma cosine_sim_same_support:
  assumes "\<forall>p \<in> set P. 0 \<le> f p" and "\<forall>p \<in> set P. 0 \<le> g p"
  shows "0 \<le> cosine_sim (map f P) (map g P)
       \<and> (0 < cosine_sim (map f P) (map g P) \<longleftrightarrow> (\<exists>p \<in> set P. 0 < f p \<and> 0 < g p))"
proof -
  obtain a where a: "0 < a" "l2_normalize (map f P) = map (\<lambda>x. a * x) (map f P)"
    using l2_normalize_scale by blast
  obtain b where b: "0 < b" "l2_normalize (map g P) = map (\<lambda>x. b * x) (map g P)"
    using l2_normalize_scale by blast
  have c: "cosine_sim (map f P) (map g P) = a * b * sum_list (map (\<lambda>p. f p * g p) P)"
    by (simp only: cosine_sim_def a b dot_scale dot_map_same)
  have nn: "\<forall>x \<in> set (map (\<lambda>p. f p * g p) P). 0 \<le> x" using assms by auto
  have pos: "0 < f p * g p \<longleftrightarrow> 0 < f p \<and> 0 < g p" if "p \<in> set P" for p
    using assms that by (auto simp: zero_less_mult_iff)
  have "0 \<le> sum_list (map (\<lambda>p. f p * g p) P)" using nn by (intro sum_list_nonneg) blast
  with a(1) b(1) c sum_list_pos_iff [OF nn] pos show ?thesis
    by (auto simp: zero_less_mult_iff)
qed

lemma smooth_idf_pos: "df \<le> n \<Longrightarrow> 0 < smooth_idf n df"
proof -
  assume "df \<le> n"
  then have "1 \<le> (1 + real n) / (1 + real df)" by simp
  then have "0 \<le> ln ((1 + real n) / (1 + real df))" by (rule ln_ge_zero)
  then show ?thesis unfolding smooth_idf_def by linarith
qed

lemma doc_freq_le: "doc_freq (map f docs) t \<le> length docs"
  by (metis doc_freq_def length_filter_le length_map)

lemma tfidf_fit_Inr:
  assumes "tfidf_fit stop v docs = (v', Inr mat)"
  shows "\<exists>m. v' = Some m \<and> vocabulary m = sort (remdups (concat (map (analyze stop) docs)))
           \<and> vocabulary m \<noteq> []
           \<and> idf_weights m = map (\<lambda>t. smooth_idf (length docs) (doc_freq (map (analyze stop) docs) t)) (vocabulary m)
           \<and> mat = map (\<lambda>d. l2_normalize (tf_vector m d)) (map (analyze stop) docs)"
  using assms by (auto simp: tfidf_fit_def Let_def split: if_splits)

lemma count_list_pos: "0 < count_list xs x \<longleftrightarrow> x \<in> set xs"
  using count_list_0_iff [of xs x] by auto

lemma tf_vector_support:
  assumes "\<forall>w \<in> set (idf_weights m). 0 < w" and "length (idf_weights m) = length (vocabulary m)"
  shows "0 \<le> cosine_sim (l2_normalize (tf_vector m q)) (l2_normalize (tf_vector m d))
     \<and> (0 < cosine_sim (l2_normalize (tf_vector m q)) (l2_normalize (tf_vector m d))
          \<longleftrightarrow> (\<exists>t \<in> set (vocabulary m). t \<in> set q \<and> t \<in> set d))"
proof -
  let ?P = "zip (vocabulary m) (idf_weights m)"
  obtain a where a: "0 < a" "l2_normalize (tf_vector m q) = map (\<lambda>x. a * x) (tf_vector m q)"
    using l2_normalize_scale by blast
  obtain b where b: "0 < b" "l2_normalize (tf_vector m d) = map (\<lambda>x. b * x) (tf_vector m d)"
    using l2_normalize_scale by blast
  let ?f = "\<lambda>p. a * (real (count_list q (fst p)) * snd p)"
  let ?g = "\<lambda>p. b * (real (count_list d (fst p)) * snd p)"
  have eq: "cosine_sim (l2_normalize (tf_vector m q)) (l2_normalize (tf_vector m d)) = cosine_sim (map ?f ?P) (map ?g ?P)"
    unfolding a(2) b(2) by (simp add: tf_vector_def case_prod_unfold comp_def)
  have w: "\<forall>p \<in> set ?P. 0 < snd p" using assms(1) by (auto dest: set_zip_rightD)
  have nf: "\<forall>p \<in> set ?P. 0 \<le> ?f p" and ng: "\<forall>p \<in> set ?P. 0 \<le> ?g p"
    using w a(1) b(1) by (fastforce intro!: mult_nonneg_nonneg)+
  have "(\<exists>p \<in> set ?P. 0 < ?f p \<and> 0 < ?g p) \<longleftrightarrow> (\<exists>t \<in> set (vocabulary m). t \<in> set q \<and> t \<in> set d)"
  proof
    assume "\<exists>p \<in> set ?P. 0 < ?f p \<and> 0 < ?g p"
    then obtain p where p: "p \<in> set ?P" "0 < ?f p" "0 < ?g p" by blast
    then have "fst p \<in> set (vocabulary m)" by (metis set_zip_leftD prod.collapse)
    moreover from p a(1) b(1) have "count_list q (fst p) \<noteq> 0" "count_list d (fst p) \<noteq> 0"
      by (auto simp: zero_less_mult_iff)
    ultimately show "\<exists>t \<in> set (vocabulary m). t \<in> set q \<and> t \<in> set d"
      by (auto simp: count_list_0_iff)
  next
    assume "\<exists>t \<in> set (vocabulary m). t \<in> set q \<and> t \<in> set d"
    then obtain t where t: "t \<in> set (vocabulary m)" "t \<in> set q" "t \<in> set d" by blast
    then obtain i where i: "i < length (vocabulary m)" "vocabulary m ! i = t" by (auto simp: in_set_conv_nth)
    let ?p = "(t, idf_weights m ! i)"
    have "?p \<in> set ?P" using i assms(2) by (auto simp: in_set_conv_nth intro!: exI [of _ i])
    moreover have "0 < ?f ?p" "0 < ?g ?p"
      using calculation w a(1) b(1) t by (auto simp: count_list_pos intro!: mult_pos_pos)
    ultimately show "\<exists>p \<in> set ?P. 0 < ?f p \<and> 0 < ?g p" by blast
  qed
  with cosine_sim_same_support [OF nf ng] eq show ?thesis by simp
qed

lemma tfidf_fit_model:
  assumes "tfidf_fit stop v docs = (Some m, Inr mat)"
  shows "\<forall>w \<in> set (idf_weights m). 0 < w" "length (idf_weights m) = length (vocabulary m)"
    "set (vocabulary m) = (\<Union>d \<in> set docs. set (analyze stop d))"
    "mat = map (\<lambda>d. l2_normalize (tf_vector m (analyze stop d))) docs"
  using tfidf_fit_Inr [OF assms] by (auto simp: smooth_idf_pos doc_freq_le)

lemma tfidf_sims_fitted:
  assumes "tfidf_fit stop v docs = (Some m, Inr mat)"
  shows "tfidf_sims stop (Some m) mat q
     = Inr (map (\<lambda>d. cosine_sim (l2_normalize (tf_vector m (analyze stop q))) (l2_normalize (tf_vector m (analyze stop d)))) docs)"
  by (simp add: tfidf_sims_def tfidf_fit_model(4) [OF assms])

lemma tfidf_score_support:
  assumes fit: "tfidf_fit stop v docs = (Some m, Inr mat)" and d: "d \<in> set docs"
  shows "0 \<le> cosine_sim (l2_normalize (tf_vector m (analyze stop q))) (l2_normalize (tf_vector m (analyze stop d)))
     \<and> (0 < cosine_sim (l2_normalize (tf_vector m (analyze stop q))) (l2_normalize (tf_vector m (analyze stop d)))
          \<longleftrightarrow> (\<exists>t. t \<in> set (analyze stop q) \<and> t \<in> set (analyze stop d)))"
proof -
  note fm = tfidf_fit_model [OF fit]
  have "(\<exists>t \<in> set (vocabulary m). t \<in> set (analyze stop q) \<and> t \<in> set (analyze stop d))
          \<longleftrightarrow> (\<exists>t. t \<in> set (analyze stop q) \<and> t \<in> set (analyze stop d))"
    using d by (auto simp: fm(3))
  then show ?thesis using tf_vector_support [OF fm(1) fm(2)] by simp
qed

lemma tfidf_fit_ok:
  "sort (remdups (concat (map (analyze stop) docs))) \<noteq> [] \<Longrightarrow> \<exists>m mat. tfidf_fit stop v docs = (Some m, Inr mat)"
  by (simp add: tfidf_fit_def Let_def)

text \<open>
  C4. After a successful fit, a query gets one score per document; every score is
  non-negative, and a document scores above zero exactly when it shares a term with the
  query after lower-casing, tokenising and dropping stop words. Terms of the query that
  are not in the vocabulary contribute nothing.
\<close>

theorem tfidf_scores:
  assumes "tfidf_fit stop v docs = (v', Inr mat)"
  shows "\<exists>s. tfidf_sims stop v' mat q = Inr s \<and> length s = length docs
           \<and> (\<forall>i < length docs. 0 \<le> s ! i
                \<and> (0 < s ! i \<longleftrightarrow> (\<exists>t. t \<in> set (analyze stop q) \<and> t \<in> set (analyze stop (docs ! i)))))"
proof -
  obtain m where m: "v' = Some m" using tfidf_fit_Inr [OF assms] by blast
  note fit = assms [unfolded m]
  show ?thesis using tfidf_sims_fitted [OF fit, of q] tfidf_score_support [OF fit nth_mem] m by simp
qed

subsection \<open>The token scan against the token pattern\<close>

lemma scan_step_shorter: "s \<noteq> [] \<Longrightarrow> length (fst (scan_step (s, acc))) < length s"
proof (cases "py_isword (hd s)")
  case True
  assume s: "s \<noteq> []"
  then obtain c cs where sc: "s = c # cs" by (cases s) auto
  with True have "dropWhile (\<lambda>c. \<not> py_isword c) s = s" by simp
  moreover have "length (dropWhile py_isword s) < length s"
    using sc True length_dropWhile_le [of py_isword cs] by simp
  ultimately show ?thesis by (simp add: scan_step_def Let_def)
next
  case False
  assume s: "s \<noteq> []"
  then obtain c cs where sc: "s = c # cs" by (cases s) auto
  with False have "length (dropWhile (\<lambda>c. \<not> py_isword c) s) < length s"
    using length_dropWhile_le [of "\<lambda>c. \<not> py_isword c" cs] by simp
  moreover have "length (dropWhile py_isword x) \<le> length x" for x by (rule length_dropWhile_le)
  ultimately show ?thesis by (simp add: scan_step_def Let_def) (meson le_less_trans)
qed

lemma token_scan_Some: "\<exists>r. token_scan s = Some r"
  unfolding token_scan_def
  by (rule measure_while_option_Some [where P = "\<lambda>_. True" and f = "\<lambda>(s, acc). length s"])
     (auto simp: scan_step_shorter case_prod_unfold)

text \<open>\<open>re.split\<close> at the first separator: the piece before it, then the pieces after it.\<close>

lemma split_on_first:
  "split_on sep s = takeWhile (\<lambda>c. \<not> sep c) s #
     (case dropWhile (\<lambda>c. \<not> sep c) s of [] \<Rightarrow> [] | _ # r \<Rightarrow> split_on sep r)"
  by (induction s) (auto split: list.split)

lemma split_on_sep_prefix:
  "filter (\<lambda>w. 2 \<le> length w) (split_on sep (dropWhile sep s)) = filter (\<lambda>w. 2 \<le> length w) (split_on sep s)"
  by (induction s) auto

text \<open>One round of the scan moves the next long piece, if any, onto the accumulator.\<close>

lemma scan_step_tokens:
  "rev (snd (scan_step (r, acc))) @ filter (\<lambda>w. 2 \<le> length w) (split_on (\<lambda>c. \<not> py_isword c) (fst (scan_step (r, acc))))
   = rev acc @ filter (\<lambda>w. 2 \<le> length w) (split_on (\<lambda>c. \<not> py_isword c) r)"
proof -
  let ?sep = "\<lambda>c. \<not> py_isword c" and ?L = "filter (\<lambda>w. 2 \<le> length w)"
  define s' where "s' = dropWhile ?sep r"
  define w where "w = takeWhile py_isword s'"
  define rest where "rest = dropWhile py_isword s'"
  have rest: "?L (split_on ?sep rest) = ?L (case rest of [] \<Rightarrow> [] | _ # r' \<Rightarrow> split_on ?sep r')"
  proof (cases rest)
    case (Cons c r')
    then have "\<not> py_isword c" using hd_dropWhile [of py_isword s'] by (simp add: rest_def)
    with Cons show ?thesis by simp
  qed simp
  have "?L (split_on ?sep r) = ?L (split_on ?sep s')"
    unfolding s'_def by (rule split_on_sep_prefix [symmetric])
  also have "\<dots> = ?L [w] @ ?L (split_on ?sep rest)"
    using split_on_first [of ?sep s'] rest by (simp add: w_def rest_def)
  finally show ?thesis by (simp add: scan_step_def Let_def s'_def [symmetric] w_def [symmetric] rest_def [symmetric])
qed

lemma word_tokens_split:
  "word_tokens s = filter (\<lambda>w. 2 \<le> length w) (split_on (\<lambda>c. \<not> py_isword c) s)"
proof -
  let ?W = "\<lambda>r. filter (\<lambda>w. 2 \<le> length w) (split_on (\<lambda>c. \<not> py_isword c) r)"
  obtain r where r: "token_scan s = Some r" using token_scan_Some by blast
  have "(\<lambda>(r, acc). rev acc @ ?W r = ?W s) r"
  proof (rule while_option_rule [OF _ r [unfolded token_scan_def]])
    fix st :: "string \<times> string list"
    assume "(\<lambda>(r, acc). rev acc @ ?W r = ?W s) st"
    then show "(\<lambda>(r, acc). rev acc @ ?W r = ?W s) (scan_step st)"
      using scan_step_tokens [of "fst st" "snd st"] by (cases st) (simp add: case_prod_unfold)
  qed simp
  moreover have "fst r = []" using while_option_stop [OF r [unfolded token_scan_def]] by auto
  ultimately show ?thesis by (auto simp: word_tokens_def r)
qed

text \<open>
  C9. The analyzer is scikit-learn's: it lower-cases the document, cuts it at every
  non-word character, keeps the pieces of at least two characters (the matches of
  \<open>(?u)\b\w\w+\b\<close>, in order, repeats included), and then drops the stop words.
\<close>

theorem analyze_tokens:
  "analyze stop d = filter (\<lambda>t. 2 \<le> length t \<and> t \<notin> set stop) (split_on (\<lambda>c. \<not> py_isword c) (py_lower d))"
  by (simp add: analyze_def word_tokens_split conj_commute)

lemma tfidf_contracts: "fit_contract (tfidf_fit stop) length \<and> sims_contract (tfidf_sims stop) length"
proof
  show "fit_contract (tfidf_fit stop) length"
    unfolding fit_contract_def
  proof (intro allI impI)
    fix v c v' m
    assume "tfidf_fit stop v c = (v', Inr m)"
    then show "length m = length c" using tfidf_fit_Inr by fastforce
  qed
  show "sims_contract (tfidf_sims stop) length"
    by (auto simp: sims_contract_def tfidf_sims_def split: option.splits)
qed

lemma rag_init_tfidf:
  assumes "rag_init (tfidf_fit stop) None db0 = (err, svc)"
  shows "index_wf length (index svc) \<and> (\<forall>mat. matrix (index svc) = Some mat \<longrightarrow> (\<exists>m. vectorizer (index svc) = Some m))"
proof -
  let ?C = "map kb_text (active_entries db0)"
  obtain v' r where f: "tfidf_fit stop None ?C = (v', r)" by fastforce
  show ?thesis
  proof (cases r)
    case (Inl e)
    with assms show ?thesis
      by (auto simp: f rag_init_def load_index_def build_def init_index_def index_wf_def Let_def split: if_splits)
  next
    case (Inr mat)
    with f obtain m where "v' = Some m" "length mat = length ?C" using tfidf_fit_Inr by fastforce
    with Inr assms show ?thesis
      by (auto simp: f rag_init_def load_index_def build_def init_index_def index_wf_def Let_def split: if_splits)
  qed
qed

lemma set_analyze: "set (analyze stop d) = set (word_tokens (py_lower d)) - set stop"
  by (auto simp: analyze_def)

lemma test_corpus:
  "map kb_text (active_entries test_setup_db) =
     [''Two Factor'' @ [CHR 0x0A] @ ''How to enable 2FA?'' @ [CHR 0x0A] @ ''Navigate to Security and enable Two-Factor Authentication.'',
      ''Password Reset'' @ [CHR 0x0A] @ ''How can I reset my password?'' @ [CHR 0x0A] @ ''Go to account settings and click 'Reset Password'.'']"
  by (simp add: kb_eval kb_text_def)

lemma test_corpus_tokens:
  "word_tokens (py_lower (''Two Factor'' @ [CHR 0x0A] @ ''How to enable 2FA?'' @ [CHR 0x0A] @ ''Navigate to Security and enable Two-Factor Authentication.''))
     = [''two'', ''factor'', ''how'', ''to'', ''enable'', ''2fa'', ''navigate'', ''to'', ''security'', ''and'', ''enable'', ''two'', ''factor'', ''authentication'']"
  "word_tokens (py_lower (''Password Reset'' @ [CHR 0x0A] @ ''How can I reset my password?'' @ [CHR 0x0A] @ ''Go to account settings and click 'Reset Password'.''))
     = [''password'', ''reset'', ''how'', ''can'', ''reset'', ''my'', ''password'', ''go'', ''to'', ''account'', ''settings'', ''and'', ''click'', ''reset'', ''password'']"
  "word_tokens (py_lower ''How do I reset my password?'') = [''how'', ''do'', ''reset'', ''my'', ''password'']"
  "word_tokens (py_lower ''completely unrelated nonsense query xyz'') = [''completely'', ''unrelated'', ''nonsense'', ''query'', ''xyz'']"
  by code_simp+

lemma tfidf_load_test_db:
  assumes "''reset'' \<notin> set stop"
  shows "\<exists>m mat. tfidf_fit stop None (map kb_text (active_entries test_setup_db)) = (Some m, Inr mat)
     \<and> rag_init (tfidf_fit stop) None test_setup_db = (None, \<lparr>index = \<lparr>vectorizer = Some m, matrix = Some mat, ids = [2, 1]\<rparr>\<rparr>)"
proof -
  let ?C = "map kb_text (active_entries test_setup_db)"
  obtain c1 c2 where C: "?C = [c1, c2]" and T: "word_tokens (py_lower c2) = [''password'', ''reset'', ''how'', ''can'', ''reset'', ''my'', ''password'', ''go'', ''to'', ''account'', ''settings'', ''and'', ''click'', ''reset'', ''password'']"
    by (rule that [OF test_corpus test_corpus_tokens(2)])
  have "''reset'' \<in> set (sort (remdups (concat (map (analyze stop) ?C))))"
    using assms by (simp add: C set_analyze T)
  then have ne: "sort (remdups (concat (map (analyze stop) ?C))) \<noteq> []" by (metis empty_iff empty_set)
  have ids: "map entry_id (active_entries test_setup_db) = [2, 1]" by (simp add: kb_eval)
  have C: "?C \<noteq> []" by (simp add: test_corpus)
  show ?thesis using ne C
    by (simp add: rag_init_def load_index_def build_def init_index_def ids tfidf_fit_def Let_def)
qed

lemma ranked_rows_pair: "a \<le> b \<Longrightarrow> ranked_rows [a, b] 5 = [1, 0]"
  by (simp add: ranked_rows_def argsort_def py_slice_to_def)

lemma ask_test_db_pair:
  assumes "query_sims v m q = Inr [a, b]" "a \<le> b"
  shows "ask query_sims \<lparr>index = \<lparr>vectorizer = v, matrix = Some m, ids = [2, 1]\<rparr>\<rparr> test_setup_db q t0 t1
       = Inr (generate q (rev (active_entries test_setup_db)), map to_context_json (rev (active_entries test_setup_db)),
              py_int ((t1 - t0) * 1000))"
proof -
  have "search query_sims \<lparr>vectorizer = v, matrix = Some m, ids = [2, 1]\<rparr> q 5 = Inr [(1, b), (2, a)]"
    using assms by (simp add: search_def ranked_rows_pair)
  moreover have "List.map_filter (entries_by_id test_setup_db [1, 2]) [1, 2] = rev (active_entries test_setup_db)"
    by (simp add: kb_eval entries_by_id_def map_filter_def)
  ultimately show ?thesis by (simp add: ask_def retrieve_def)
qed

lemma test_db_contexts:
  "map (ctx_id \<circ> to_context_json) (rev (active_entries test_setup_db)) = [1, 2]"
  by (simp add: kb_eval to_context_json_def)

lemma test_db_answer:
  "py_contains (generate q (rev (active_entries test_setup_db))) ''Go to account settings and click 'Reset Password'.''"
  "generate q (rev (active_entries test_setup_db)) \<noteq> no_answer_text"
  by (simp_all add: generate_def kb_eval truncate_snippet_def) code_simp+

lemma test_doc_tokens:
  "word_tokens (py_lower (map kb_text (active_entries test_setup_db) ! 0))
     = [''two'', ''factor'', ''how'', ''to'', ''enable'', ''2fa'', ''navigate'', ''to'', ''security'', ''and'', ''enable'', ''two'', ''factor'', ''authentication'']"
  "word_tokens (py_lower (map kb_text (active_entries test_setup_db) ! 1))
     = [''password'', ''reset'', ''how'', ''can'', ''reset'', ''my'', ''password'', ''go'', ''to'', ''account'', ''settings'', ''and'', ''click'', ''reset'', ''password'']"
  by code_simp+

lemma length_two: "length s = 2 \<Longrightarrow> s = [s ! 0, s ! 1]"
  by (auto simp: numeral_2_eq_2 length_Suc_conv)

lemma tfidf_test_db_sims:
  assumes fit: "tfidf_fit stop None (map kb_text (active_entries test_setup_db)) = (Some m, Inr mat)"
    and d0: "set (analyze stop q) \<inter> set (analyze stop (map kb_text (active_entries test_setup_db) ! 0)) = {}"
  shows "\<exists>b. tfidf_sims stop (Some m) mat q = Inr [0, b] \<and> 0 \<le> b"
proof -
  obtain c0 c1 where C: "map kb_text (active_entries test_setup_db) = [c0, c1]"
    by (rule that [OF test_corpus])
  note sup = tfidf_score_support [OF fit, of _ q]
  have "cosine_sim (l2_normalize (tf_vector m (analyze stop q))) (l2_normalize (tf_vector m (analyze stop c0))) = 0"
    using sup [of c0] d0 C by force
  then show ?thesis using tfidf_sims_fitted [OF fit, of q] sup [of c1] C by simp
qed

text \<open>
  C14. The end-to-end scenario of the specification on the two-entry fixture, with any
  stop list that contains "how" and not "reset" (scikit-learn's English list does). The
  service starts; "How do I reset my password?" is answered from the Password Reset entry,
  which is the first context, and the latency is not negative when the clock does not go
  back. "completely unrelated nonsense query xyz" shares no term with either entry, yet
  both are returned and the answer is composed from them: \<open>ask\<close> has no score cutoff, so
  the fallback message is never given while the index holds a row.
\<close>

theorem tfidf_end_to_end:
  assumes how: "''how'' \<in> set stop" and reset: "''reset'' \<notin> set stop"
  shows "fst (rag_init (tfidf_fit stop) None test_setup_db) = None
   \<and> (\<exists>a cs. ask (tfidf_sims stop) (snd (rag_init (tfidf_fit stop) None test_setup_db)) test_setup_db
                 ''How do I reset my password?'' t0 t1 = Inr (a, cs, py_int ((t1 - t0) * 1000))
        \<and> map ctx_id cs = [1, 2] \<and> py_contains a ''Go to account settings and click 'Reset Password'.''
        \<and> (t0 \<le> t1 \<longrightarrow> 0 \<le> py_int ((t1 - t0) * 1000)))
   \<and> (\<exists>a cs. ask (tfidf_sims stop) (snd (rag_init (tfidf_fit stop) None test_setup_db)) test_setup_db
                 ''completely unrelated nonsense query xyz'' t0 t1 = Inr (a, cs, py_int ((t1 - t0) * 1000))
        \<and> map ctx_id cs = [1, 2] \<and> a \<noteq> no_answer_text)"
proof -
  obtain m mat where fit: "tfidf_fit stop None (map kb_text (active_entries test_setup_db)) = (Some m, Inr mat)"
    and init: "rag_init (tfidf_fit stop) None test_setup_db = (None, \<lparr>index = \<lparr>vectorizer = Some m, matrix = Some mat, ids = [2, 1]\<rparr>\<rparr>)"
    using tfidf_load_test_db [OF reset] by blast
  let ?q1 = "''How do I reset my password?''" and ?q2 = "''completely unrelated nonsense query xyz''"
  have "set (analyze stop ?q1) \<inter> set (analyze stop (map kb_text (active_entries test_setup_db) ! 0)) = {}"
    using how by (auto simp: set_analyze test_doc_tokens test_corpus_tokens(3))
  then obtain b1 where b1: "tfidf_sims stop (Some m) mat ?q1 = Inr [0, b1]" "0 \<le> b1"
    using tfidf_test_db_sims [OF fit] by blast
  have "set (analyze stop ?q2) \<inter> set (analyze stop (map kb_text (active_entries test_setup_db) ! 0)) = {}"
    by (auto simp: set_analyze test_doc_tokens test_corpus_tokens(4))
  then obtain b2 where b2: "tfidf_sims stop (Some m) mat ?q2 = Inr [0, b2]" "0 \<le> b2"
    using tfidf_test_db_sims [OF fit] by blast
  have lat: "t0 \<le> t1 \<longrightarrow> 0 \<le> py_int ((t1 - t0) * 1000)" by (simp add: py_int_nonneg_iff)
  show ?thesis
    using ask_test_db_pair [where query_sims = "tfidf_sims stop", OF b1]
      ask_test_db_pair [where query_sims = "tfidf_sims stop", OF b2] init lat
    by (simp add: test_db_contexts test_db_answer)
qed

text \<open>
  C16. When there are active entries but every one of them consists of stop words (or of
  tokens shorter than two characters) only, loading the index raises scikit-learn's
  \<open>ValueError\<close> "empty vocabulary": the service cannot start, and a refresh answers the
  error and keeps the previous matrix and ids, but leaves the vectorizer unfitted, so that
  from then on, while the previous snapshot has rows, every question raises
  \<open>NotFittedError\<close> until a refresh succeeds.
\<close>

theorem load_index_empty_vocabulary:
  assumes "active_entries db \<noteq> []" and "\<forall>e \<in> set (active_entries db). analyze stop (kb_text e) = []"
  shows "fst (load_index (tfidf_fit stop) svc db) = Some (ValueError empty_vocabulary_msg)
       \<and> matrix (index (snd (load_index (tfidf_fit stop) svc db))) = matrix (index svc)
       \<and> ids (index (snd (load_index (tfidf_fit stop) svc db))) = ids (index svc)
       \<and> vectorizer (index (snd (load_index (tfidf_fit stop) svc db))) = None
       \<and> (matrix (index svc) \<noteq> None \<and> ids (index svc) \<noteq> [] \<longrightarrow>
            ask (tfidf_sims stop) (snd (load_index (tfidf_fit stop) svc db)) db' q t0 t1 = Inl NotFittedError)"
proof -
  have c: "concat (map (analyze stop \<circ> kb_text) (active_entries db)) = []" using assms(2) by simp
  have l: "load_index (tfidf_fit stop) svc db =
    (Some (ValueError empty_vocabulary_msg), svc\<lparr>index := (index svc)\<lparr>vectorizer := None\<rparr>\<rparr>)"
    using assms(1) by (simp add: load_index_def build_def tfidf_fit_def Let_def c)
  show ?thesis
    by (auto simp: l ask_def retrieve_def search_def tfidf_sims_def)
qed

subsection \<open>Instances\<close>

theorem tfidf_scores_witness:
  "\<exists>m mat s. tfidf_fit [] None [''reset password'', ''two factor''] = (Some m, Inr mat)
     \<and> tfidf_sims [] (Some m) mat ''reset it'' = Inr s \<and> 0 < s ! 0 \<and> s ! 1 = 0"
proof -
  have "sort (remdups (concat (map (analyze []) [''reset password'', ''two factor'']))) \<noteq> []" by code_simp
  then obtain m mat where fit: "tfidf_fit [] None [''reset password'', ''two factor''] = (Some m, Inr mat)"
    using tfidf_fit_ok by blast
  have a: "analyze [] ''reset it'' = [''reset'', ''it'']" "analyze [] ''reset password'' = [''reset'', ''password'']"
    "analyze [] ''two factor'' = [''two'', ''factor'']" by code_simp+
  obtain s where s: "tfidf_sims [] (Some m) mat ''reset it'' = Inr s"
    and sc: "\<forall>i < 2. 0 \<le> s ! i \<and> (0 < s ! i \<longleftrightarrow> (\<exists>t. t \<in> set (analyze [] ''reset it'')
                 \<and> t \<in> set (analyze [] ([''reset password'', ''two factor''] ! i))))"
    using tfidf_scores [OF fit, of "''reset it''"] by auto
  have "0 < s ! 0" using sc [rule_format, of 0] by (simp add: a) blast
  moreover have "s ! 1 = 0" using sc [rule_format, of 1] by (auto simp: a)
  ultimately show ?thesis using fit s by blast
qed

theorem tfidf_end_to_end_witness:
  "fst (rag_init (tfidf_fit [''how'', ''do'', ''my'', ''to'', ''and'', ''can'', ''go'']) None test_setup_db) = None
   \<and> (\<exists>a cs. ask (tfidf_sims [''how'', ''do'', ''my'', ''to'', ''and'', ''can'', ''go''])
                 (snd (rag_init (tfidf_fit [''how'', ''do'', ''my'', ''to'', ''and'', ''can'', ''go'']) None test_setup_db)) test_setup_db
                 ''How do I reset my password?'' 0 1 = Inr (a, cs, py_int ((1 - 0) * 1000))
        \<and> map ctx_id cs = [1, 2] \<and> py_contains a ''Go to account settings and click 'Reset Password'.''
        \<and> ((0::real) \<le> 1 \<longrightarrow> 0 \<le> py_int ((1 - 0) * 1000)))
   \<and> (\<exists>a cs. ask (tfidf_sims [''how'', ''do'', ''my'', ''to'', ''and'', ''can'', ''go''])
                 (snd (rag_init (tfidf_fit [''how'', ''do'', ''my'', ''to'', ''and'', ''can'', ''go'']) None test_setup_db)) test_setup_db
                 ''completely unrelated nonsense query xyz'' 0 1 = Inr (a, cs, py_int ((1 - 0) * 1000))
        \<and> map ctx_id cs = [1, 2] \<and> a \<noteq> no_answer_text)"
  by (rule tfidf_end_to_end) simp_all

theorem load_index_empty_vocabulary_witness:
  "fst (load_index (tfidf_fit [''the'', ''and'', ''of'']) \<lparr>index = init_index None\<rparr>
          (snd (create_entry 1 ''The'' ''And'' ''Of'' [] [] [] True empty_db))) = Some (ValueError empty_vocabulary_msg)
   \<and> matrix (index (snd (load_index (tfidf_fit [''the'', ''and'', ''of'']) \<lparr>index = init_index None\<rparr>
          (snd (create_entry 1 ''The'' ''And'' ''Of'' [] [] [] True empty_db))))) = None
   \<and> ask (tfidf_sims [''the'', ''and'', ''of''])
       (snd (load_index (tfidf_fit [''the'', ''and'', ''of''])
          \<lparr>index = \<lparr>vectorizer = Some \<lparr>vocabulary = [''how''], idf_weights = [1]\<rparr>, matrix = Some [[1]], ids = [7]\<rparr>\<rparr>
          (snd (create_entry 1 ''The'' ''And'' ''Of'' [] [] [] True empty_db))))
       empty_db ''how'' 0 1 = Inl NotFittedError"
proof -
  let ?db = "snd (create_entry 1 ''The'' ''And'' ''Of'' [] [] [] True empty_db)"
  have ne: "active_entries ?db \<noteq> []" by (simp add: kb_eval)
  have sw: "\<forall>e \<in> set (active_entries ?db). analyze [''the'', ''and'', ''of''] (kb_text e) = []" by code_simp
  have a: "fst (load_index (tfidf_fit [''the'', ''and'', ''of'']) \<lparr>index = init_index None\<rparr> ?db) = Some (ValueError empty_vocabulary_msg)
   \<and> matrix (index (snd (load_index (tfidf_fit [''the'', ''and'', ''of'']) \<lparr>index = init_index None\<rparr> ?db))) = None"
    using load_index_empty_vocabulary [OF ne sw, of "\<lparr>index = init_index None\<rparr>"]
    by (simp add: init_index_def)
  have b: "ask (tfidf_sims [''the'', ''and'', ''of''])
       (snd (load_index (tfidf_fit [''the'', ''and'', ''of''])
          \<lparr>index = \<lparr>vectorizer = Some \<lparr>vocabulary = [''how''], idf_weights = [1]\<rparr>, matrix = Some [[1]], ids = [7]\<rparr>\<rparr> ?db))
       empty_db ''how'' 0 1 = Inl NotFittedError"
    using load_index_empty_vocabulary [OF ne sw, of "\<lparr>index = \<lparr>vectorizer = Some \<lparr>vocabulary = [''how''], idf_weights = [1]\<rparr>, matrix = Some [[1]], ids = [7]\<rparr>\<rparr>"
        empty_db "''how''" 0 1]
    by simp
  from a b show ?thesis by blast
qed

end
