(* ===== verification/Routing.thy ===== *)
theory Routing
  imports KB_ViewSet Search_View
begin

text \<open>
  The URL configuration of \<open>src/faq_backend/api/urls.py\<close> and what DRF's \<open>APIView.dispatch\<close>
  does before a view method runs. A request path (relative to the prefix under which
  the module is included) is matched against \<open>urlpatterns\<close> in order: the four
  \<open>path()\<close>s, then the URLs of the \<open>DefaultRouter\<close> with the \<open>kb\<close> viewset: list route,
  the \<open>refresh-index\<close> action, detail route (lookup \<open>[^/.]+\<close>) and the API root, each
  followed by its format-suffix variant \<open>\.(?P<format>[a-z0-9]+)/?$\<close>. A matched request
  then passes content negotiation (an unknown format is a 404), the permission check
  (on the viewset by \<open>self.action\<close>, which is \<open>None\<close> for an unmapped method) and the
  method lookup (405), in this order, and reaches the view, called with the URL's keyword
  arguments (\<open>refresh_index\<close> accepts none, so its suffixed URL raises \<open>TypeError\<close>, a 500).
  The result is either an answer given on the way or the call of one view with its arguments.
\<close>

section \<open>Requests\<close>

datatype http_method = GET | POST | PUT | PATCH | DELETE

fun method_name :: "http_method \<Rightarrow> string" where
  "method_name GET = ''GET''"
| "method_name POST = ''POST''"
| "method_name PUT = ''PUT''"
| "method_name PATCH = ''PATCH''"
| "method_name DELETE = ''DELETE''"

text \<open>
  A request: method, path, user, query parameters, and the keys of \<open>request.data\<close> the
  serializers read (the question, the credentials, the fields of an entry).
\<close>

record http_request =
  rq_method :: http_method
  rq_path :: string
  rq_user :: request_user
  rq_params :: "(string \<times> string) list"
  rq_question :: "string option"
  rq_username :: "string option"
  rq_password :: "string option"
  rq_entry :: kb_input

section \<open>URL resolution\<close>

datatype url_route = RHealth | RAsk | RSearch | RAuth | RApiRoot | RKbList | RKbRefresh | RKbDetail string

text \<open>\<open>\.(?P<format>[a-z0-9]+)/?$\<close>, matched against the rest of the path.\<close>

definition is_format_char :: "char \<Rightarrow> bool" where
  "is_format_char c = (let n = of_char c :: nat in (97 \<le> n \<and> n \<le> 122) \<or> (48 \<le> n \<and> n \<le> 57))"

definition format_suffix :: "string \<Rightarrow> string option" where
  "format_suffix s =
     (case s of
        c # r \<Rightarrow>
          if c = CHR ''.'' then
            (let f = (if r \<noteq> [] \<and> last r = CHR ''/'' then butlast r else r)
             in if f \<noteq> [] \<and> (\<forall>x \<in> set f. is_format_char x) then Some f else None)
          else None
      | [] \<Rightarrow> None)"

text \<open>\<open>lookup_value_regex\<close> \<open>[^/.]+\<close>, then \<open>/\<close> or a format suffix.\<close>

definition is_lookup_char :: "char \<Rightarrow> bool" where
  "is_lookup_char c = (c \<noteq> CHR ''/'' \<and> c \<noteq> CHR ''.'')"

definition match_detail :: "string \<Rightarrow> (string \<times> string option) option" where
  "match_detail s =
     (let pk = takeWhile is_lookup_char s; rest = dropWhile is_lookup_char s
      in if pk = [] then None
         else if rest = ''/'' then Some (pk, None)
         else map_option (\<lambda>f. (pk, Some f)) (format_suffix rest))"

type_synonym url_pattern = "string \<Rightarrow> (url_route \<times> string option) option"

definition exact_pat :: "string \<Rightarrow> url_route \<Rightarrow> url_pattern" where
  "exact_pat s r p = (if p = s then Some (r, None) else None)"

definition suffix_pat :: "string \<Rightarrow> url_route \<Rightarrow> url_pattern" where
  "suffix_pat s r p =
     (if take (length s) p = s then map_option (\<lambda>f. (r, Some f)) (format_suffix (drop (length s) p)) else None)"

definition detail_pat :: url_pattern where
  "detail_pat p =
     (if take 3 p = ''kb/'' then map_option (\<lambda>(pk, f). (RKbDetail pk, f)) (match_detail (drop 3 p)) else None)"

text \<open>Django's resolver: the first pattern that matches.\<close>

fun first_match :: "url_pattern list \<Rightarrow> url_pattern" where
  "first_match [] p = None"
| "first_match (u # us) p = (case u p of Some r \<Rightarrow> Some r | None \<Rightarrow> first_match us p)"

definition router_urls :: "url_pattern list" where
  "router_urls =
     [exact_pat ''kb/'' RKbList, suffix_pat ''kb'' RKbList,
      exact_pat ''kb/refresh-index/'' RKbRefresh, suffix_pat ''kb/refresh-index'' RKbRefresh,
      detail_pat,
      exact_pat [] RApiRoot, suffix_pat [] RApiRoot]"

definition url_patterns :: "url_pattern list" where
  "url_patterns =
     [exact_pat ''health/'' RHealth, exact_pat ''ask/'' RAsk, exact_pat ''search/'' RSearch,
      exact_pat ''auth/'' RAuth] @ router_urls"

definition resolve :: "string \<Rightarrow> (url_route \<times> string option) option" where
  "resolve p = first_match url_patterns p"

text \<open>\<open>reverse(name, args=[...])\<close> without a format.\<close>

fun reverse_url :: "url_route \<Rightarrow> string" where
  "reverse_url RHealth = ''health/''"
| "reverse_url RAsk = ''ask/''"
| "reverse_url RSearch = ''search/''"
| "reverse_url RAuth = ''auth/''"
| "reverse_url RApiRoot = []"
| "reverse_url RKbList = ''kb/''"
| "reverse_url RKbRefresh = ''kb/refresh-index/''"
| "reverse_url (RKbDetail pk) = ''kb/'' @ pk @ ''/''"

text \<open>The arguments \<open>reverse\<close> accepts: a lookup value must match \<open>[^/.]+\<close>.\<close>

fun valid_route :: "url_route \<Rightarrow> bool" where
  "valid_route (RKbDetail pk) = (pk \<noteq> [] \<and> (\<forall>c \<in> set pk. is_lookup_char c))"
| "valid_route r = True"

section \<open>Dispatch\<close>

text \<open>
  The action names of the viewset and the method-to-action maps of the router's list,
  \<open>refresh-index\<close> and detail routes.
\<close>

datatype kb_action = KList | KCreate | KRetrieve | KUpdate | KPartialUpdate | KDestroy | KRefresh

fun kb_action_map :: "url_route \<Rightarrow> http_method \<Rightarrow> kb_action option" where
  "kb_action_map RKbList GET = Some KList"
| "kb_action_map RKbList POST = Some KCreate"
| "kb_action_map RKbRefresh POST = Some KRefresh"
| "kb_action_map (RKbDetail pk) GET = Some KRetrieve"
| "kb_action_map (RKbDetail pk) PUT = Some KUpdate"
| "kb_action_map (RKbDetail pk) PATCH = Some KPartialUpdate"
| "kb_action_map (RKbDetail pk) DELETE = Some KDestroy"
| "kb_action_map r m = None"

fun is_kb_route :: "url_route \<Rightarrow> bool" where
  "is_kb_route RKbList = True"
| "is_kb_route RKbRefresh = True"
| "is_kb_route (RKbDetail pk) = True"
| "is_kb_route r = False"

text \<open>\<open>get_permissions\<close> on \<open>self.action\<close>, \<open>None\<close> when the method has no action.\<close>

definition kb_permitted :: "kb_action option \<Rightarrow> request_user \<Rightarrow> bool" where
  "kb_permitted a u = (a = Some KList \<or> a = Some KRetrieve \<or> is_staff u)"

text \<open>The call of the viewset for an action; a key that \<open>int()\<close> rejects makes
  \<open>get_object\<close> answer 404, which is \<open>None\<close> here.\<close>

fun kb_call :: "kb_action \<Rightarrow> string \<Rightarrow> kb_input \<Rightarrow> kb_request option" where
  "kb_call KList pk inp = Some KbList"
| "kb_call KCreate pk inp = Some (KbCreate inp)"
| "kb_call KRefresh pk inp = Some KbRefreshIndex"
| "kb_call KRetrieve pk inp = map_option KbRetrieve (py_parse_int pk)"
| "kb_call KUpdate pk inp = map_option (\<lambda>k. KbUpdate k inp) (py_parse_int pk)"
| "kb_call KPartialUpdate pk inp = map_option (\<lambda>k. KbPartialUpdate k inp) (py_parse_int pk)"
| "kb_call KDestroy pk inp = map_option KbDestroy (py_parse_int pk)"

fun route_pk :: "url_route \<Rightarrow> string" where
  "route_pk (RKbDetail pk) = pk"
| "route_pk r = []"

text \<open>The methods each \<open>APIView\<close> (and \<open>@api_view\<close>) route defines.\<close>

fun view_method :: "url_route \<Rightarrow> http_method option" where
  "view_method RHealth = Some GET"
| "view_method RAsk = Some POST"
| "view_method RSearch = Some GET"
| "view_method RAuth = Some POST"
| "view_method RApiRoot = Some GET"
| "view_method r = None"

text \<open>
  Content negotiation: the format suffix, or else a non-empty \<open>?format=\<close>; only the
  formats of the default renderers (\<open>json\<close>, \<open>api\<close>) are served.
\<close>

definition requested_format :: "string option \<Rightarrow> (string \<times> string) list \<Rightarrow> string option" where
  "requested_format sfx params =
     (case sfx of
        Some f \<Rightarrow> Some f
      | None \<Rightarrow> (let f = query_param_get params ''format'' [] in if f = [] then None else Some f))"

definition accepted_format :: "string option \<Rightarrow> bool" where
  "accepted_format f = (f = None \<or> f = Some ''json'' \<or> f = Some ''api'')"

definition django_not_found :: http_response where
  "django_not_found = \<lparr>resp_status = 404, resp_body = JStr ''Not Found''\<rparr>"

definition method_not_allowed :: "http_method \<Rightarrow> http_response" where
  "method_not_allowed m =
     \<lparr>resp_status = 405, resp_body = JObj [(''detail'', JStr (''Method \"'' @ method_name m @ ''\" not allowed.''))]\<rparr>"

text \<open>\<open>APIRootView.get\<close>: the absolute URL of the list route, in the requested format.\<close>

definition api_root_response :: "string \<Rightarrow> string option \<Rightarrow> http_response" where
  "api_root_response base sfx =
     \<lparr>resp_status = 200,
      resp_body = JObj [(''kb'', JStr (base @ (case sfx of None \<Rightarrow> ''kb/'' | Some f \<Rightarrow> ''kb.'' @ f)))]\<rparr>"

text \<open>Django's answer to an exception no view handles (\<open>DEBUG = False\<close>).\<close>

definition django_server_error :: http_response where
  "django_server_error = \<lparr>resp_status = 500, resp_body = JStr ''Server Error (500)''\<rparr>"

datatype view_call = VHealth | VAsk | VSearch | VAuth | VKb kb_request

datatype routed = Respond http_response | Call view_call

fun api_view_call :: "url_route \<Rightarrow> view_call option" where
  "api_view_call RHealth = Some VHealth"
| "api_view_call RAsk = Some VAsk"
| "api_view_call RSearch = Some VSearch"
| "api_view_call RAuth = Some VAuth"
| "api_view_call r = None"

text \<open>
  \<open>ViewSetMixin.as_view\<close> and \<open>APIView.dispatch\<close> for the router's routes: the permission
  check on the action, 405 for a method without an action, then the handler, called with
  the URL's keyword arguments. The generic handlers take \<open>**kwargs\<close>, but
  \<open>refresh_index(self, request)\<close> does not: on a URL with a format suffix it is passed
  \<open>format=...\<close> and raises \<open>TypeError\<close>, which Django answers with 500.
\<close>

definition kb_dispatch :: "url_route \<Rightarrow> string option \<Rightarrow> http_request \<Rightarrow> routed" where
  "kb_dispatch r sfx rq =
     (let a = kb_action_map r (rq_method rq)
      in if \<not> kb_permitted a (rq_user rq) then Respond (permission_denied (rq_user rq))
         else case a of
                None \<Rightarrow> Respond (method_not_allowed (rq_method rq))
              | Some act \<Rightarrow>
                  if act = KRefresh \<and> sfx \<noteq> None then Respond django_server_error
                  else (case kb_call act (route_pk r) (rq_entry rq) of
                          None \<Rightarrow> Respond not_found
                        | Some kreq \<Rightarrow> Call (VKb kreq)))"

definition api_dispatch :: "string \<Rightarrow> url_route \<Rightarrow> string option \<Rightarrow> http_request \<Rightarrow> routed" where
  "api_dispatch base r sfx rq =
     (if view_method r \<noteq> Some (rq_method rq) then Respond (method_not_allowed (rq_method rq))
      else case api_view_call r of
             Some c \<Rightarrow> Call c
           | None \<Rightarrow> Respond (api_root_response base sfx))"

definition route_request :: "string \<Rightarrow> http_request \<Rightarrow> routed" where
  "route_request base rq =
     (case resolve (rq_path rq) of
        None \<Rightarrow> Respond django_not_found
      | Some (r, sfx) \<Rightarrow>
          if \<not> accepted_format (requested_format sfx (rq_params rq)) then Respond not_found
          else if is_kb_route r then kb_dispatch r sfx rq
          else api_dispatch base r sfx rq)"

section \<open>Properties of the URL layer\<close>

subsection \<open>Printing and parsing keys\<close>

lemma nat_str_digits: "\<forall>c \<in> set (nat_str n). py_isdigit c"
proof (induction n rule: nat_str.induct)
  case (1 n)
  have d: "py_isdigit (char_of (48 + m))" if "m < 10" for m :: nat
    using that by (simp add: py_isdigit_def of_char_of)
  show ?case
    using 1 d [of n] d [of "n mod 10"] by (subst nat_str.simps) auto
qed

lemma nat_str_nonempty: "nat_str n \<noteq> []"
  by (subst nat_str.simps) simp

lemma py_digits_value_snoc:
  "py_isdigit c \<Longrightarrow> py_digits_value (ds @ [c]) = 10 * py_digits_value ds + int (of_char c - 48)"
  by (simp add: py_digits_value_def)

lemma py_digits_value_nat_str: "py_digits_value (nat_str n) = int n"
proof (induction n rule: nat_str.induct)
  case (1 n)
  have v: "int (of_char (char_of (48 + m) :: char) - 48) = int m" if "m < 10" for m :: nat
    using that by (simp add: of_char_of)
  show ?case
  proof (cases "n < 10")
    case True
    then show ?thesis using v [of n] by (subst nat_str.simps) (simp add: py_digits_value_def py_isdigit_def of_char_of)
  next
    case False
    have dig: "py_isdigit (char_of (48 + n mod 10))" by (simp add: py_isdigit_def of_char_of)
    from False have eq: "nat_str n = nat_str (n div 10) @ [char_of (48 + n mod 10)]" by (subst nat_str.simps) simp
    have ar: "10 * int (n div 10) + int (n mod 10) = int n"
      by (metis mult_div_mod_eq of_nat_add of_nat_mult of_nat_numeral)
    with 1 False dig v [of "n mod 10"] show ?thesis by (simp add: eq py_digits_value_snoc)
  qed
qed

lemma py_digits_ok_nat_str: "py_digits_ok (nat_str n)"
proof -
  have d: "\<forall>c \<in> set (nat_str n). py_isdigit c" by (rule nat_str_digits)
  have "\<not> sublist ''__'' (nat_str n)"
  proof
    assume "sublist ''__'' (nat_str n)"
    then have "CHR ''_'' \<in> set (nat_str n)" by (auto dest: set_mono_sublist)
    with d show False by (auto simp: py_isdigit_def)
  qed
  with d nat_str_nonempty [of n] show ?thesis by (simp add: py_digits_ok_def)
qed

lemma dropWhile_none: "\<forall>c \<in> set s. \<not> P c \<Longrightarrow> dropWhile P s = s"
  by (induction s) auto

lemma py_strip_no_space: "\<forall>c \<in> set s. \<not> py_isspace c \<Longrightarrow> py_strip s = s"
  by (simp add: py_strip_def dropWhile_none)

lemma py_parse_int_str: "py_parse_int (py_int_str k) = Some k"
proof -
  have nd: "\<forall>c \<in> set (nat_str n). \<not> py_isspace c \<and> c \<noteq> CHR ''-'' \<and> c \<noteq> CHR ''+''" for n
    using nat_str_digits [of n] by (fastforce simp: py_isdigit_def py_isspace_def Let_def)
  obtain c cs where cs: "nat_str (nat k) = c # cs" using nat_str_nonempty by (cases "nat_str (nat k)") auto
  have ns: "\<forall>x \<in> set (py_int_str k). \<not> py_isspace x"
    using nd [of "nat (- k)"] nd [of "nat k"] by (auto simp: py_int_str_def py_isspace_def)
  show ?thesis
  proof (cases "k < 0")
    case True
    then show ?thesis
      using py_strip_no_space [OF ns] py_digits_ok_nat_str py_digits_value_nat_str
      by (simp add: py_parse_int_def py_int_str_def)
  next
    case False
    with cs nd [of "nat k"] have "c \<noteq> CHR ''-''" "c \<noteq> CHR ''+''" by auto
    with False cs show ?thesis
      using py_strip_no_space [OF ns] py_digits_ok_nat_str [of "nat k"] py_digits_value_nat_str [of "nat k"]
      by (simp add: py_parse_int_def py_int_str_def)
  qed
qed

subsection \<open>Resolution\<close>

lemma format_suffix_no_dot: "CHR ''.'' \<notin> set s \<Longrightarrow> format_suffix s = None"
  by (cases s) (auto simp: format_suffix_def)

lemma suffix_pat_no_dot:
  assumes "CHR ''.'' \<notin> set p"
  shows "suffix_pat s r p = None"
proof -
  have "CHR ''.'' \<notin> set (drop (length s) p)" using assms by (auto dest: in_set_dropD)
  then show ?thesis by (simp add: suffix_pat_def format_suffix_no_dot)
qed

lemma match_detail_pk:
  "valid_route (RKbDetail pk) \<Longrightarrow> match_detail (pk @ ''/'') = Some (pk, None)"
  by (simp add: match_detail_def is_lookup_char_def)

lemmas resolve_eval = resolve_def url_patterns_def router_urls_def exact_pat_def suffix_pat_def detail_pat_def
  format_suffix_def match_detail_def is_lookup_char_def is_format_char_def

lemma resolve_detail:
  assumes "valid_route (RKbDetail pk)" and "pk \<noteq> ''refresh-index''"
  shows "resolve (''kb/'' @ pk @ ''/'') = Some (RKbDetail pk, None)"
proof -
  have nd: "CHR ''.'' \<notin> set (''kb/'' @ pk @ ''/'')" using assms(1) by (auto simp: is_lookup_char_def)
  have ne: "pk \<noteq> []" using assms(1) by simp
  show ?thesis
    using assms ne suffix_pat_no_dot [OF nd] match_detail_pk [OF assms(1)]
    by (simp add: resolve_def url_patterns_def router_urls_def exact_pat_def detail_pat_def)
qed

lemma py_int_str_chars: "\<forall>c \<in> set (py_int_str k). py_isdigit c \<or> c = CHR ''-''"
  using nat_str_digits [of "nat (- k)"] nat_str_digits [of "nat k"] by (auto simp: py_int_str_def)

lemma valid_int_route: "valid_route (RKbDetail (py_int_str k)) \<and> py_int_str k \<noteq> ''refresh-index''"
proof -
  have c: "\<forall>c \<in> set (py_int_str k). py_isdigit c \<or> c = CHR ''-''" by (rule py_int_str_chars)
  have "py_int_str k \<noteq> []" using nat_str_nonempty by (simp add: py_int_str_def)
  moreover have "\<forall>x \<in> set (py_int_str k). is_lookup_char x"
    using c by (auto simp: is_lookup_char_def py_isdigit_def)
  moreover have "CHR ''r'' \<notin> set (py_int_str k)" using c by (auto simp: py_isdigit_def)
  then have "py_int_str k \<noteq> ''refresh-index''" by auto
  ultimately show ?thesis by simp
qed

text \<open>The detail URL of an integer key reaches the viewset's dispatch with that key.\<close>

lemma route_request_detail:
  assumes "rq_path rq = reverse_url (RKbDetail (py_int_str k))"
    and "accepted_format (requested_format None (rq_params rq))"
  shows "route_request base rq = kb_dispatch (RKbDetail (py_int_str k)) None rq"
  using valid_int_route [of k] resolve_detail [of "py_int_str k"] assms by (simp add: route_request_def)

text \<open>
  C19. \<open>reverse\<close> and the resolver are inverse on every route: the URL \<open>reverse\<close> builds
  for a route name resolves to that route, with one exception: the detail URL of the
  lookup value \<open>refresh-index\<close> is taken by the \<open>refresh-index\<close> action, which the router
  lists first. For the keys the table issues the round trip is complete: the detail URL
  of an integer key resolves to the detail route, and \<open>int()\<close> reads the key back.
\<close>

theorem resolve_reverse_roundtrip:
  "(valid_route r \<and> r \<noteq> RKbDetail ''refresh-index'' \<longrightarrow> resolve (reverse_url r) = Some (r, None))
   \<and> resolve (reverse_url (RKbDetail (py_int_str k))) = Some (RKbDetail (py_int_str k), None)
   \<and> py_parse_int (py_int_str k) = Some k"
proof (intro conjI impI)
  assume r: "valid_route r \<and> r \<noteq> RKbDetail ''refresh-index''"
  show "resolve (reverse_url r) = Some (r, None)"
  proof (cases r)
    case (RKbDetail pk)
    with r show ?thesis using resolve_detail by simp
  qed (simp_all add: resolve_eval)
next
  show "resolve (reverse_url (RKbDetail (py_int_str k))) = Some (RKbDetail (py_int_str k), None)"
    using resolve_detail valid_int_route by simp
next
  show "py_parse_int (py_int_str k) = Some k" by (rule py_parse_int_str)
qed

text \<open>
  C21. The \<open>refresh-index\<close> action cannot be reached through a format suffix: a staff
  \<open>POST\<close> to \<open>kb/refresh-index.json\<close> (or \<open>.api\<close>) passes \<open>format\<close> to
  \<open>refresh_index(self, request)\<close>, which does not accept it, and is answered with
  Django's 500 without refreshing, while the same request to \<open>kb/refresh-index/\<close>
  reaches the refresh.
\<close>

theorem refresh_index_format_suffix:
  assumes st: "is_staff (rq_user rq)" and m: "rq_method rq = POST" and f: "f = ''json'' \<or> f = ''api''"
    and pf: "accepted_format (requested_format None (rq_params rq))"
  shows "route_request base (rq\<lparr>rq_path := ''kb/refresh-index.'' @ f\<rparr>) = Respond django_server_error
       \<and> route_request base (rq\<lparr>rq_path := ''kb/refresh-index/''\<rparr>) = Call (VKb KbRefreshIndex)"
proof -
  have "resolve (''kb/refresh-index.'' @ f) = Some (RKbRefresh, Some f)" using f by (auto simp: resolve_eval)
  moreover have "resolve ''kb/refresh-index/'' = Some (RKbRefresh, None)" by (simp add: resolve_eval)
  ultimately show ?thesis
    using st m f pf by (auto simp: route_request_def kb_dispatch_def kb_permitted_def accepted_format_def requested_format_def)
qed

theorem resolve_reverse_roundtrip_witness:
  "resolve (reverse_url (RKbDetail ''7'')) = Some (RKbDetail ''7'', None)
   \<and> resolve (reverse_url (RKbDetail (py_int_str (-3)))) = Some (RKbDetail (py_int_str (-3)), None)
   \<and> py_parse_int (py_int_str (-3)) = Some (-3)
   \<and> resolve (reverse_url (RKbDetail ''refresh-index'')) = Some (RKbRefresh, None)"
proof -
  have v: "valid_route (RKbDetail ''7'') \<and> RKbDetail ''7'' \<noteq> RKbDetail ''refresh-index''"
    by (simp add: is_lookup_char_def)
  have x: "resolve (reverse_url (RKbDetail ''refresh-index'')) = Some (RKbRefresh, None)"
    by (simp add: resolve_eval)
  show ?thesis using resolve_reverse_roundtrip [of "RKbDetail ''7''" "-3"] v x by simp
qed

theorem refresh_index_format_suffix_witness:
  "route_request ''http://testserver/api/''
     \<lparr>rq_method = POST, rq_path = ''kb/refresh-index.json'', rq_user = \<lparr>user_pk = 1, is_authenticated = True, is_staff = True\<rparr>,
      rq_params = [], rq_question = None, rq_username = None, rq_password = None,
      rq_entry = \<lparr>in_title = None, in_question = None, in_answer = None, in_tags = None, in_source = None,
                  in_metadata = None, in_is_active = None\<rparr>\<rparr>
   = Respond django_server_error"
proof -
  have f: "accepted_format (requested_format None [])"
    by (simp add: accepted_format_def requested_format_def query_param_get_def)
  show ?thesis
    using refresh_index_format_suffix [of "\<lparr>rq_method = POST, rq_path = ''kb/'', rq_user = \<lparr>user_pk = 1, is_authenticated = True, is_staff = True\<rparr>,
      rq_params = [], rq_question = None, rq_username = None, rq_password = None,
      rq_entry = \<lparr>in_title = None, in_question = None, in_answer = None, in_tags = None, in_source = None,
                  in_metadata = None, in_is_active = None\<rparr>\<rparr>" "''json''" "''http://testserver/api/''"]
      f by simp
qed

end
