(* ===== verification/Admin.thy ===== *)
theory Admin
  imports Search_View
begin

text \<open>
  The two \<open>ModelAdmin\<close>s of \<open>src/faq_backend/api/admin.py\<close>, as the rows their change lists
  show. A change list is the table filtered by the \<open>list_filter\<close> selection and by
  \<open>get_search_results\<close>, in the order of \<open>ordering\<close> completed by Django's
  \<open>_get_deterministic_ordering\<close> with \<open>-pk\<close> (no field of the ordering is unique).
  Search splits the term at whitespace (\<open>smart_split\<close>) and keeps a row when every bit
  occurs, case-insensitively, in one of \<open>search_fields\<close>. \<open>smart_split\<close> also groups
  quoted phrases; a term with a quote character is outside the model (\<open>None\<close>).
  Pagination (\<open>list_per_page = 100\<close>) and the \<open>tags\<close> filter on a JSON field are not
  modelled.
\<close>

text \<open>\<open>str.split()\<close>: the maximal runs of non-whitespace characters.\<close>

function py_split :: "string \<Rightarrow> string list" where
  "py_split [] = []"
| "py_split (c # s) =
     (if py_isspace c then py_split s
      else takeWhile (\<lambda>x. \<not> py_isspace x) (c # s) # py_split (dropWhile (\<lambda>x. \<not> py_isspace x) s))"
  by pat_completeness auto
termination
  by (relation "measure length") (auto simp: le_imp_less_Suc length_dropWhile_le)

definition has_quote :: "string \<Rightarrow> bool" where
  "has_quote s = (CHR ''\"'' \<in> set s \<or> CHR 0x27 \<in> set s)"

text \<open>\<open>get_search_results\<close>: an AND over the bits of an OR over the fields.\<close>

definition admin_search_match :: "string list \<Rightarrow> string \<Rightarrow> bool" where
  "admin_search_match fs term = (\<forall>b \<in> set (py_split term). \<exists>f \<in> set fs. icontains f b)"

subsection \<open>\<open>KnowledgeBaseEntryAdmin\<close>\<close>

text \<open>\<open>search_fields = ("title", "question", "answer", "source")\<close>.\<close>

definition kb_search_fields :: "kb_entry \<Rightarrow> string list" where
  "kb_search_fields e = [title e, question e, answer e, source e]"

text \<open>\<open>ordering = ("-updated_at",)\<close> and then \<open>-pk\<close>: ascending in this key.\<close>

definition kb_admin_key :: "kb_entry \<Rightarrow> int \<times> int" where
  "kb_admin_key e = (- updated_at e, - entry_id e)"

text \<open>\<open>list_filter = ("is_active", ...)\<close>: \<open>is_active__exact\<close> when chosen.\<close>

definition admin_kb_changelist :: "bool option \<Rightarrow> string \<Rightarrow> kb_db \<Rightarrow> kb_entry list option" where
  "admin_kb_changelist active q db =
     (if has_quote q then None
      else Some (sort_key kb_admin_key
             (filter (\<lambda>e. (case active of None \<Rightarrow> True | Some b \<Rightarrow> is_active e = b)
                          \<and> admin_search_match (kb_search_fields e) q)
               (kb_entries db))))"

subsection \<open>\<open>QueryLogAdmin\<close>\<close>

text \<open>The stored value of \<open>status\<close>.\<close>

fun log_status_str :: "log_status \<Rightarrow> string" where
  "log_status_str Ok = ''ok''"
| "log_status_str Error = ''error''"

definition log_search_fields :: "query_log \<Rightarrow> string list" where
  "log_search_fields l = [log_question l, log_answer l, error l]"

definition log_admin_key :: "query_log \<Rightarrow> int \<times> int" where
  "log_admin_key l = (- log_created_at l, - log_id l)"

text \<open>\<open>list_filter = ("status",)\<close>: the rows whose stored status is the chosen value.\<close>

definition admin_log_changelist :: "string option \<Rightarrow> string \<Rightarrow> kb_db \<Rightarrow> query_log list option" where
  "admin_log_changelist st q db =
     (if has_quote q then None
      else Some (sort_key log_admin_key
             (filter (\<lambda>l. (case st of None \<Rightarrow> True | Some s \<Rightarrow> log_status_str (status l) = s)
                          \<and> admin_search_match (log_search_fields l) q)
               (query_logs db))))"

text \<open>A table with two logged questions, the fixture of the examples.\<close>

definition test_log_db :: kb_db where
  "test_log_db = empty_db\<lparr>query_logs :=
     [\<lparr>log_id = 1, log_created_at = 5, log_updated_at = 5, log_user = None, log_question = ''reset password'',
       retrieved_context_ids = [1], log_answer = ''Go to settings'', latency_ms = 3, status = Ok, error = []\<rparr>,
      \<lparr>log_id = 2, log_created_at = 5, log_updated_at = 5, log_user = Some 4, log_question = ''reset'',
       retrieved_context_ids = [], log_answer = [], latency_ms = 0, status = Error, error = ''LLM timeout''\<rparr>],
     next_log_id := 3\<rparr>"

section \<open>Properties of the change lists\<close>

text \<open>
  Sorting by a key that determines the row's primary key gives a strict order: no two
  rows of a table with unique keys tie.
\<close>

lemma sort_key_strict:
  assumes "distinct (map g xs)" and "\<And>a b. f a = f b \<Longrightarrow> g a = g b"
  shows "sorted_wrt (\<lambda>a b. f a < f b) (sort_key f (filter P xs))"
proof -
  let ?ys = "sort_key f (filter P xs)"
  have inj: "inj_on f (set (filter P xs))"
  proof (rule inj_onI)
    fix a b
    assume a: "a \<in> set (filter P xs)" and b: "b \<in> set (filter P xs)" and e: "f a = f b"
    have "inj_on g (set xs)" using assms(1) by (simp add: distinct_map)
    moreover have "g a = g b" using assms(2) [OF e] .
    ultimately show "a = b" using a b by (auto dest: inj_onD)
  qed
  have "distinct (filter P xs)" using assms(1) by (simp add: distinct_map)
  then have "distinct (map f ?ys)" using inj by (simp add: distinct_map)
  then have "sorted_wrt (<) (map f ?ys)" by (simp add: strict_sorted_iff)
  then show ?thesis by (simp add: sorted_wrt_map)
qed

lemma kb_admin_key_less:
  "kb_admin_key a < kb_admin_key b \<longleftrightarrow> updated_at b < updated_at a \<or> (updated_at a = updated_at b \<and> entry_id b < entry_id a)"
  by (auto simp: kb_admin_key_def less_prod_def)

lemma log_admin_key_less:
  "log_admin_key a < log_admin_key b \<longleftrightarrow>
     log_created_at b < log_created_at a \<or> (log_created_at a = log_created_at b \<and> log_id b < log_id a)"
  by (auto simp: log_admin_key_def less_prod_def)

lemma admin_kb_sorted:
  assumes "distinct (map entry_id xs)"
  shows "sorted_wrt (\<lambda>a b. updated_at b < updated_at a \<or> (updated_at a = updated_at b \<and> entry_id b < entry_id a))
           (sort_key kb_admin_key (filter P xs))"
proof -
  have "kb_admin_key a = kb_admin_key b \<Longrightarrow> entry_id a = entry_id b" for a b by (simp add: kb_admin_key_def)
  from sort_key_strict [where f = kb_admin_key and P = P, OF assms this] show ?thesis by (simp add: kb_admin_key_less)
qed

lemma admin_log_sorted:
  assumes "distinct (map log_id xs)"
  shows "sorted_wrt (\<lambda>a b. log_created_at b < log_created_at a \<or> (log_created_at a = log_created_at b \<and> log_id b < log_id a))
           (sort_key log_admin_key (filter P xs))"
proof -
  have "log_admin_key a = log_admin_key b \<Longrightarrow> log_id a = log_id b" for a b by (simp add: log_admin_key_def)
  from sort_key_strict [where f = log_admin_key and P = P, OF assms this] show ?thesis by (simp add: log_admin_key_less)
qed

text \<open>
  C13. The knowledge-base change list of the admin site shows exactly the rows that pass
  the \<open>is_active\<close> filter (when one is chosen) and contain every whitespace-separated bit
  of the search term, case-insensitively, in the title, question, answer or source;
  deactivated rows are included unless filtered out. The rows are strictly ordered by
  \<open>updated_at\<close> descending and then by key descending, so no two rows tie.
\<close>

theorem admin_kb_changelist_spec:
  assumes "\<not> has_quote q" and "distinct (map entry_id (kb_entries db))"
  shows "\<exists>xs. admin_kb_changelist active q db = Some xs
     \<and> set xs = {e \<in> set (kb_entries db). (active = None \<or> active = Some (is_active e))
           \<and> (\<forall>b \<in> set (py_split q). icontains (title e) b \<or> icontains (question e) b
                                   \<or> icontains (answer e) b \<or> icontains (source e) b)}
     \<and> sorted_wrt (\<lambda>a b. updated_at b < updated_at a \<or> (updated_at a = updated_at b \<and> entry_id b < entry_id a)) xs"
proof -
  let ?P = "\<lambda>e. (case active of None \<Rightarrow> True | Some b \<Rightarrow> is_active e = b) \<and> admin_search_match (kb_search_fields e) q"
  have "set (sort_key kb_admin_key (filter ?P (kb_entries db)))
          = {e \<in> set (kb_entries db). (active = None \<or> active = Some (is_active e))
              \<and> (\<forall>b \<in> set (py_split q). icontains (title e) b \<or> icontains (question e) b
                                      \<or> icontains (answer e) b \<or> icontains (source e) b)}"
    by (cases active) (auto simp: admin_search_match_def kb_search_fields_def)
  moreover have "admin_kb_changelist active q db = Some (sort_key kb_admin_key (filter ?P (kb_entries db)))"
    using assms(1) by (simp add: admin_kb_changelist_def)
  ultimately show ?thesis using admin_kb_sorted [OF assms(2), of ?P] by blast
qed

text \<open>
  C18. The query-log change list of the admin site shows exactly the logs whose stored
  status is the chosen one (when a status is chosen) and that contain every
  whitespace-separated bit of the search term, case-insensitively, in the question, the
  answer or the error message; the logs are strictly ordered by \<open>created_at\<close>
  descending and then by key descending, so the newest question comes first.
\<close>

theorem admin_log_changelist_spec:
  assumes "\<not> has_quote q" and "distinct (map log_id (query_logs db))"
  shows "\<exists>xs. admin_log_changelist st q db = Some xs
     \<and> set xs = {l \<in> set (query_logs db). (st = None \<or> st = Some (log_status_str (status l)))
           \<and> (\<forall>b \<in> set (py_split q). icontains (log_question l) b \<or> icontains (log_answer l) b
                                   \<or> icontains (error l) b)}
     \<and> sorted_wrt (\<lambda>a b. log_created_at b < log_created_at a \<or> (log_created_at a = log_created_at b \<and> log_id b < log_id a)) xs"
proof -
  let ?P = "\<lambda>l. (case st of None \<Rightarrow> True | Some s \<Rightarrow> log_status_str (status l) = s) \<and> admin_search_match (log_search_fields l) q"
  have "set (sort_key log_admin_key (filter ?P (query_logs db)))
          = {l \<in> set (query_logs db). (st = None \<or> st = Some (log_status_str (status l)))
              \<and> (\<forall>b \<in> set (py_split q). icontains (log_question l) b \<or> icontains (log_answer l) b
                                      \<or> icontains (error l) b)}"
    by (cases st) (auto simp: admin_search_match_def log_search_fields_def)
  moreover have "admin_log_changelist st q db = Some (sort_key log_admin_key (filter ?P (query_logs db)))"
    using assms(1) by (simp add: admin_log_changelist_def)
  ultimately show ?thesis using admin_log_sorted [OF assms(2), of ?P] by blast
qed

subsection \<open>Instances\<close>

theorem admin_kb_changelist_spec_witness:
  "\<exists>xs. admin_kb_changelist None ''reset PASSWORD'' test_setup_db = Some xs
     \<and> set xs = {e \<in> set (kb_entries test_setup_db). (None = None \<or> None = Some (is_active e))
           \<and> (\<forall>b \<in> set (py_split ''reset PASSWORD''). icontains (title e) b \<or> icontains (question e) b
                                   \<or> icontains (answer e) b \<or> icontains (source e) b)}
     \<and> sorted_wrt (\<lambda>a b. updated_at b < updated_at a \<or> (updated_at a = updated_at b \<and> entry_id b < entry_id a)) xs"
proof -
  have h: "\<not> has_quote ''reset PASSWORD''" by (simp add: has_quote_def)
  have d: "distinct (map entry_id (kb_entries test_setup_db))" by (simp add: kb_eval)
  show ?thesis using admin_kb_changelist_spec [OF h d, of None] by simp
qed

theorem admin_log_changelist_spec_witness:
  "\<exists>xs. admin_log_changelist (Some ''error'') ''TIMEOUT'' test_log_db = Some xs
     \<and> set xs = {l \<in> set (query_logs test_log_db). (Some ''error'' = None \<or> Some ''error'' = Some (log_status_str (status l)))
           \<and> (\<forall>b \<in> set (py_split ''TIMEOUT''). icontains (log_question l) b \<or> icontains (log_answer l) b
                                   \<or> icontains (error l) b)}
     \<and> sorted_wrt (\<lambda>a b. log_created_at b < log_created_at a \<or> (log_created_at a = log_created_at b \<and> log_id b < log_id a)) xs"
proof -
  have h: "\<not> has_quote ''TIMEOUT''" by (simp add: has_quote_def)
  have d: "distinct (map log_id (query_logs test_log_db))" by (simp add: test_log_db_def)
  show ?thesis using admin_log_changelist_spec [OF h d, of "Some ''error''"] by simp
qed

end
