(* ===== verification/Spec2Isabelle.thy ===== *)
theory Spec2Isabelle
  imports Ask_View Search_View KB_ViewSet Auth_View Tfidf Routing Admin
begin

text \<open>
  \<^bold>\<open>A verification library for the FAQ assistant backend\<close>
  (\<open>src/faq_backend/api\<close>).

  \<^bold>\<open>The program.\<close> A Django REST backend answers questions from a knowledge base.
  \<open>views.py\<close> holds the HTTP handlers (\<open>AskView\<close>, \<open>SearchView\<close>,
  \<open>KnowledgeBaseViewSet\<close> with its \<open>refresh-index\<close> action, \<open>AuthView\<close>,
  \<open>health\<close>); \<open>services.py\<close> holds the retrieval core: \<open>SimpleVectorIndex\<close> (a TF-IDF
  matrix over the active entries, with \<open>build\<close> and \<open>search\<close>) and \<open>RAGService\<close>
  (\<open>_load_index\<close>, \<open>refresh_index\<close>, \<open>retrieve\<close>, \<open>generate\<close>, \<open>ask\<close>), of which
  one instance lives for the whole process; \<open>models.py\<close> holds the two tables
  \<open>KnowledgeBaseEntry\<close> and \<open>QueryLog\<close>. \<open>AskView\<close> validates the question, calls
  \<open>rag_service.ask\<close> and logs a \<open>QueryLog\<close> row on success and on failure; \<open>ask\<close> calls
  \<open>retrieve\<close> (which calls \<open>search\<close> and then the table) and \<open>generate\<close>; writes to the
  table never touch the index, only \<open>refresh_index\<close> rebuilds it.

  \<^bold>\<open>Theories.\<close>
  \<^item> \<open>FAQ_Prelude\<close>: the Python primitives the code relies on, written out: exceptions as
    the datatype \<open>py_error\<close> and results as \<open>py_error + 'a\<close>; slicing \<open>xs[:k]\<close> with
    negative bounds (\<open>py_slice_to\<close>); comprehensions that may raise (\<open>py_map\<close>);
    \<open>str.strip\<close>, \<open>str.join\<close>, \<open>str.lower\<close> and substring tests on ASCII strings.
  \<^item> \<open>Vector_Index\<close>: \<open>SimpleVectorIndex\<close> as the record
    \<open>simple_vector_index\<close> (vectorizer, matrix option, ids) with \<open>init_index\<close>,
    \<open>build\<close>, \<open>argsort\<close>, \<open>ranked_rows\<close> (\<open>np.argsort(sims)[::-1][:top_k]\<close>) and
    \<open>search\<close>. The sklearn vectorizer is an interface of two functions,
    \<open>fit_transform\<close> (returning the mutated vectorizer and the matrix or the exception)
    and \<open>query_sims\<close> (the flattened cosine similarities of a query), with the
    contracts \<open>fit_contract\<close> (one row per document) and \<open>sims_contract\<close> (one score per
    row); the index is generic in the vectorizer state, the matrix and the score order.
    The invariant \<open>index_wf\<close> says that row \<open>i\<close> belongs to \<open>ids[i]\<close>.
  \<^item> \<open>KB_Models\<close>: the tables as records (\<open>kb_entry\<close>, \<open>query_log\<close>, \<open>kb_db\<close>) and
    the ORM operations used by the code: the default ordering \<open>-updated_at\<close>,
    \<open>filter(is_active=True)\<close> (\<open>active_entries\<close>), \<open>filter(id__in=...)\<close> as a dict
    (\<open>entries_by_id\<close>), \<open>create\<close>, \<open>save\<close>, \<open>delete\<close>; the test fixture of
    \<open>tests.py\<close> (\<open>test_setup_db\<close>); the key invariant \<open>db_wf\<close>.
  \<^item> \<open>RAG_Service\<close>: \<open>RAGService\<close> as the record \<open>rag_service\<close> (its index) and one
    definition per method; \<open>ask\<close> takes the two \<open>time.time()\<close> readings as real
    parameters, and \<open>py_int\<close> is Python's truncating \<open>int()\<close>.
  \<^item> \<open>HTTP\<close>: what the handlers of \<open>views.py\<close> share. Responses are a status and a
    JSON value (\<open>json\<close>, \<open>http_response\<close>); a handler that may raise returns
    \<open>py_error + http_response\<close>; the user is the record \<open>request_user\<close>; DRF's
    \<open>CharField\<close> validation (\<open>drf_char_field\<close>), the 400 answer of a failed
    \<open>is_valid\<close>, the rendering of an entry (\<open>entry_to_json\<close>), \<open>health_view\<close>, and the
    response types of the serializers (\<open>json_ty\<close>, \<open>json_conforms\<close>, \<open>entry_ty\<close>).
  \<^item> \<open>Ask_View\<close>: \<open>ask_view\<close> (\<open>AskView.post\<close>: \<open>validate_question\<close>, then \<open>ask\<close>,
    then one \<open>QueryLog\<close> row on either outcome) and \<open>ask_response_ty\<close>.
  \<^item> \<open>Search_View\<close>: \<open>search_view\<close> (\<open>SearchView.get\<close>: the last value of a repeated
    parameter, Python's \<open>int()\<close> as \<open>py_parse_int\<close>, the \<open>icontains\<close> filter and
    Django's refusal of negative slices) and \<open>search_response_ty\<close>.
  \<^item> \<open>KB_ViewSet\<close>: \<open>kb_viewset\<close> (\<open>KnowledgeBaseViewSet\<close>: the permission of
    \<open>get_permissions\<close>, list, retrieve, create, update, partial update and destroy with the
    field validation of \<open>KnowledgeBaseEntrySerializer\<close>, and the \<open>refresh-index\<close>
    action), requests as the datatype \<open>kb_request\<close>.
  \<^item> \<open>Auth_View\<close>: \<open>auth_view\<close> (\<open>AuthView.post\<close> with \<open>AuthRequestSerializer\<close>);
    Django's \<open>authenticate\<close> and simplejwt's \<open>RefreshToken.for_user\<close> are the two
    functions of the record \<open>auth_backend\<close>.
  \<^item> \<open>Tfidf\<close>: the vectorizer the code constructs,
    \<open>TfidfVectorizer(stop_words="english")\<close>, as an instance of the interface of
    \<open>Vector_Index\<close>: the analyzer (\<open>word_tokens\<close>, a \<open>while_option\<close> loop over the
    token pattern, and \<open>analyze\<close>), the fitted model \<open>tfidf_model\<close> (vocabulary and
    idf), \<open>tfidf_fit\<close> (\<open>fit_transform\<close>, raising on an empty vocabulary) and
    \<open>tfidf_sims\<close> (\<open>transform\<close> and \<open>cosine_similarity\<close>).
  \<^item> \<open>Routing\<close>: \<open>urls.py\<close> and the part of DRF's \<open>APIView.dispatch\<close> that runs
    before a view. \<open>resolve\<close> matches a path against the ordered \<open>url_patterns\<close> (the
    four \<open>path()\<close>s and the \<open>DefaultRouter\<close> routes with their format suffixes);
    \<open>reverse_url\<close> is \<open>reverse\<close>; \<open>route_request\<close> applies content negotiation,
    the permission check of \<open>get_permissions\<close> on the action, the method lookup and the
    key lookup of \<open>get_object\<close>, and either answers or names the view to call.
  \<^item> \<open>Admin\<close>: the change lists of \<open>KnowledgeBaseEntryAdmin\<close> and \<open>QueryLogAdmin\<close>
    (\<open>admin_kb_changelist\<close>, \<open>admin_log_changelist\<close>): the \<open>list_filter\<close> choice,
    \<open>search_fields\<close> search over whitespace-separated bits, and \<open>ordering\<close> completed
    with \<open>-pk\<close>.
  \<^item> This theory: the serving process as a state machine. The state \<open>faq_state\<close> is the
    \<open>rag_service\<close> singleton, the tables and the accounts behind \<open>authenticate\<close>;
    \<open>faq_request\<close> has one constructor per route of \<open>urls.py\<close>; \<open>handle_request\<close>
    dispatches to the view and turns an exception no view catches into a 500
    (\<open>django_response\<close>); \<open>run_requests\<close> serves a sequence of requests;
    \<open>response_schema\<close> gives the declared schema of each route; \<open>reachable\<close> is the
    inductive set of states from a successful start, closed under requests, under admin
    writes (\<open>admin.py\<close>), which may change the tables arbitrarily as long as keys stay
    unique and the key sequence does not go back, and under changes of the accounts;
    \<open>sys_inv\<close> is the system invariant. The fixtures \<open>toy_fit\<close>, \<open>toy_sims\<close> and
    \<open>test_state\<close> (the process started on the table of \<open>tests.py\<close>) are the concrete
    deployment the examples run on; \<open>serve\<close> puts \<open>route_request\<close> in front of
    \<open>handle_request\<close>; \<open>test_health\<close>, \<open>test_search\<close> and \<open>test_ask\<close>
    are the test methods of \<open>tests.py\<close>, each a request and the assertions on its answer.

  \<^bold>\<open>What is proved.\<close>
  \<^item> Ranking (\<open>Vector_Index\<close>, C1--C3, C5, C6): results are sorted by descending score;
    the scores returned, and the rows themselves when no two scores are equal, are the
    same for every argsort numpy may use (C2, against the contract \<open>is_argsort\<close>); the
    returned rows are the best ones; at most \<open>top_k\<close> results for \<open>top_k \<ge> 0\<close> (a lemma),
    and for a negative \<open>top_k\<close> the full ranking without its last \<open>|top_k|\<close> entries (C6);
    on a well-formed index \<open>search\<close> never raises \<open>IndexError\<close> and is the ranked rows
    mapped to their ids (a functional refinement).
  \<^item> Snapshots (C7, C8, C17): \<open>build\<close> and \<open>_load_index\<close> preserve
    \<open>index_wf\<close>; a failing \<open>fit_transform\<close> leaves matrix and ids in service; an empty
    snapshot answers every search with \<open>[]\<close>; a successful load indexes exactly the
    active entries, newest first; refreshing is idempotent for a vectorizer that refits
    from scratch (a lemma).
  \<^item> Pipeline (C10, C11, C15): \<open>retrieve\<close> keeps rank order and drops ids without a
    row, but also returns entries deactivated after the build; \<open>generate\<close> falls back
    exactly when there is no context, and cuts long answers to 400 characters plus
    \<open>"..."\<close> (lemmas); the latency is negative when the wall clock steps back by a millisecond
    or more. Lemmas add that snippets are at most 403 characters and that \<open>ask\<close>
    propagates every exception of \<open>search\<close>.
  \<^item> TF-IDF (\<open>Tfidf\<close>, C4, C9, C14, C16): after a fit every score is non-negative, and
    a document scores above zero exactly when it shares an analysed term with the query
    (C4, proved by the sign of a cosine of non-negative vectors, so no value of \<open>ln\<close> or
    \<open>sqrt\<close> is needed); the analyzer is the token pattern of scikit-learn: the
    \<open>while_option\<close> scan equals the pieces of \<open>re.split(r"\W")\<close> of the lower-cased text
    that have two characters or more, minus the stop words (C9, an equivalence); on the
    fixture of \<open>tests.py\<close> the two scenarios of the specification run end to end (C14):
    the password question is answered from the Password Reset entry, and the nonsense
    question is answered from both entries, not with the fallback; a table whose active
    entries hold only stop words makes loading raise the "empty vocabulary" error, and
    a refresh that fails so leaves the vectorizer unfitted, so every later question raises
    \<open>NotFittedError\<close> (answered 500) until a refresh succeeds (C16).
  \<^item> Ask endpoint (C20, C22, C23): a 400 is answered exactly when validation fails and
    then nothing is logged; otherwise one log row is appended with the next key, on the
    success path with the answer, latency and context ids in rank order, on the error path
    with status error, latency 0 and \<open>str(exc)\<close> and a 500 (the key invariant is kept,
    as part of C32). Lemmas characterise the question validation, show that exactly one
    row is logged, and that a well-formed index whose similarity computation does not
    raise answers every valid question with 200.
  \<^item> URL layer (\<open>Routing\<close>, C19, C21, C36): \<open>reverse\<close> and \<open>resolve\<close> are inverse on
    every route except the detail URL of the lookup value \<open>refresh-index\<close>, which the
    action shadows, and \<open>int()\<close> reads back every key the detail URL prints (C19, a round
    trip); a staff \<open>POST\<close> to \<open>kb/refresh-index.json\<close> crashes with 500, because
    \<open>refresh_index(self, request)\<close> takes no \<open>format\<close> argument, while
    \<open>kb/refresh-index/\<close> refreshes (C21); through \<open>serve\<close>, the detail URL of every
    integer key answers \<open>GET\<close> with the row or 404 to anyone and \<open>DELETE\<close> only for
    staff, removing exactly that row (C36, an end-to-end property of routing, key
    parsing, permissions and the viewset).
  \<^item> Admin site (\<open>Admin\<close>, C13, C18): the entry change list shows exactly the rows that
    pass the filter and contain every bit of the search term in one of the four search
    fields, deactivated rows included, strictly ordered by \<open>(-updated_at, -pk)\<close> (C13);
    the query-log change list shows exactly the logs of the chosen status that contain
    every bit in the question, answer or error, strictly ordered by
    \<open>(-created_at, -pk)\<close> (C18).
  \<^item> Search endpoint (C25, C27, C28): results are active, matching, newest first and at
    most \<open>limit\<close> many; a malformed \<open>limit\<close>
    raises even for an empty query, and a negative one raises for a non-empty query.
  \<^item> Knowledge base endpoint (C29, C31, C35, C39, C40): every action but list and
    retrieve is refused to non-staff users without any effect; a valid
    create appends the row the serializer describes and leaves the index alone; a valid
    \<open>PATCH\<close> rewrites exactly its row in place, keeping the fields it omits (C35); a
    created row is retrieved with the body the create returned (C39, a round trip); the
    public list shows every row, deactivated ones included (C40).
  \<^item> The whole server (C32--C34, C37, C38): every reachable state satisfies \<open>sys_inv\<close>; only a
    staff refresh changes the index; and the index is stale until refreshed: after any
    run without a refresh, \<open>ask\<close> returns only entries whose keys were issued before
    the run, so an entry created meanwhile is never retrieved. A successful refresh
    repairs this: with at most 5 active entries, \<open>ask\<close> then returns all of them (C37,
    a liveness property); a deleted entry, unlike a deactivated one, disappears from the
    answers at once (C38).
  \<^item> Authentication (C24, C26): \<open>/auth/\<close> answers 200 with the tokens of the user exactly
    when the stripped credentials validate and \<open>authenticate\<close> accepts them, 400 or 401
    otherwise; the password is stripped, so a password with surrounding whitespace is
    never the one checked.
  \<^item> The repository's tests (C12): \<open>test_health\<close>, \<open>test_search\<close> and \<open>test_ask\<close>
    pass with the TF-IDF vectorizer for every stop list and every table the singleton may
    have been loaded from at import time, since that load, not \<open>setUp\<close>, fills the index.
  \<^item> Response types (C30): on every route, a 200 or 201 body has exactly the fields of
    the declared response serializer, in order, with values of the declared types.

  \<^bold>\<open>Choices and bounds.\<close> \<open>np.argsort\<close> is computed as a stable sort, but numpy's
  default introsort fixes no order among equal scores; C2 shows the scores returned do
  not depend on it, and the examples whose context order rests on ties (the nonsense
  question of C14) show the order of this choice. Equal \<open>updated_at\<close> keep insertion order, which the database does not promise.
  Scores are exact values of a linear order, not floats. Strings are character lists;
  only the ASCII part of Python's whitespace and case tables is modelled. Requests are
  handled one at a time: the views hold no lock and Django serves one request per thread,
  but every handler of the model reads the service once and writes it at most once, so
  the spec's atomic replacement of the snapshot is the single update of \<open>st_svc\<close>.
  Every recursion is structural, except \<open>nat_str\<close> (on \<open>n div 10\<close>) and
  \<open>json_conforms\<close> (through the fields of an object), whose termination \<open>fun\<close> proves
  by a size measure, and \<open>py_split\<close>, a \<open>function\<close> with the measure \<open>length\<close>. The one loop, the token scan of \<open>Tfidf\<close>, is a \<open>while_option\<close>
  proved to return \<open>Some\<close> on every input (the remaining string shrinks in each round),
  so no fuel is needed. TF-IDF weights and scores are reals: the properties rest on signs
  and on the order of scores, which exact arithmetic and floating point agree on for the
  inputs considered, but rounding is not modelled.

  \<^bold>\<open>Not modelled.\<close> Of scikit-learn, the English stop list is not reproduced (it is
  a parameter, and the scenarios assume only that it contains "how" and not "reset",
  which holds for sklearn's list); \<open>\w\<close> and \<open>lower()\<close> are taken on ASCII; the
  sparse matrix is a list of dense rows; a failing \<open>fit_transform\<close> leaves the
  vectorizer unfitted, as scikit-learn 1.0 and later do. Django's password check and simplejwt's
  token signing stay behind the interface \<open>auth_backend\<close>.
  The framework settings are not in the repository, so the URL layer assumes DRF's
  defaults: the renderers \<open>json\<close> and \<open>api\<close>, \<open>AllowAny\<close> for the API root, and
  Django's fullmatch of endpoint patterns (current Django and DRF). Whether a refused
  anonymous request gets 401 or 403 depends on the first authentication class
  (\<open>permission_denied\<close> gives 401 as with simplejwt's \<open>JWTAuthentication\<close> first;
  with DRF's default \<open>SessionAuthentication\<close> first it is 403); the claims
  state the answer as \<open>permission_denied\<close>, whichever status it carries. Paths are taken after
  the prefix under which \<open>urls.py\<close> is included; \<open>APPEND_SLASH\<close> redirects, the
  \<open>Accept\<close> header (406), \<open>HEAD\<close>, \<open>OPTIONS\<close> (metadata) and \<open>TRACE\<close>, and integer
  keys beyond the database's range are not modelled. Of the admin site, the change lists
  are modelled without pagination, without the \<open>tags\<close> filter on a JSON field, and for
  search terms without quote characters (\<open>smart_split\<close>'s quoted phrases); its edit
  forms appear only through their effect on the tables and the accounts (in
  \<open>reachable\<close>). The swagger decorators only through the response schemas
  they declare; the database indexes of \<open>models.py\<close> and the migration have no behaviour
  the code relies on. DRF's coercion of non-string JSON values to strings in a
  \<open>CharField\<close> is not modelled: request fields are absent or strings.
\<close>

section \<open>The server as a state machine\<close>

text \<open>
  One serving process: the \<open>rag_service\<close> singleton of \<open>services.py\<close> line 102, the
  database, and the user accounts behind \<open>authenticate\<close>. A request is handled by the
  view the URL configuration of \<open>urls.py\<close> routes it to; an exception no view catches
  becomes a 500 and leaves the state as the view left it.
\<close>

record ('v, 'x) faq_state =
  st_svc :: "('v, 'x) rag_service"
  st_db :: kb_db
  st_auth :: auth_backend

datatype faq_request =
    HealthReq
  | AskReq request_user "string option" real real int
  | SearchReq "(string \<times> string) list"
  | AuthReq "string option" "string option"
  | KbReq request_user kb_request int

definition django_response :: "http_response py_result \<Rightarrow> http_response" where
  "django_response r = (case r of Inl e \<Rightarrow> \<lparr>resp_status = 500, resp_body = JStr ''Server Error (500)''\<rparr> | Inr x \<Rightarrow> x)"

definition handle_request ::
  "('v, 'x) fit_transform_fn \<Rightarrow> ('v, 'x, 's::linorder) query_sims_fn \<Rightarrow> ('v, 'x) faq_state \<Rightarrow> faq_request
   \<Rightarrow> http_response \<times> ('v, 'x) faq_state" where
  "handle_request fit_transform query_sims st req =
     (case req of
        HealthReq \<Rightarrow> (health_view, st)
      | AskReq u data t0 t1 now \<Rightarrow>
          (case ask_view query_sims (st_svc st) (st_db st) u data t0 t1 now of
             (r, db') \<Rightarrow> (r, st\<lparr>st_db := db'\<rparr>))
      | SearchReq params \<Rightarrow> (django_response (search_view (st_db st) params), st)
      | AuthReq du dp \<Rightarrow> (auth_view (st_auth st) du dp, st)
      | KbReq u kreq now \<Rightarrow>
          (case kb_viewset fit_transform (st_svc st) (st_db st) u kreq now of
             (r, svc', db') \<Rightarrow> (django_response r, st\<lparr>st_svc := svc', st_db := db'\<rparr>)))"

fun run_requests ::
  "('v, 'x) fit_transform_fn \<Rightarrow> ('v, 'x, 's::linorder) query_sims_fn \<Rightarrow> ('v, 'x) faq_state \<Rightarrow> faq_request list
   \<Rightarrow> ('v, 'x) faq_state" where
  "run_requests fit_transform query_sims st [] = st"
| "run_requests fit_transform query_sims st (r # rs) =
     run_requests fit_transform query_sims (snd (handle_request fit_transform query_sims st r)) rs"

fun is_refresh :: "faq_request \<Rightarrow> bool" where
  "is_refresh (KbReq u KbRefreshIndex now) = True"
| "is_refresh _ = False"

text \<open>
  The schema of a successful answer on each route: the response serializers of
  \<open>serializers.py\<close>, the token schema declared on \<open>AuthView\<close>, and no declared schema for
  \<open>health\<close> and \<open>refresh-index\<close>.
\<close>

fun response_schema :: "faq_request \<Rightarrow> json_ty" where
  "response_schema HealthReq = TAny"
| "response_schema (AskReq u data t0 t1 now) = ask_response_ty"
| "response_schema (SearchReq params) = search_response_ty"
| "response_schema (AuthReq du dp) = auth_tokens_ty"
| "response_schema (KbReq u kreq now) = kb_response_ty kreq"

text \<open>
  The reachable states: the process starts once \<open>RAGService()\<close> has loaded the index
  without raising (an exception there aborts the import), then handles requests; besides,
  the admin site of \<open>admin.py\<close> (or any other client of the database) may write the
  tables, keeping keys unique and never rewinding the key sequence, and user accounts may
  be created, changed or deleted at any time (a deleted user's log rows lose their user).
\<close>

inductive reachable ::
  "('v, 'x) fit_transform_fn \<Rightarrow> ('v, 'x, 's::linorder) query_sims_fn \<Rightarrow> 'v \<Rightarrow> kb_db \<Rightarrow> ('v, 'x) faq_state \<Rightarrow> bool"
  for fit_transform query_sims v0 db0 where
  start: "rag_init fit_transform v0 db0 = (None, svc) \<Longrightarrow>
            reachable fit_transform query_sims v0 db0 \<lparr>st_svc = svc, st_db = db0, st_auth = users\<rparr>"
| request: "reachable fit_transform query_sims v0 db0 st \<Longrightarrow>
            reachable fit_transform query_sims v0 db0 (snd (handle_request fit_transform query_sims st req))"
| admin: "reachable fit_transform query_sims v0 db0 st \<Longrightarrow> db_wf db' \<Longrightarrow> next_entry_id (st_db st) \<le> next_entry_id db' \<Longrightarrow>
            reachable fit_transform query_sims v0 db0 (st\<lparr>st_db := db'\<rparr>)"
| accounts: "reachable fit_transform query_sims v0 db0 st \<Longrightarrow>
            reachable fit_transform query_sims v0 db0 (st\<lparr>st_auth := users\<rparr>)"
| user_deleted: "reachable fit_transform query_sims v0 db0 st \<Longrightarrow>
            reachable fit_transform query_sims v0 db0 (st\<lparr>st_db := delete_user pk (st_db st), st_auth := users\<rparr>)"

text \<open>
  The system invariant: unique keys, a well-formed snapshot, and every indexed id a key
  already issued.
\<close>

definition sys_inv :: "('x \<Rightarrow> nat) \<Rightarrow> ('v, 'x) faq_state \<Rightarrow> bool" where
  "sys_inv rows st =
     (db_wf (st_db st) \<and> index_wf rows (index (st_svc st))
      \<and> (\<forall>i \<in> set (ids (index (st_svc st))). i < next_entry_id (st_db st)))"

subsection \<open>A test deployment\<close>

text \<open>
  The fixtures the examples below run on: a vectorizer that returns one row per document
  and scores every row 0, no user accounts, a staff user, and the process started on the
  table of \<open>AskAndSearchTests.setUp\<close>.
\<close>

definition toy_fit :: "(unit, nat) fit_transform_fn" where
  "toy_fit v c = (v, Inr (length c))"

definition toy_sims :: "(unit, nat, nat) query_sims_fn" where
  "toy_sims v m q = Inr (replicate m 0)"

definition no_users :: auth_backend where
  "no_users = \<lparr>authenticate = (\<lambda>u p. None), tokens_for = (\<lambda>u. ([], []))\<rparr>"

definition staff_user :: request_user where
  "staff_user = \<lparr>user_pk = 1, is_authenticated = True, is_staff = True\<rparr>"

definition anonymous :: request_user where
  "anonymous = \<lparr>user_pk = 0, is_authenticated = False, is_staff = False\<rparr>"

definition test_state :: "(unit, nat) faq_state" where
  "test_state = \<lparr>st_svc = snd (rag_init toy_fit () test_setup_db), st_db = test_setup_db, st_auth = no_users\<rparr>"

definition billing_input :: kb_input where
  "billing_input = \<lparr>in_title = Some ''Billing'', in_question = Some ''Where is my invoice?'',
     in_answer = Some ''Open the billing page.'', in_tags = None, in_source = None, in_metadata = None,
     in_is_active = None\<rparr>"

text \<open>
  The test methods of \<open>tests.py\<close> as predicates of a process state: the request each
  one sends through the test client (anonymous, so \<open>anonymous\<close>) and the assertions it
  makes on the response. \<open>response.data.get(k)\<close> is \<open>json_get\<close>.
\<close>

definition json_get :: "string \<Rightarrow> json \<Rightarrow> json option" where
  "json_get k v = map_of (json_fields v) k"

definition test_health ::
  "('v, 'x) fit_transform_fn \<Rightarrow> ('v, 'x, 's::linorder) query_sims_fn \<Rightarrow> ('v, 'x) faq_state \<Rightarrow> bool" where
  "test_health ft qs st =
     (let r = fst (handle_request ft qs st HealthReq)
      in resp_status r = 200 \<and> resp_body r = JObj [(''message'', JStr ''Server is up!'')])"

definition test_search ::
  "('v, 'x) fit_transform_fn \<Rightarrow> ('v, 'x, 's::linorder) query_sims_fn \<Rightarrow> ('v, 'x) faq_state \<Rightarrow> bool" where
  "test_search ft qs st =
     (let r = fst (handle_request ft qs st (SearchReq [(''query'', ''password'')]))
      in resp_status r = 200
         \<and> 1 \<le> (case json_get ''results'' (resp_body r) of Some (JList xs) \<Rightarrow> length xs | _ \<Rightarrow> 0))"

definition test_ask ::
  "('v, 'x) fit_transform_fn \<Rightarrow> ('v, 'x, 's::linorder) query_sims_fn \<Rightarrow> ('v, 'x) faq_state \<Rightarrow> real \<Rightarrow> real \<Rightarrow> int
   \<Rightarrow> bool" where
  "test_ask ft qs st t0 t1 now =
     (let r = fst (handle_request ft qs st (AskReq anonymous (Some ''How do I reset my password?'') t0 t1 now))
      in resp_status r = 200 \<and> json_get ''answer'' (resp_body r) \<noteq> None \<and> json_get ''contexts'' (resp_body r) \<noteq> None)"

section \<open>Serving HTTP requests\<close>

text \<open>
  A request as it arrives: the URL layer of \<open>Routing\<close> either answers it (404, 401/403,
  405, the API root) or names the view, which then runs as one request of the state
  machine, with the request's user, data and parameters.
\<close>

fun view_request :: "http_request \<Rightarrow> view_call \<Rightarrow> real \<Rightarrow> real \<Rightarrow> int \<Rightarrow> faq_request" where
  "view_request rq VHealth t0 t1 now = HealthReq"
| "view_request rq VAsk t0 t1 now = AskReq (rq_user rq) (rq_question rq) t0 t1 now"
| "view_request rq VSearch t0 t1 now = SearchReq (rq_params rq)"
| "view_request rq VAuth t0 t1 now = AuthReq (rq_username rq) (rq_password rq)"
| "view_request rq (VKb kreq) t0 t1 now = KbReq (rq_user rq) kreq now"

definition serve ::
  "('v, 'x) fit_transform_fn \<Rightarrow> ('v, 'x, 's::linorder) query_sims_fn \<Rightarrow> string \<Rightarrow> ('v, 'x) faq_state
   \<Rightarrow> http_request \<Rightarrow> real \<Rightarrow> real \<Rightarrow> int \<Rightarrow> http_response \<times> ('v, 'x) faq_state" where
  "serve fit_transform query_sims base st rq t0 t1 now =
     (case route_request base rq of
        Respond r \<Rightarrow> (r, st)
      | Call c \<Rightarrow> handle_request fit_transform query_sims st (view_request rq c t0 t1 now))"

section \<open>Properties spanning the components\<close>

lemma handle_request_svc:
  "st_svc (snd (handle_request fit_transform query_sims st req))
     = (case req of KbReq u kreq now \<Rightarrow> fst (snd (kb_viewset fit_transform (st_svc st) (st_db st) u kreq now))
                  | _ \<Rightarrow> st_svc st)"
  by (auto simp: handle_request_def case_prod_unfold split: faq_request.split)

lemma handle_request_not_refresh_svc:
  "\<not> is_refresh req \<Longrightarrow> st_svc (snd (handle_request fit_transform query_sims st req)) = st_svc st"
  by (cases req) (auto simp: handle_request_svc kb_viewset_svc)

lemma handle_request_next_id:
  "next_entry_id (st_db st) \<le> next_entry_id (st_db (snd (handle_request fit_transform query_sims st req)))"
  by (cases req) (auto simp: handle_request_def case_prod_unfold ask_view_tables kb_viewset_next_id)

lemma handle_request_inv:
  assumes fc: "fit_contract fit_transform rows" and inv: "sys_inv rows st"
  shows "sys_inv rows (snd (handle_request fit_transform query_sims st req))"
proof (cases req)
  case (AskReq u data t0 t1 now)
  with inv show ?thesis
    by (auto simp: sys_inv_def handle_request_def case_prod_unfold ask_view_wf ask_view_tables)
next
  case (KbReq u kreq now)
  let ?st' = "snd (handle_request fit_transform query_sims st req)"
  from inv have db: "db_wf (st_db ?st')"
    using KbReq by (auto simp: sys_inv_def handle_request_def case_prod_unfold kb_viewset_wf)
  have le: "next_entry_id (st_db st) \<le> next_entry_id (st_db ?st')" by (rule handle_request_next_id)
  have svc: "st_svc ?st' = (if kreq = KbRefreshIndex \<and> kb_has_permission kreq u
                            then snd (refresh_index fit_transform (st_svc st) (st_db st)) else st_svc st)"
    using KbReq by (simp add: handle_request_svc kb_viewset_svc)
  have "index_wf rows (index (st_svc ?st')) \<and> (\<forall>i \<in> set (ids (index (st_svc ?st'))). i < next_entry_id (st_db st))"
    using inv load_index_inv [OF fc] by (auto simp: svc sys_inv_def refresh_index_def)
  with db le show ?thesis by (auto simp: sys_inv_def)
qed (use inv in \<open>auto simp: handle_request_def\<close>)

lemma run_requests_not_refresh_svc:
  "list_all (\<lambda>r. \<not> is_refresh r) reqs \<Longrightarrow>
   st_svc (run_requests fit_transform query_sims st reqs) = st_svc st"
  by (induction reqs arbitrary: st) (auto simp: handle_request_not_refresh_svc)

lemma run_requests_next_id:
  "next_entry_id (st_db st) \<le> next_entry_id (st_db (run_requests fit_transform query_sims st reqs))"
  by (induction reqs arbitrary: st) (auto intro: order_trans [OF handle_request_next_id])

lemma handle_refresh_ok:
  assumes "handle_request fit_transform query_sims st (KbReq u KbRefreshIndex now) = (r, st')"
    and "resp_status r = 200"
  shows "fst (load_index fit_transform (st_svc st) (st_db st)) = None
         \<and> st_svc st' = snd (load_index fit_transform (st_svc st) (st_db st)) \<and> st_db st' = st_db st"
  using assms
  by (auto simp: handle_request_def kb_viewset_def refresh_index_def permission_denied_def django_response_def
      split: if_splits prod.splits option.splits)

lemma handle_destroy_db:
  "st_db (snd (handle_request fit_transform query_sims st (KbReq u (KbDestroy k) now)))
     = snd (snd (kb_viewset fit_transform (st_svc st) (st_db st) u (KbDestroy k) now))"
  by (simp add: handle_request_def case_prod_unfold)

text \<open>
  C32. Every reachable state satisfies the system invariant: keys are unique in both
  tables and below their sequences, the index snapshot has one matrix row per id, and every
  indexed id is a key already issued. This holds for every interleaving of requests and
  admin writes, given a vectorizer that returns one row per document.
\<close>
theorem reachable_sys_inv:
  assumes db0: "db_wf db0" and fc: "fit_contract fit_transform rows"
    and r: "reachable fit_transform query_sims v0 db0 st"
  shows "sys_inv rows st"
  using r
proof induction
  case (start svc)
  then have svc: "svc = snd (load_index fit_transform \<lparr>index = init_index v0\<rparr> db0)"
    by (simp add: rag_init_def)
  have wf0: "index_wf rows (index \<lparr>index = init_index v0\<rparr>)"
    and old0: "\<forall>i \<in> set (ids (index \<lparr>index = init_index v0\<rparr>)). i < next_entry_id db0"
    by (simp_all add: index_wf_def init_index_def)
  from load_index_inv [OF fc wf0 db0 old0] db0 show ?case
    by (simp add: sys_inv_def svc)
next
  case (request st req)
  then show ?case using handle_request_inv [OF fc] by blast
next
  case (admin st db')
  then show ?case by (auto simp: sys_inv_def)
next
  case (accounts st users)
  then show ?case by (simp add: sys_inv_def)
next
  case (user_deleted st pk users)
  then show ?case by (simp add: sys_inv_def delete_user_wf)
qed

theorem reachable_sys_inv_witness:
  "sys_inv (\<lambda>n::nat. n) (snd (handle_request toy_fit toy_sims test_state (KbReq staff_user KbRefreshIndex 3)))"
proof -
  have init: "rag_init toy_fit () test_setup_db = (None, snd (rag_init toy_fit () test_setup_db))"
    by (simp add: rag_init_def load_index_def build_def Let_def kb_eval toy_fit_def)
  have db: "db_wf test_setup_db" by (simp add: kb_eval)
  have fc: "fit_contract toy_fit (\<lambda>n::nat. n)" by (simp add: fit_contract_def toy_fit_def)
  have "reachable toy_fit toy_sims () test_setup_db test_state"
    unfolding test_state_def by (rule reachable.start [OF init])
  then show ?thesis by (rule reachable_sys_inv [OF db fc reachable.request])
qed

text \<open>
  C33. The index is a frame of every request but one: if handling a request changes the
  service state, the request was \<open>POST /kb/refresh-index/\<close> by a staff user. Creating,
  updating and deleting entries, asking and searching never touch the index.
\<close>
theorem index_changes_only_on_refresh:
  assumes "st_svc (snd (handle_request fit_transform query_sims st req)) \<noteq> st_svc st"
  shows "\<exists>u now. req = KbReq u KbRefreshIndex now \<and> is_staff u"
  using assms
  by (cases req) (auto simp: handle_request_svc kb_viewset_svc kb_has_permission_def split: if_splits)

theorem index_changes_only_on_refresh_witness:
  "\<exists>u now. KbReq staff_user KbRefreshIndex 3 = KbReq u KbRefreshIndex now \<and> is_staff u"
proof -
  have "st_svc (snd (handle_request toy_fit toy_sims (test_state\<lparr>st_svc := \<lparr>index = init_index ()\<rparr>\<rparr>)
          (KbReq staff_user KbRefreshIndex 3)))
     \<noteq> st_svc (test_state\<lparr>st_svc := \<lparr>index = init_index ()\<rparr>\<rparr>)"
    by (simp add: handle_request_svc kb_viewset_svc kb_has_permission_def refresh_index_def load_index_def
        build_def Let_def kb_eval init_index_def toy_fit_def staff_user_def test_state_def)
  then show ?thesis by (rule index_changes_only_on_refresh)
qed

text \<open>
  C34. The index is stale until it is refreshed: from a state satisfying the invariant,
  after any run of requests none of which is a refresh, every context \<open>ask\<close> returns
  is an entry whose key was issued before the run; an entry created during the run is never
  retrieved, however well it matches, until \<open>refresh-index\<close> is called.
\<close>
theorem index_stale_until_refresh:
  assumes "sys_inv rows st" and "list_all (\<lambda>r. \<not> is_refresh r) reqs"
    and "run_requests fit_transform query_sims st reqs = st'"
    and "ask query_sims (st_svc st') (st_db st') q t0 t1 = Inr (a, cs, l)"
  shows "\<forall>c \<in> set cs. ctx_id c < next_entry_id (st_db st)"
proof -
  have "st_svc st' = st_svc st" using assms(2,3) run_requests_not_refresh_svc by blast
  with ask_ids_subset [OF assms(4)] assms(1) show ?thesis by (auto simp: sys_inv_def)
qed

theorem index_stale_until_refresh_witness:
  "let st1 = run_requests toy_fit toy_sims test_state [KbReq staff_user (KbCreate billing_input) 3]
   in next_entry_id (st_db st1) = 4
      \<and> list_all (\<lambda>c. ctx_id c < 3) (fst (snd (projr (ask toy_sims (st_svc st1) (st_db st1) ''invoice'' 0 1))))"
proof -
  define st1 where "st1 = run_requests toy_fit toy_sims test_state [KbReq staff_user (KbCreate billing_input) 3]"
  have inv: "sys_inv (\<lambda>n::nat. n) test_state" by code_simp
  have nr: "list_all (\<lambda>r. \<not> is_refresh r) [KbReq staff_user (KbCreate billing_input) 3]" by simp
  have nid: "next_entry_id (st_db st1) = 4" unfolding st1_def by code_simp
  have a: "ask toy_sims (st_svc st1) (st_db st1) ''invoice'' 0 1
      = Inr (projr (ask toy_sims (st_svc st1) (st_db st1) ''invoice'' 0 1))"
    unfolding st1_def by code_simp
  obtain an cs l where p: "projr (ask toy_sims (st_svc st1) (st_db st1) ''invoice'' 0 1) = (an, cs, l)"
    by (metis prod.exhaust)
  have n3: "next_entry_id (st_db test_state) = 3" by code_simp
  from index_stale_until_refresh [OF inv nr st1_def [symmetric] a [unfolded p]] nid p n3
  show ?thesis unfolding Let_def st1_def [symmetric] by (simp add: list_all_iff)
qed

text \<open>
  C37. A refresh repairs the staleness of C34: after \<open>refresh-index\<close> answers 200,
  \<open>ask\<close> (which retrieves 5 entries) returns exactly the active entries when there
  are at most 5 of them, whatever the question, provided the similarity computation does
  not raise; in particular every entry created before the refresh is retrievable.
\<close>
theorem refresh_makes_active_retrievable:
  assumes fc: "fit_contract fit_transform rows" and sc: "sims_contract query_sims rows"
    and h: "handle_request fit_transform query_sims st (KbReq u KbRefreshIndex now) = (r, st')"
    and ok: "resp_status r = 200"
    and few: "length (active_entries (st_db st)) \<le> 5"
    and tot: "\<forall>m. matrix (index (st_svc st')) = Some m \<longrightarrow> (\<exists>s. query_sims (vectorizer (index (st_svc st'))) m q = Inr s)"
  shows "\<exists>a cs l. ask query_sims (st_svc st') (st_db st') q t0 t1 = Inr (a, cs, l)
                 \<and> ctx_id ` set cs = entry_id ` set (active_entries (st_db st))"
proof -
  note hr = handle_refresh_ok [OF h ok]
  obtain ctx where r: "retrieve query_sims (st_svc st') (st_db st') q 5 = Inr ctx"
      and ids: "entry_id ` set ctx = entry_id ` set (active_entries (st_db st))"
    using retrieve_after_load [OF fc sc conjunct1 [OF hr], where k = 5 and q = q] few tot hr by auto
  then show ?thesis
    by (auto simp: ask_def Let_def to_context_json_def image_image)
qed

theorem refresh_makes_active_retrievable_witness:
  "let st1 = snd (handle_request toy_fit toy_sims test_state (KbReq staff_user (KbCreate billing_input) 3));
       st2 = snd (handle_request toy_fit toy_sims st1 (KbReq staff_user KbRefreshIndex 4))
   in \<exists>a cs l. ask toy_sims (st_svc st2) (st_db st2) ''invoice'' 0 1 = Inr (a, cs, l) \<and> ctx_id ` set cs = {1, 2, 3}"
proof -
  define st1 where "st1 = snd (handle_request toy_fit toy_sims test_state (KbReq staff_user (KbCreate billing_input) 3))"
  obtain r st2 where h: "handle_request toy_fit toy_sims st1 (KbReq staff_user KbRefreshIndex 4) = (r, st2)"
    by fastforce
  have "resp_status (fst (handle_request toy_fit toy_sims st1 (KbReq staff_user KbRefreshIndex 4))) = 200"
    unfolding st1_def by code_simp
  with h have ok: "resp_status r = 200" by simp
  have fc: "fit_contract toy_fit (\<lambda>n::nat. n)" by (simp add: fit_contract_def toy_fit_def)
  have sc: "sims_contract toy_sims (\<lambda>n::nat. n)" by (simp add: sims_contract_def toy_sims_def)
  have few: "length (active_entries (st_db st1)) \<le> 5" unfolding st1_def by code_simp
  have act: "entry_id ` set (active_entries (st_db st1)) = {1, 2, 3}" unfolding st1_def by code_simp
  have t: "\<forall>m. matrix (index (st_svc st2)) = Some m \<longrightarrow> (\<exists>s. toy_sims (vectorizer (index (st_svc st2))) m ''invoice'' = Inr s)"
    by (simp add: toy_sims_def)
  have "\<exists>a cs l. ask toy_sims (st_svc st2) (st_db st2) ''invoice'' 0 1 = Inr (a, cs, l)
      \<and> ctx_id ` set cs = entry_id ` set (active_entries (st_db st1))"
    by (rule refresh_makes_active_retrievable [OF fc sc h ok few t])
  with act h show ?thesis by (simp add: Let_def st1_def [symmetric])
qed

text \<open>
  C38. A deleted entry disappears from answers at once, without a refresh: after a staff
  \<open>DELETE /kb/<id>/\<close>, no context \<open>ask\<close> returns has that key, although the index
  still lists it (C33). Contrast C11: an entry that is only deactivated keeps being
  returned until the next refresh.
\<close>
theorem deleted_entry_not_retrieved:
  assumes "is_staff u"
    and "handle_request fit_transform query_sims st (KbReq u (KbDestroy k) now) = (r, st')"
    and "ask query_sims (st_svc st') (st_db st') q t0 t1 = Inr (a, cs, l)"
  shows "k \<notin> ctx_id ` set cs"
proof -
  have "k \<notin> entry_id ` set (kb_entries (st_db st'))"
    using kb_destroy_removes [OF assms(1)] handle_destroy_db [of fit_transform query_sims st u k now] assms(2)
    by simp
  with ask_ctx_in_table [OF assms(3)] show ?thesis by blast
qed

theorem deleted_entry_not_retrieved_witness:
  "let st' = snd (handle_request toy_fit toy_sims test_state (KbReq staff_user (KbDestroy 1) 3))
   in 1 \<notin> ctx_id ` set (fst (snd (projr (ask toy_sims (st_svc st') (st_db st') ''password'' 0 1))))"
proof -
  obtain r st' where h: "handle_request toy_fit toy_sims test_state (KbReq staff_user (KbDestroy 1) 3) = (r, st')"
    by fastforce
  have "ask toy_sims (st_svc (snd (handle_request toy_fit toy_sims test_state (KbReq staff_user (KbDestroy 1) 3))))
          (st_db (snd (handle_request toy_fit toy_sims test_state (KbReq staff_user (KbDestroy 1) 3)))) ''password'' 0 1
        = Inr (projr (ask toy_sims (st_svc (snd (handle_request toy_fit toy_sims test_state (KbReq staff_user (KbDestroy 1) 3))))
          (st_db (snd (handle_request toy_fit toy_sims test_state (KbReq staff_user (KbDestroy 1) 3)))) ''password'' 0 1))"
    by code_simp
  with h have a: "ask toy_sims (st_svc st') (st_db st') ''password'' 0 1
      = Inr (projr (ask toy_sims (st_svc st') (st_db st') ''password'' 0 1))"
    by simp
  obtain an cs l where p: "projr (ask toy_sims (st_svc st') (st_db st') ''password'' 0 1) = (an, cs, l)"
    by (metis prod.exhaust)
  have staff: "is_staff staff_user" by (simp add: staff_user_def)
  from deleted_entry_not_retrieved [OF staff h a [unfolded p]] p h show ?thesis by (simp add: Let_def)
qed

text \<open>
  C30. Every successful answer has the shape its route declares: whenever a request is
  answered 200 or 201, the body conforms to the response serializer of the route
  (\<open>AskResponseSerializer\<close>, \<open>SearchResponseSerializer\<close>,
  \<open>KnowledgeBaseEntrySerializer\<close> for one entry or a list of them) or to the token schema
  declared on \<open>AuthView\<close>: exactly the declared fields, in order, with values of the
  declared types.
\<close>

theorem responses_conform:
  assumes "resp_status (fst (handle_request fit_transform query_sims st req)) \<in> {200, 201}"
  shows "json_conforms (response_schema req) (resp_body (fst (handle_request fit_transform query_sims st req)))"
proof (cases req)
  case (AskReq u data t0 t1 now)
  with assms show ?thesis by (auto simp: handle_request_def case_prod_unfold intro: ask_view_conforms)
next
  case (SearchReq params)
  with assms show ?thesis
    by (auto simp: handle_request_def django_response_def search_view_conforms split: sum.splits)
next
  case (AuthReq du dp)
  with assms show ?thesis by (auto simp: handle_request_def intro: auth_view_conforms)
next
  case (KbReq u kreq now)
  with assms show ?thesis
    by (auto simp: handle_request_def django_response_def case_prod_unfold kb_viewset_conforms split: sum.splits)
qed simp

theorem responses_conform_witness:
  "json_conforms ask_response_ty
     (resp_body (fst (handle_request toy_fit toy_sims test_state
        (AskReq anonymous (Some ''How do I reset my password?'') 0 1 3))))"
proof -
  have "resp_status (fst (handle_request toy_fit toy_sims test_state
        (AskReq anonymous (Some ''How do I reset my password?'') 0 1 3))) \<in> {200, 201}"
    by code_simp
  from responses_conform [OF this] show ?thesis by simp
qed

text \<open>
  C12. The tests of \<open>tests.py\<close> pass on the deployed configuration, the TF-IDF vectorizer
  with any stop list: \<open>test_health\<close>, and \<open>test_search\<close> and \<open>test_ask\<close> on the table of
  \<open>AskAndSearchTests.setUp\<close>. The singleton was loaded when \<open>services.py\<close> was imported,
  from whatever table existed then (\<open>db0\<close>), so its index need not hold the rows of
  \<open>setUp\<close>: the tests pass for every such table from which the import succeeded, and for
  every clock reading.
\<close>

theorem repository_tests_pass:
  assumes "rag_init (tfidf_fit stop) None db0 = (None, svc)"
  shows "test_health (tfidf_fit stop) (tfidf_sims stop) \<lparr>st_svc = svc, st_db = test_setup_db, st_auth = no_users\<rparr>
       \<and> test_search (tfidf_fit stop) (tfidf_sims stop) \<lparr>st_svc = svc, st_db = test_setup_db, st_auth = no_users\<rparr>
       \<and> test_ask (tfidf_fit stop) (tfidf_sims stop) \<lparr>st_svc = svc, st_db = test_setup_db, st_auth = no_users\<rparr> t0 t1 now"
proof -
  let ?q = "''How do I reset my password?''"
  have wf: "index_wf length (index svc)" and fitted: "\<forall>mat. matrix (index svc) = Some mat \<longrightarrow> (\<exists>m. vectorizer (index svc) = Some m)"
    using rag_init_tfidf [OF assms] by blast+
  have tot: "\<forall>mat. matrix (index svc) = Some mat \<longrightarrow> (\<exists>s. tfidf_sims stop (vectorizer (index svc)) mat ?q = Inr s)"
    using fitted by (auto simp: tfidf_sims_def)
  obtain a cs l where a: "ask (tfidf_sims stop) svc test_setup_db ?q t0 t1 = Inr (a, cs, l)"
    using ask_total [OF wf conjunct2 [OF tfidf_contracts] tot] by blast
  have v: "validate_question (Some ?q) = Inr ?q" by (simp add: validate_question_def py_strip_def py_isspace_def)
  have s: "case search_view test_setup_db [(''query'', ''password'')] of
             Inr r \<Rightarrow> resp_status r = 200 \<and> 1 \<le> (case json_get ''results'' (resp_body r) of Some (JList xs) \<Rightarrow> length xs | _ \<Rightarrow> 0)
           | Inl e \<Rightarrow> False" by code_simp
  have "test_search (tfidf_fit stop) (tfidf_sims stop) \<lparr>st_svc = svc, st_db = test_setup_db, st_auth = no_users\<rparr>"
    using s by (simp add: test_search_def handle_request_def django_response_def split: sum.splits)
  moreover have "test_ask (tfidf_fit stop) (tfidf_sims stop) \<lparr>st_svc = svc, st_db = test_setup_db, st_auth = no_users\<rparr> t0 t1 now"
    by (simp add: test_ask_def handle_request_def ask_view_valid [OF v] a json_get_def)
  ultimately show ?thesis by (simp add: test_health_def handle_request_def health_view_def)
qed

theorem repository_tests_pass_witness:
  "test_health (tfidf_fit []) (tfidf_sims []) \<lparr>st_svc = snd (rag_init (tfidf_fit []) None empty_db), st_db = test_setup_db, st_auth = no_users\<rparr>
   \<and> test_search (tfidf_fit []) (tfidf_sims []) \<lparr>st_svc = snd (rag_init (tfidf_fit []) None empty_db), st_db = test_setup_db, st_auth = no_users\<rparr>
   \<and> test_ask (tfidf_fit []) (tfidf_sims []) \<lparr>st_svc = snd (rag_init (tfidf_fit []) None empty_db), st_db = test_setup_db, st_auth = no_users\<rparr> 0 1 5"
proof -
  have "rag_init (tfidf_fit []) None empty_db = (None, snd (rag_init (tfidf_fit []) None empty_db))"
    by (simp add: rag_init_def load_index_def build_def Let_def kb_eval)
  then show ?thesis by (rule repository_tests_pass)
qed

lemma route_request_Respond_status:
  "route_request base rq = Respond r \<Longrightarrow> resp_status r \<in> {200, 401, 403, 404, 405, 500}"
  by (auto simp: route_request_def kb_dispatch_def api_dispatch_def django_not_found_def not_found_def django_server_error_def
      permission_denied_def method_not_allowed_def api_root_response_def Let_def
      split: option.splits prod.splits if_splits routed.splits view_call.splits)

text \<open>
  C36. Over HTTP, the detail URL \<open>kb/<k>/\<close> of any integer key, with no format or an
  accepted one: a \<open>GET\<close> by any user answers 200 with the row's JSON when \<open>k\<close> is a
  key of the table and 404 otherwise; a \<open>DELETE\<close> by a user who is not staff is refused
  (401/403), and by staff removes exactly that row (204) or answers 404; nothing else
  changes the state.
\<close>

theorem http_kb_detail:
  assumes p: "rq_path rq = reverse_url (RKbDetail (py_int_str k))"
    and f: "accepted_format (requested_format None (rq_params rq))"
  shows "(rq_method rq = GET \<longrightarrow> serve ft qs base st rq t0 t1 now =
            ((case find_entry (st_db st) k of None \<Rightarrow> not_found | Some e \<Rightarrow> \<lparr>resp_status = 200, resp_body = entry_to_json e\<rparr>), st))
       \<and> (rq_method rq = DELETE \<longrightarrow> serve ft qs base st rq t0 t1 now =
            (if \<not> is_staff (rq_user rq) then (permission_denied (rq_user rq), st)
             else case find_entry (st_db st) k of
                    None \<Rightarrow> (not_found, st)
                  | Some e \<Rightarrow> (\<lparr>resp_status = 204, resp_body = JNull\<rparr>, st\<lparr>st_db := delete_entry k (st_db st)\<rparr>)))"
  using route_request_detail [OF p f, of base]
  by (auto simp: serve_def kb_dispatch_def kb_permitted_def py_parse_int_str handle_request_def kb_viewset_def
      kb_has_permission_def django_response_def split: option.splits)

theorem http_kb_detail_witness:
  "fst (serve toy_fit toy_sims ''http://testserver/api/'' test_state
      \<lparr>rq_method = GET, rq_path = ''kb/1/'', rq_user = anonymous, rq_params = [], rq_question = None,
       rq_username = None, rq_password = None,
       rq_entry = \<lparr>in_title = None, in_question = None, in_answer = None, in_tags = None, in_source = None,
                   in_metadata = None, in_is_active = None\<rparr>\<rparr> 0 1 3)
   = \<lparr>resp_status = 200, resp_body = entry_to_json (hd (kb_entries test_setup_db))\<rparr>"
proof -
  have f: "accepted_format (requested_format None [])"
    by (simp add: accepted_format_def requested_format_def query_param_get_def)
  have p: "py_int_str 1 = ''1''" by code_simp
  have e: "find_entry test_setup_db 1 = Some (hd (kb_entries test_setup_db))" by (simp add: find_entry_def kb_eval)
  show ?thesis
    using http_kb_detail [of "\<lparr>rq_method = GET, rq_path = ''kb/1/'', rq_user = anonymous, rq_params = [], rq_question = None,
       rq_username = None, rq_password = None,
       rq_entry = \<lparr>in_title = None, in_question = None, in_answer = None, in_tags = None, in_source = None,
                   in_metadata = None, in_is_active = None\<rparr>\<rparr>" 1 toy_fit toy_sims "''http://testserver/api/''" test_state 0 1 3]
      f p e by (simp add: test_state_def)
qed

end
